theory Spec2Isabelle
  imports Complex_Main "HOL-Library.Sublist"
begin

section \<open>JavaScript strings and numbers\<close>

text \<open>
  The bot (\<^verbatim>\<open>src/bot.js\<close>) works on the text of chat messages. A JavaScript string is
  represented here by its UTF-8 bytes, so that a menu label such as the clipboard emoji
  followed by \<^verbatim>\<open> Profile\<close> is a byte string and \<^verbatim>\<open>===\<close> on strings is equality.

  \<^verbatim>\<open>String.prototype.trim\<close> removes the code points of ECMAScript's WhiteSpace and
  LineTerminator productions from both ends; \<open>whiteSpace\<close> lists their UTF-8 encodings
  (TAB, LF, VT, FF, CR, SP, U+00A0, U+1680, U+2000 to U+200A, U+2028, U+2029, U+202F,
  U+205F, U+3000, U+FEFF).
\<close>

definition whiteSpace :: "string list" where
  "whiteSpace =
    [[CHR 0x09], [CHR 0x0A], [CHR 0x0B], [CHR 0x0C], [CHR 0x0D], [CHR 0x20],
     [CHR 0xC2, CHR 0xA0], [CHR 0xE1, CHR 0x9A, CHR 0x80],
     [CHR 0xE2, CHR 0x80, CHR 0x80], [CHR 0xE2, CHR 0x80, CHR 0x81],
     [CHR 0xE2, CHR 0x80, CHR 0x82], [CHR 0xE2, CHR 0x80, CHR 0x83],
     [CHR 0xE2, CHR 0x80, CHR 0x84], [CHR 0xE2, CHR 0x80, CHR 0x85],
     [CHR 0xE2, CHR 0x80, CHR 0x86], [CHR 0xE2, CHR 0x80, CHR 0x87],
     [CHR 0xE2, CHR 0x80, CHR 0x88], [CHR 0xE2, CHR 0x80, CHR 0x89],
     [CHR 0xE2, CHR 0x80, CHR 0x8A], [CHR 0xE2, CHR 0x80, CHR 0xA8],
     [CHR 0xE2, CHR 0x80, CHR 0xA9], [CHR 0xE2, CHR 0x80, CHR 0xAF],
     [CHR 0xE2, CHR 0x81, CHR 0x9F], [CHR 0xE3, CHR 0x80, CHR 0x80],
     [CHR 0xEF, CHR 0xBB, CHR 0xBF]]"

primrec strip1 :: "string list \<Rightarrow> string \<Rightarrow> string option" where
  "strip1 [] s = None"
| "strip1 (w # ws) s = (if prefix w s then Some (drop (length w) s) else strip1 ws s)"

text \<open>Stripping is repeated at most once per byte of the string, which is enough.\<close>

primrec strip_all :: "nat \<Rightarrow> string list \<Rightarrow> string \<Rightarrow> string" where
  "strip_all 0 ws s = s"
| "strip_all (Suc n) ws s = (case strip1 ws s of None \<Rightarrow> s | Some r \<Rightarrow> strip_all n ws r)"

definition trimStart :: "string \<Rightarrow> string" where
  "trimStart s = strip_all (length s) whiteSpace s"

definition trimEnd :: "string \<Rightarrow> string" where
  "trimEnd s = rev (strip_all (length s) (map rev whiteSpace) (rev s))"

definition trim :: "string \<Rightarrow> string" where
  "trim s = trimEnd (trimStart s)"

text \<open>
  \<^verbatim>\<open>toLowerCase\<close> on the ASCII letters. Bytes of other code points are left as they
  are; no code point outside ASCII lower-cases to a letter that occurs in the field
  names or fitness levels the bot compares against. In the comparison of an addressee
  with the bot's username the Kelvin sign, which JavaScript lower-cases to the letter k,
  is the one code point this leaves out.
\<close>

definition lower_char :: "char \<Rightarrow> char" where
  "lower_char c =
     (case map_of (zip ''ABCDEFGHIJKLMNOPQRSTUVWXYZ'' ''abcdefghijklmnopqrstuvwxyz'') c of
        Some d \<Rightarrow> d
      | None \<Rightarrow> c)"

definition toLowerCase :: "string \<Rightarrow> string" where
  "toLowerCase s = map lower_char s"

text \<open>\<^verbatim>\<open>s.split(sep)\<close> for a one-character separator, and \<^verbatim>\<open>parts.join(sep)\<close>.\<close>

primrec split_acc :: "char \<Rightarrow> string \<Rightarrow> string \<Rightarrow> string list" where
  "split_acc sep cur [] = [rev cur]"
| "split_acc sep cur (c # cs) =
     (if c = sep then rev cur # split_acc sep [] cs else split_acc sep (c # cur) cs)"

definition split :: "char \<Rightarrow> string \<Rightarrow> string list" where
  "split sep s = split_acc sep [] s"

fun join :: "string \<Rightarrow> string list \<Rightarrow> string" where
  "join sep [] = []"
| "join sep [x] = x"
| "join sep (x # y # ys) = x @ sep @ join sep (y # ys)"

text \<open>A natural number in decimal, as a template literal prints a count.\<close>

fun show_nat :: "nat \<Rightarrow> string" where
  "show_nat n =
     (if n < 10 then [''0123456789'' ! n]
      else show_nat (n div 10) @ [''0123456789'' ! (n mod 10)])"

declare show_nat.simps [simp del]

text \<open>
  A JavaScript number is \<open>NaN\<close>, an infinity or a finite value. Finite values are exact
  rationals: the rounding of binary64 is not modelled. A numeral that is no binary64
  number, such as \<^verbatim>\<open>0.99999999999999999\<close>, which JavaScript reads as 1, keeps its exact
  value here; this shows only where a handler compares the number with a bound, and
  whether a text is a number at all does not depend on it.
\<close>

datatype jsnum = NaN | NegInf | Fin rat | PosInf

definition isNaN :: "jsnum \<Rightarrow> bool" where
  "isNaN x = (x = NaN)"

text \<open>\<^verbatim>\<open>a < b\<close> on numbers; a comparison with \<open>NaN\<close> is false.\<close>

fun js_lt :: "jsnum \<Rightarrow> jsnum \<Rightarrow> bool" where
  "js_lt NaN _ = False"
| "js_lt _ NaN = False"
| "js_lt (Fin a) (Fin b) = (a < b)"
| "js_lt NegInf NegInf = False"
| "js_lt NegInf _ = True"
| "js_lt _ NegInf = False"
| "js_lt PosInf _ = False"
| "js_lt _ PosInf = True"

definition is_integer :: "rat \<Rightarrow> bool" where
  "is_integer q = (q = of_int \<lfloor>q\<rfloor>)"

text \<open>
  \<^verbatim>\<open>Number(s)\<close> applied to a string (ECMAScript StringToNumber): surrounding white space
  is dropped, the empty string is 0, and the rest must be a StringNumericLiteral as a
  whole: a signed decimal literal with optional fraction and exponent, a signed
  \<^verbatim>\<open>Infinity\<close>, or an unsigned binary, octal or hexadecimal integer. Anything else is
  \<open>NaN\<close>.
\<close>

definition digit_of :: "nat \<Rightarrow> char \<Rightarrow> nat option" where
  "digit_of radix c =
     (case map_of (zip ''0123456789abcdefABCDEF''
                       [0, 1, 2, 3, 4, 5, 6, 7, 8, 9, 10, 11, 12, 13, 14, 15, 10, 11, 12, 13, 14, 15]) c of
        Some d \<Rightarrow> if d < radix then Some d else None
      | None \<Rightarrow> None)"

definition is_digit :: "char \<Rightarrow> bool" where
  "is_digit c = (digit_of 10 c \<noteq> None)"

primrec digits_value :: "nat \<Rightarrow> nat \<Rightarrow> string \<Rightarrow> nat option" where
  "digits_value radix acc [] = Some acc"
| "digits_value radix acc (c # cs) =
     (case digit_of radix c of
        None \<Rightarrow> None
      | Some d \<Rightarrow> digits_value radix (acc * radix + d) cs)"

definition NonDecimalIntegerLiteral :: "string \<Rightarrow> nat option" where
  "NonDecimalIntegerLiteral s =
     (case s of
        c0 # c1 # ds \<Rightarrow>
          if c0 = CHR ''0'' \<and> ds \<noteq> [] then
            (if c1 = CHR ''x'' \<or> c1 = CHR ''X'' then digits_value 16 0 ds
             else if c1 = CHR ''o'' \<or> c1 = CHR ''O'' then digits_value 8 0 ds
             else if c1 = CHR ''b'' \<or> c1 = CHR ''B'' then digits_value 2 0 ds
             else None)
          else None
      | _ \<Rightarrow> None)"

definition ExponentPart :: "string \<Rightarrow> int option" where
  "ExponentPart s =
     (case s of
        [] \<Rightarrow> Some 0
      | c # r \<Rightarrow>
          if c = CHR ''e'' \<or> c = CHR ''E'' then
            (let neg = (case r of d # _ \<Rightarrow> d = CHR ''-'' | [] \<Rightarrow> False);
                 ds = (case r of
                         d # t \<Rightarrow> if d = CHR ''+'' \<or> d = CHR ''-'' then t else r
                       | [] \<Rightarrow> r)
             in if ds = [] then None
                else (case digits_value 10 0 ds of
                        None \<Rightarrow> None
                      | Some e \<Rightarrow> Some (if neg then - int e else int e)))
          else None)"

definition scale10 :: "rat \<Rightarrow> int \<Rightarrow> rat" where
  "scale10 m e = (if 0 \<le> e then m * 10 ^ nat e else m / 10 ^ nat (- e))"

definition StrUnsignedDecimalLiteral :: "string \<Rightarrow> jsnum" where
  "StrUnsignedDecimalLiteral s =
     (if s = ''Infinity'' then PosInf
      else
        let ip = takeWhile is_digit s;
            r1 = dropWhile is_digit s;
            fp = (case r1 of
                    c # t \<Rightarrow> if c = CHR ''.'' then takeWhile is_digit t else []
                  | [] \<Rightarrow> []);
            r2 = (case r1 of
                    c # t \<Rightarrow> if c = CHR ''.'' then dropWhile is_digit t else r1
                  | [] \<Rightarrow> [])
        in if ip = [] \<and> fp = [] then NaN
           else (case (digits_value 10 0 (ip @ fp), ExponentPart r2) of
                   (Some m, Some e) \<Rightarrow> Fin (scale10 (of_nat m) (e - int (length fp)))
                 | _ \<Rightarrow> NaN))"

definition negate :: "jsnum \<Rightarrow> jsnum" where
  "negate x =
     (case x of NaN \<Rightarrow> NaN | NegInf \<Rightarrow> PosInf | PosInf \<Rightarrow> NegInf | Fin q \<Rightarrow> Fin (- q))"

definition StringNumericLiteral :: "string \<Rightarrow> jsnum" where
  "StringNumericLiteral s =
     (case s of
        [] \<Rightarrow> Fin 0
      | c # r \<Rightarrow>
          if c = CHR ''+'' then StrUnsignedDecimalLiteral r
          else if c = CHR ''-'' then negate (StrUnsignedDecimalLiteral r)
          else (case NonDecimalIntegerLiteral s of
                  Some n \<Rightarrow> Fin (of_nat n)
                | None \<Rightarrow> StrUnsignedDecimalLiteral s))"

definition Number_js :: "string \<Rightarrow> jsnum" where
  "Number_js s = StringNumericLiteral (trim s)"

text \<open>The test \<^verbatim>\<open>/^\d{1,2}:\d{2}$/\<close> of the reminder flows.\<close>

definition is_HHmm :: "string \<Rightarrow> bool" where
  "is_HHmm s =
     (case s of
        [a, c, m1, m2] \<Rightarrow> is_digit a \<and> c = CHR '':'' \<and> is_digit m1 \<and> is_digit m2
      | [a, b, c, m1, m2] \<Rightarrow>
          is_digit a \<and> is_digit b \<and> c = CHR '':'' \<and> is_digit m1 \<and> is_digit m2
      | _ \<Rightarrow> False)"

section \<open>The data model\<close>

text \<open>
  The persistent records follow the Mongoose schemas at the head of the file. A field
  that may be absent is an \<open>option\<close>. A weight-history entry is the triple (profileId,
  value, date), a meal is (profileId, calories, desc, date) and a completed workout is
  (profileId, workoutId, date). The fields \<^verbatim>\<open>preferences\<close> and \<^verbatim>\<open>bodyMeasurements\<close>,
  which no handler writes, are left out. Dates are numbers of milliseconds.
\<close>

record profile =
  id_profile :: string
  name :: string
  age :: "jsnum option"
  weightKg :: "jsnum option"
  heightCm :: "jsnum option"
  fitnessLevel :: "string option"
  goal :: "string option"
  goalTargetDate :: "nat option"
  equipment :: "string list"
  timeAvailabilityMins :: "jsnum option"
  createdAt :: nat

record user =
  telegramId :: int
  firstName :: "string option"
  username :: "string option"
  registeredAt :: nat
  profiles :: "profile list"
  activeProfileId :: "string option"
  consent_dataCollection :: bool
  workoutDailyAt :: "string option"
  waterReminderTimes :: "string list"
  streak :: nat
  badges :: "string list"
  weightHistory :: "(string \<times> jsnum \<times> nat) list"
  workoutsCompleted :: "(string option \<times> string \<times> nat) list"
  meals :: "(string option \<times> jsnum \<times> string \<times> nat) list"
  role :: string

text \<open>
  Exercises, workouts and challenges are stored as the objects the admin flows create:
  JSON values.
\<close>

datatype json =
  JNull | JBool bool | JNum jsnum | JStr string | JArr "json list" | JObj "(string \<times> json) list"

record relay =
  id_relay :: string
  fromId :: int
  profileId_relay :: "string option"
  text_relay :: string
  type_relay :: string
  createdAt_relay :: nat
  read :: bool

text \<open>
  The in-memory state: \<^verbatim>\<open>states\<close> (a Map from the sender's id to the session) and
  \<^verbatim>\<open>adminSessions\<close> (a Set, kept in insertion order because two handlers iterate it).
  The data of a session is the object literal the handler stored; \<open>None\<close> is a session
  stored without a \<^verbatim>\<open>data\<close> property.
\<close>

datatype sdata =
  NoFields | ProfileId string | Profiles "profile list" | ExList "json list" | ToId jsnum

record session =
  step :: string
  data :: "sdata option"

record world =
  states :: "int \<Rightarrow> session option"
  adminSessions :: "int list"
  users :: "user list"
  exercises :: "json list"
  workouts :: "json list"
  challenges :: "json list"
  relays :: "relay list"

text \<open>
  What the process takes from outside: the environment variable \<^verbatim>\<open>ADMIN_PASS\<close>, the
  bot's own username (\<^verbatim>\<open>ctx.me\<close>, which the library reads from the transport at launch), and
  the two library parsers \<^verbatim>\<open>JSON.parse\<close> (\<open>None\<close> when it throws) and moment's strict
  \<^verbatim>\<open>YYYY-MM-DD\<close> parse (\<open>None\<close> when the date is not valid).
\<close>

record env =
  env_ADMIN_PASS :: "string option"
  me :: string
  JSON_parse :: "string \<Rightarrow> json option"
  moment_strict :: "string \<Rightarrow> nat option"

definition ADMIN_PASS :: "env \<Rightarrow> string option" where
  \<comment> \<open>\<^verbatim>\<open>process.env.ADMIN_PASS || null\<close>: the empty string counts as unset.\<close>
  "ADMIN_PASS e =
     (case env_ADMIN_PASS e of None \<Rightarrow> None | Some s \<Rightarrow> if s = [] then None else Some s)"

text \<open>
  An update of the transport. For a text message, \<open>bot_command\<close> is the length of the
  message's first entity when that entity is a bot command at offset 0, as the transport
  marks \<^verbatim>\<open>/command\<close> and \<^verbatim>\<open>/command@botname\<close> at the head of a text, and \<open>None\<close> when the
  message has no such entity. The length counts bytes here: the commands the transport
  marks are ASCII. The update comes with what one turn takes from outside: the clock
  (\<^verbatim>\<open>new Date()\<close>), the identifier \<^verbatim>\<open>uuidv4()\<close> gives a profile made in this turn, the
  identifier the store gives a relayed message made in this turn, and for every outbound
  \<^verbatim>\<open>bot.telegram.sendMessage(chat, text)\<close> whether it throws (\<open>Some message\<close>) or delivers.
  Replies to the sender (\<^verbatim>\<open>ctx.reply\<close>) and the store are taken not to fail.
\<close>

record tg_user =
  id_from :: int
  first_name :: "string option"
  tg_username :: "string option"

datatype update = TextMessage string | OtherMessage | CallbackQuery string

record event =
  sender :: tg_user
  upd :: update
  bot_command :: "nat option"
  now :: nat
  uuid :: string
  oid :: string
  send_error :: "jsnum \<Rightarrow> string \<Rightarrow> string option"

text \<open>
  What a turn does to the outside: replies to the sender and messages sent to other
  chats (with whether they were delivered). A reply whose wording is rendered from
  numbers, dates, charts or stored content is \<open>Rendered\<close> with the name of its handler.
\<close>

datatype effect =
  Reply string | Rendered string | ReplyPhoto | SendMessage jsnum string bool | AnswerCbQuery string

text \<open>
  The handler that took the turn. \<open>StateFlow s\<close> is the branch of the first text
  middleware (line 429) for a session in step \<open>s\<close>; \<open>AdminOp s\<close> is the branch of the
  third one (line 834).
\<close>

datatype handler =
  Start | Hears string | Command string | StateFlow string | AdminBroadcast_first
  | AdminReply | AdminOp string | AdminBroadcast_fallback | ReportBug | Fallback | Callback
  | Unhandled

text \<open>
  The result of a turn: the state after it, its effects in order, the handler that took
  it, and whether that handler threw (a \<^verbatim>\<open>TypeError\<close> on a missing record).
\<close>

record result =
  after :: world
  out :: "effect list"
  by_handler :: handler
  threw :: bool

definition reply :: "world \<Rightarrow> handler \<Rightarrow> string \<Rightarrow> result" where
  "reply w h t = \<lparr>after = w, out = [Reply t], by_handler = h, threw = False\<rparr>"

definition rendered :: "world \<Rightarrow> handler \<Rightarrow> string \<Rightarrow> result" where
  "rendered w h t = \<lparr>after = w, out = [Rendered t], by_handler = h, threw = False\<rparr>"

definition throws :: "world \<Rightarrow> handler \<Rightarrow> result" where
  "throws w h = \<lparr>after = w, out = [], by_handler = h, threw = True\<rparr>"

subsection \<open>The store and the two in-memory collections\<close>

definition findOne :: "int \<Rightarrow> user list \<Rightarrow> user option" where
  "findOne tid us = find (\<lambda>u. telegramId u = tid) us"

text \<open>\<^verbatim>\<open>user.save()\<close> writes the document back in place of the one it was read from.\<close>

fun save :: "user \<Rightarrow> user list \<Rightarrow> user list" where
  "save u [] = []"
| "save u (x # xs) = (if telegramId x = telegramId u then u # xs else x # save u xs)"

definition User_create :: "int \<Rightarrow> string option \<Rightarrow> string option \<Rightarrow> nat \<Rightarrow> user" where
  "User_create tid fn un t =
     \<lparr>telegramId = tid, firstName = fn, username = un, registeredAt = t, profiles = [],
      activeProfileId = None, consent_dataCollection = True, workoutDailyAt = None,
      waterReminderTimes = [], streak = 0, badges = [], weightHistory = [],
      workoutsCompleted = [], meals = [], role = ''user''\<rparr>"

text \<open>
  A query by a number read from the chat (\<^verbatim>\<open>{ telegramId: Number(t) }\<close>) matches the
  users whose id is that number; a number that is no integer matches none.
\<close>

definition has_id :: "jsnum \<Rightarrow> user \<Rightarrow> bool" where
  "has_id n u = (n = Fin (of_int (telegramId u)))"

fun deleteOne :: "jsnum \<Rightarrow> user list \<Rightarrow> user list" where
  "deleteOne n [] = []"
| "deleteOne n (x # xs) = (if has_id n x then xs else x # deleteOne n xs)"

definition states_set :: "int \<Rightarrow> string \<Rightarrow> sdata option \<Rightarrow> world \<Rightarrow> world" where
  "states_set k s d w = w\<lparr>states := (states w)(k \<mapsto> \<lparr>step = s, data = d\<rparr>)\<rparr>"

definition states_delete :: "int \<Rightarrow> world \<Rightarrow> world" where
  "states_delete k w = w\<lparr>states := (states w)(k := None)\<rparr>"

definition adminSessions_has :: "world \<Rightarrow> int \<Rightarrow> bool" where
  "adminSessions_has w k = (k \<in> set (adminSessions w))"

definition adminSessions_add :: "int \<Rightarrow> world \<Rightarrow> world" where
  "adminSessions_add k w =
     (if k \<in> set (adminSessions w) then w else w\<lparr>adminSessions := adminSessions w @ [k]\<rparr>)"

definition adminSessions_delete :: "int \<Rightarrow> world \<Rightarrow> world" where
  "adminSessions_delete k w = w\<lparr>adminSessions := removeAll k (adminSessions w)\<rparr>"

text \<open>\<^verbatim>\<open>a || b\<close> on a string that may be absent: the empty string is falsy too.\<close>

definition or_str :: "string option \<Rightarrow> string \<Rightarrow> string" where
  "or_str a b = (case a of None \<Rightarrow> b | Some s \<Rightarrow> if s = [] then b else s)"

text \<open>
  \<^verbatim>\<open>user.profiles.find(p => p.id === pid) || user.profiles[0]\<close>, as the position of the
  profile; \<open>None\<close> when the list is empty (the expression is \<^verbatim>\<open>undefined\<close>).
\<close>

fun index_of :: "string option \<Rightarrow> profile list \<Rightarrow> nat option" where
  "index_of pid [] = None"
| "index_of pid (p # ps) =
     (if Some (id_profile p) = pid then Some 0 else map_option Suc (index_of pid ps))"

definition find_or_first :: "string option \<Rightarrow> profile list \<Rightarrow> nat option" where
  "find_or_first pid ps =
     (case index_of pid ps of Some i \<Rightarrow> Some i | None \<Rightarrow> if ps = [] then None else Some 0)"

definition data_profileId :: "sdata \<Rightarrow> string option" where
  "data_profileId d = (case d of ProfileId p \<Rightarrow> Some p | _ \<Rightarrow> None)"

text \<open>
  The profile a flow works on:
  \<^verbatim>\<open>user.profiles.find(p => p.id === state.data.profileId) || user.profiles[0]\<close>.
  \<open>Inl False\<close> is \<^verbatim>\<open>undefined\<close> (no profile at all), \<open>Inl True\<close> is the \<^verbatim>\<open>TypeError\<close> of
  reading \<^verbatim>\<open>state.data.profileId\<close> in a session without data.
\<close>

definition flow_profile :: "session \<Rightarrow> user \<Rightarrow> bool + nat" where
  "flow_profile state u =
     (if profiles u = [] then Inl False
      else (case data state of
              None \<Rightarrow> Inl True
            | Some d \<Rightarrow>
                (case find_or_first (data_profileId d) (profiles u) of
                   None \<Rightarrow> Inl False
                 | Some i \<Rightarrow> Inr i)))"

definition new_profile :: "string \<Rightarrow> string \<Rightarrow> jsnum option \<Rightarrow> nat \<Rightarrow> profile" where
  "new_profile pid nm mins t =
     \<lparr>id_profile = pid, name = nm, age = None, weightKg = None, heightCm = None,
      fitnessLevel = Some ''beginner'', goal = Some ''general fitness'',
      goalTargetDate = None, equipment = [], timeAvailabilityMins = mins, createdAt = t\<rparr>"

section \<open>The handlers registered before the state dispatcher\<close>

text \<open>
  Every handler below is passed to \<^verbatim>\<open>bot.start\<close> or \<^verbatim>\<open>bot.hears\<close> and never calls
  \<^verbatim>\<open>next()\<close>: once its trigger matches, the turn ends with it. Keyboards are left out of
  the replies.
\<close>

subsection \<open>Welcome and onboarding (line 216)\<close>

text \<open>The default profile \<^verbatim>\<open>p\<close> and the user document saved for a new sender.\<close>

definition default_profile :: "event \<Rightarrow> profile" where
  "default_profile ev =
     new_profile (uuid ev) (or_str (first_name (sender ev)) ''You'') (Some (Fin 30)) (now ev)"

definition registered_user :: "event \<Rightarrow> user" where
  "registered_user ev =
     (User_create (id_from (sender ev)) (Some (or_str (first_name (sender ev)) []))
        (Some (or_str (tg_username (sender ev)) [])) (now ev))
     \<lparr>profiles := [default_profile ev],
      activeProfileId := Some (id_profile (default_profile ev))\<rparr>"

definition bot_start :: "world \<Rightarrow> event \<Rightarrow> result" where
  "bot_start w ev =
     (let tg = sender ev in
      case findOne (id_from tg) (users w) of
        Some user \<Rightarrow>
          reply w Start (''Welcome back '' @ or_str (first_name tg) [] @ ''! Use the menu.'')
      | None \<Rightarrow>
          \<lparr>after = states_set (id_from tg) ''edit_profile_full''
                      (Some (ProfileId (id_profile (default_profile ev))))
                      (w\<lparr>users := users w @ [registered_user ev]\<rparr>),
           out = [Reply (''Welcome '' @ or_str (first_name tg) []
                         @ ''! Profile created. Please complete your profile.''),
                  Reply ''Send your age (number) to complete profile setup.''],
           by_handler = Start, threw = False\<rparr>)"

subsection \<open>Menu handlers (lines 235 to 426)\<close>

definition L_Profile :: string where "L_Profile = ([CHR 0xF0, CHR 0x9F, CHR 0x93, CHR 0x8B] @ '' Profile'')"
definition L_Edit_Profile :: string where "L_Edit_Profile = ([CHR 0xE2, CHR 0x9C, CHR 0x8F, CHR 0xEF, CHR 0xB8, CHR 0x8F] @ '' Edit Profile'')"
definition L_Switch_Profile :: string where "L_Switch_Profile = ([CHR 0xF0, CHR 0x9F, CHR 0x94, CHR 0x81] @ '' Switch Profile'')"
definition L_Add_Profile :: string where "L_Add_Profile = ([CHR 0xE2, CHR 0x9E, CHR 0x95] @ '' Add Profile'')"
definition L_Delete_Profile :: string where "L_Delete_Profile = ([CHR 0xF0, CHR 0x9F, CHR 0x97, CHR 0x91, CHR 0xEF, CHR 0xB8, CHR 0x8F] @ '' Delete Profile'')"
definition L_Workouts :: string where "L_Workouts = ([CHR 0xF0, CHR 0x9F, CHR 0x92, CHR 0xAA] @ '' Workouts'')"
definition L_Today :: string where "L_Today = ([CHR 0xF0, CHR 0x9F, CHR 0x8F, CHR 0x8B, CHR 0xEF, CHR 0xB8, CHR 0x8F] @ '' Today'')"
definition L_My_Plan :: string where "L_My_Plan = ([CHR 0xF0, CHR 0x9F, CHR 0x93, CHR 0x9D] @ '' My Plan'')"
definition L_Browse_Exercises :: string where "L_Browse_Exercises = ([CHR 0xF0, CHR 0x9F, CHR 0x94, CHR 0x8E] @ '' Browse Exercises'')"
definition L_Nutrition :: string where "L_Nutrition = ([CHR 0xF0, CHR 0x9F, CHR 0x8D, CHR 0x8E] @ '' Nutrition'')"
definition L_Log_Meal :: string where "L_Log_Meal = ([CHR 0xE2, CHR 0x9E, CHR 0x95] @ '' Log Meal'')"
definition L_View_Meals :: string where "L_View_Meals = ([CHR 0xF0, CHR 0x9F, CHR 0x93, CHR 0x9C] @ '' View Meals'')"
definition L_Macro_Advice :: string where "L_Macro_Advice = ([CHR 0xF0, CHR 0x9F, CHR 0x8D, CHR 0xBD, CHR 0xEF, CHR 0xB8, CHR 0x8F] @ '' Macro Advice'')"
definition L_Water_Tracker :: string where "L_Water_Tracker = ([CHR 0xF0, CHR 0x9F, CHR 0x92, CHR 0xA7] @ '' Water Tracker'')"
definition L_Progress :: string where "L_Progress = ([CHR 0xF0, CHR 0x9F, CHR 0x93, CHR 0x8A] @ '' Progress'')"
definition L_Reminders :: string where "L_Reminders = ([CHR 0xF0, CHR 0x9F, CHR 0x93, CHR 0x85] @ '' Reminders'')"
definition L_Set_Daily_Workout :: string where "L_Set_Daily_Workout = ''Set Daily Workout''"
definition L_Set_Water_Reminders :: string where "L_Set_Water_Reminders = ''Set Water Reminders''"
definition L_Remove_Reminders :: string where "L_Remove_Reminders = ''Remove Reminders''"
definition L_Trainer :: string where "L_Trainer = ([CHR 0xF0, CHR 0x9F, CHR 0x92, CHR 0xAC] @ '' Trainer'')"
definition L_Challenges :: string where "L_Challenges = ([CHR 0xF0, CHR 0x9F, CHR 0x8F, CHR 0x86] @ '' Challenges'')"
definition L_Settings :: string where "L_Settings = ([CHR 0xE2, CHR 0x9A, CHR 0x99, CHR 0xEF, CHR 0xB8, CHR 0x8F] @ '' Settings'')"
definition L_Help :: string where "L_Help = ([CHR 0xE2, CHR 0x84, CHR 0xB9, CHR 0xEF, CHR 0xB8, CHR 0x8F] @ '' Help'')"

definition profile_line :: "user \<Rightarrow> profile \<Rightarrow> string" where
  "profile_line u p =
     ([CHR 0xE2, CHR 0x80, CHR 0xA2] @ '' '') @ name p @ ('' '' @ [CHR 0xE2, CHR 0x80, CHR 0x94] @ '' '') @ or_str (fitnessLevel p) ''-'' @ ('' '' @ [CHR 0xE2, CHR 0x80, CHR 0x94] @ '' '') @ or_str (goal p) ''-''
     @ '' '' @ (if Some (id_profile p) = activeProfileId u then ''(active)'' else []) @ [CHR 0x0A]"

definition hears_Profile :: "world \<Rightarrow> event \<Rightarrow> result" where
  "hears_Profile w ev =
     (case findOne (id_from (sender ev)) (users w) of
        None \<Rightarrow> reply w (Hears L_Profile) ''Please /start first.''
      | Some u \<Rightarrow>
          reply w (Hears L_Profile)
            (''*Profiles*: ('' @ show_nat (length (profiles u)) @ ('')'' @ [CHR 0x0A])
             @ concat (map (profile_line u) (profiles u))
             @ ([CHR 0x0A] @ ''Choose: Edit Profile / Switch Profile / Add Profile / Delete Profile'')))"

definition hears_Edit_Profile :: "world \<Rightarrow> event \<Rightarrow> result" where
  "hears_Edit_Profile w ev =
     (case findOne (id_from (sender ev)) (users w) of
        None \<Rightarrow> reply w (Hears L_Edit_Profile) ''Start with /start''
      | Some u \<Rightarrow>
          (case find_or_first (activeProfileId u) (profiles u) of
             None \<Rightarrow> throws w (Hears L_Edit_Profile)
           | Some i \<Rightarrow>
               reply (states_set (id_from (sender ev)) ''editing_profile_field''
                        (Some (ProfileId (id_profile (profiles u ! i)))) w)
                 (Hears L_Edit_Profile)
                 ''Which field do you want to edit? (name, age, weight, height, fitnessLevel, goal, targetDate, equipment, timeAvailability)''))"

definition switch_line :: "nat \<times> profile \<Rightarrow> string" where
  "switch_line ip =
     show_nat (fst ip + 1) @ ''. '' @ name (snd ip) @ '' ('' @ or_str (fitnessLevel (snd ip)) ''-''
     @ ('')'' @ [CHR 0x0A])"

definition hears_Switch_Profile :: "world \<Rightarrow> event \<Rightarrow> result" where
  "hears_Switch_Profile w ev =
     (case findOne (id_from (sender ev)) (users w) of
        None \<Rightarrow> reply w (Hears L_Switch_Profile) ''Start with /start''
      | Some u \<Rightarrow>
          if profiles u = [] then reply w (Hears L_Switch_Profile) ''No profiles. Add one.''
          else reply (states_set (id_from (sender ev)) ''switch_profile''
                        (Some (Profiles (profiles u))) w)
                 (Hears L_Switch_Profile)
                 ((''Send profile number to switch:'' @ [CHR 0x0A])
                  @ concat (map switch_line (enumerate 0 (profiles u)))))"

definition hears_Add_Profile :: "world \<Rightarrow> event \<Rightarrow> result" where
  "hears_Add_Profile w ev =
     (case findOne (id_from (sender ev)) (users w) of
        None \<Rightarrow> reply w (Hears L_Add_Profile) ''Start with /start''
      | Some u \<Rightarrow>
          let newProfile = new_profile (uuid ev) (or_str (first_name (sender ev)) ''Profile'')
                             None (now ev);
              u' = u\<lparr>profiles := profiles u @ [newProfile],
                     activeProfileId := Some (id_profile newProfile)\<rparr>
          in reply (w\<lparr>users := save u' (users w)\<rparr>) (Hears L_Add_Profile)
               ((''Added profile '' @ [CHR 0x22]) @ name newProfile
                @ ([CHR 0x22] @ '' and switched to it. Use Edit Profile to complete details.'')))"

definition hears_Delete_Profile :: "world \<Rightarrow> event \<Rightarrow> result" where
  "hears_Delete_Profile w ev =
     reply (states_set (id_from (sender ev)) ''delete_profile'' (Some NoFields) w)
       (Hears L_Delete_Profile) ''Send profile number to delete (cannot delete last profile).''"

definition hears_Workouts :: "world \<Rightarrow> event \<Rightarrow> result" where
  "hears_Workouts w ev = reply w (Hears L_Workouts) ''Workouts menu''"

definition hears_Today :: "world \<Rightarrow> event \<Rightarrow> result" where
  "hears_Today w ev =
     (if workouts w = [] then reply w (Hears L_Today) ''No workouts configured.''
      else (case findOne (id_from (sender ev)) (users w) of
              None \<Rightarrow> throws w (Hears L_Today)
            | Some u \<Rightarrow>
                (case find_or_first (activeProfileId u) (profiles u) of
                   None \<Rightarrow> throws w (Hears L_Today)
                 | Some i \<Rightarrow> rendered w (Hears L_Today) (''Today'' @ [CHR 0x27] @ ''s Workout''))))"

definition hears_My_Plan :: "world \<Rightarrow> event \<Rightarrow> result" where
  "hears_My_Plan w ev =
     (case findOne (id_from (sender ev)) (users w) of
        None \<Rightarrow> throws w (Hears L_My_Plan)
      | Some u \<Rightarrow>
          (case index_of (activeProfileId u) (profiles u) of
             None \<Rightarrow> throws w (Hears L_My_Plan)
           | Some i \<Rightarrow>
               if filter (\<lambda>c. fst c = Some (id_profile (profiles u ! i))) (workoutsCompleted u) \<noteq> []
               then reply w (Hears L_My_Plan)
                      ''Showing recent workouts (from history). Use Browse Exercises to build a plan.''
               else rendered w (Hears L_My_Plan) ''Your 3-day starter plan''))"

definition hears_Browse_Exercises :: "world \<Rightarrow> event \<Rightarrow> result" where
  "hears_Browse_Exercises w ev =
     rendered (states_set (id_from (sender ev)) ''browse_exercises''
                 (Some (ExList (take 30 (exercises w)))) w)
       (Hears L_Browse_Exercises) ''Exercise Library''"

definition hears_Nutrition :: "world \<Rightarrow> event \<Rightarrow> result" where
  "hears_Nutrition w ev = reply w (Hears L_Nutrition) ''Nutrition menu''"

definition hears_Log_Meal :: "world \<Rightarrow> event \<Rightarrow> result" where
  "hears_Log_Meal w ev =
     reply (states_set (id_from (sender ev)) ''log_meal'' (Some NoFields) w)
       (Hears L_Log_Meal) ''Send meal like: 600 oats + banana''"

definition hears_View_Meals :: "world \<Rightarrow> event \<Rightarrow> result" where
  "hears_View_Meals w ev =
     (case findOne (id_from (sender ev)) (users w) of
        None \<Rightarrow> throws w (Hears L_View_Meals)
      | Some u \<Rightarrow>
          if meals u = [] then reply w (Hears L_View_Meals) ''No meals logged yet.''
          else rendered w (Hears L_View_Meals) ''Recent Meals'')"

definition hears_Macro_Advice :: "world \<Rightarrow> event \<Rightarrow> result" where
  "hears_Macro_Advice w ev =
     (case findOne (id_from (sender ev)) (users w) of
        None \<Rightarrow> throws w (Hears L_Macro_Advice)
      | Some u \<Rightarrow>
          (case index_of (activeProfileId u) (profiles u) of
             None \<Rightarrow> reply w (Hears L_Macro_Advice) ''Set up profile first.''
           | Some i \<Rightarrow> rendered w (Hears L_Macro_Advice) ''Estimated daily calories''))"

definition hears_Water_Tracker :: "world \<Rightarrow> event \<Rightarrow> result" where
  "hears_Water_Tracker w ev =
     reply (states_set (id_from (sender ev)) ''set_water_times'' (Some NoFields) w)
       (Hears L_Water_Tracker)
       (''Send water reminder times separated by comma (e.g., 10:00,14:00,18:00) or '' @ [CHR 0x22] @ ''off'' @ [CHR 0x22] @ '' to disable.'')"

definition hears_Progress :: "world \<Rightarrow> event \<Rightarrow> result" where
  "hears_Progress w ev =
     (case findOne (id_from (sender ev)) (users w) of
        None \<Rightarrow> throws w (Hears L_Progress)
      | Some u \<Rightarrow>
          if filter (\<lambda>e. Some (fst e) = activeProfileId u) (weightHistory u) = []
          then reply w (Hears L_Progress)
                 ''No weight history yet. Log weight in profile edits or via /log (menu).''
          else \<lparr>after = w, out = [ReplyPhoto], by_handler = Hears L_Progress, threw = False\<rparr>)"

definition hears_Reminders :: "world \<Rightarrow> event \<Rightarrow> result" where
  "hears_Reminders w ev = reply w (Hears L_Reminders) ''Reminders menu''"

definition hears_Set_Daily_Workout :: "world \<Rightarrow> event \<Rightarrow> result" where
  "hears_Set_Daily_Workout w ev =
     reply (states_set (id_from (sender ev)) ''set_daily_reminder'' (Some NoFields) w)
       (Hears L_Set_Daily_Workout)
       ''Send time like 18:30 (HH:mm) to receive daily workout reminder.''"

definition hears_Set_Water_Reminders :: "world \<Rightarrow> event \<Rightarrow> result" where
  "hears_Set_Water_Reminders w ev =
     reply (states_set (id_from (sender ev)) ''set_water_reminders'' (Some NoFields) w)
       (Hears L_Set_Water_Reminders) ''Send times list like 09:00,12:00,15:00''"

definition hears_Remove_Reminders :: "world \<Rightarrow> event \<Rightarrow> result" where
  "hears_Remove_Reminders w ev =
     (case findOne (id_from (sender ev)) (users w) of
        None \<Rightarrow> reply w (Hears L_Remove_Reminders) ''Start with /start.''
      | Some u \<Rightarrow>
          reply (w\<lparr>users := save (u\<lparr>workoutDailyAt := None, waterReminderTimes := []\<rparr>)
                              (users w)\<rparr>)
            (Hears L_Remove_Reminders) ''Removed reminders.'')"

definition hears_Trainer :: "world \<Rightarrow> event \<Rightarrow> result" where
  "hears_Trainer w ev =
     reply (states_set (id_from (sender ev)) ''message_trainer'' (Some NoFields) w)
       (Hears L_Trainer) ''Type your message for the trainer / admin (feedback or question).''"

text \<open>
  The challenges handler replies with the list of the challenges whose dates include
  the present, or that there is none; it changes nothing.
\<close>

definition hears_Challenges :: "world \<Rightarrow> event \<Rightarrow> result" where
  "hears_Challenges w ev = rendered w (Hears L_Challenges) ''Active Challenges''"

definition hears_Settings :: "world \<Rightarrow> event \<Rightarrow> result" where
  "hears_Settings w ev =
     reply w (Hears L_Settings)
       ''Settings: language, notifications, data request. Use buttons or type option.''"

definition hears_Help :: "world \<Rightarrow> event \<Rightarrow> result" where
  "hears_Help w ev =
     reply w (Hears L_Help)
       (''Help:'' @ [CHR 0x0A, CHR 0xE2, CHR 0x80, CHR 0xA2] @ '' Use the menu to navigate features.'' @ [CHR 0x0A, CHR 0xE2, CHR 0x80, CHR 0xA2] @ '' Admins: use /admin to login.'' @ [CHR 0x0A, CHR 0xE2, CHR 0x80, CHR 0xA2] @ '' For data deletion or privacy queries, use Settings -> Request Data Deletion.'')"

section \<open>The state dispatcher (first text middleware, line 429)\<close>

text \<open>
  The middleware reads the sender's session and runs the branch of its step on the
  trimmed text. Each branch is a definition of its own; \<open>on_text_state\<close> chains them in
  the order of the source and is \<open>None\<close> where the source calls \<^verbatim>\<open>next()\<close>.
\<close>

subsection \<open>Admin login (line 434)\<close>

definition step_await_admin_pass :: "env \<Rightarrow> world \<Rightarrow> event \<Rightarrow> string \<Rightarrow> result" where
  "step_await_admin_pass e w ev txt =
     (let w1 = states_delete (id_from (sender ev)) w in
      if Some txt = ADMIN_PASS e
      then \<lparr>after = adminSessions_add (id_from (sender ev)) w1,
            out = [Reply ''Admin access granted''],
            by_handler = StateFlow ''await_admin_pass'', threw = False\<rparr>
      else reply w1 (StateFlow ''await_admin_pass'') ''Wrong password'')"

subsection \<open>The onboarding chain: age, weight, height (lines 447 to 478)\<close>

definition step_edit_profile_full :: "world \<Rightarrow> event \<Rightarrow> session \<Rightarrow> string \<Rightarrow> result" where
  "step_edit_profile_full w ev state txt =
     (let h = StateFlow ''edit_profile_full''; a = Number_js txt in
      if isNaN a then reply w h ''Please send a number for age.''
      else (case findOne (id_from (sender ev)) (users w) of
              None \<Rightarrow> throws w h
            | Some user \<Rightarrow>
                (case flow_profile state user of
                   Inl _ \<Rightarrow> throws w h
                 | Inr i \<Rightarrow>
                     let prof = (profiles user ! i)\<lparr>age := Some a\<rparr>;
                         user' = user\<lparr>profiles := (profiles user)[i := prof]\<rparr>
                     in reply (states_set (id_from (sender ev)) ''edit_profile_weight''
                                 (Some (ProfileId (id_profile prof)))
                                 (w\<lparr>users := save user' (users w)\<rparr>))
                          h ''Send weight in kg (number).'')))"

definition step_edit_profile_weight :: "world \<Rightarrow> event \<Rightarrow> session \<Rightarrow> string \<Rightarrow> result" where
  "step_edit_profile_weight w ev state txt =
     (let h = StateFlow ''edit_profile_weight''; val = Number_js txt in
      if isNaN val then reply w h ''Send numeric weight in kg.''
      else (case findOne (id_from (sender ev)) (users w) of
              None \<Rightarrow> throws w h
            | Some user \<Rightarrow>
                (case flow_profile state user of
                   Inl _ \<Rightarrow> throws w h
                 | Inr i \<Rightarrow>
                     let prof = (profiles user ! i)\<lparr>weightKg := Some val\<rparr>;
                         user' = user\<lparr>profiles := (profiles user)[i := prof],
                                      weightHistory :=
                                        weightHistory user @ [(id_profile prof, val, now ev)]\<rparr>
                     in reply (states_set (id_from (sender ev)) ''edit_profile_height''
                                 (Some (ProfileId (id_profile prof)))
                                 (w\<lparr>users := save user' (users w)\<rparr>))
                          h ''Send height in cm (number).'')))"

definition step_edit_profile_height :: "world \<Rightarrow> event \<Rightarrow> session \<Rightarrow> string \<Rightarrow> result" where
  "step_edit_profile_height w ev state txt =
     (let h = StateFlow ''edit_profile_height''; val = Number_js txt in
      if isNaN val then reply w h ''Send numeric height in cm.''
      else (case findOne (id_from (sender ev)) (users w) of
              None \<Rightarrow> throws w h
            | Some user \<Rightarrow>
                (case flow_profile state user of
                   Inl _ \<Rightarrow> throws w h
                 | Inr i \<Rightarrow>
                     let prof = (profiles user ! i)\<lparr>heightCm := Some val\<rparr>;
                         user' = user\<lparr>profiles := (profiles user)[i := prof]\<rparr>
                     in reply (states_delete (id_from (sender ev))
                                 (w\<lparr>users := save user' (users w)\<rparr>))
                          h ''Profile updated. Use the menu.'')))"

subsection \<open>The generic field editor (lines 481 to 519)\<close>

definition allowed :: "string list" where
  "allowed = [''name'', ''age'', ''weight'', ''height'', ''fitnesslevel'', ''goal'',
              ''targetdate'', ''equipment'', ''timeavailability'']"

definition step_editing_profile_field :: "world \<Rightarrow> event \<Rightarrow> session \<Rightarrow> string \<Rightarrow> result" where
  "step_editing_profile_field w ev state txt =
     (let h = StateFlow ''editing_profile_field''; field = toLowerCase txt in
      if field \<notin> set allowed
      then reply w h (''Field not recognized. Allowed: '' @ join '', '' allowed)
      else reply (states_set (id_from (sender ev)) (''editing_profile_'' @ field) (data state) w)
             h (''Send new value for '' @ field @ ''.''))"

text \<open>
  The end of a successful edit: the assignment to \<^verbatim>\<open>prof\<close> (a \<^verbatim>\<open>TypeError\<close> when
  \<^verbatim>\<open>prof\<close> is \<^verbatim>\<open>undefined\<close>), whatever else the branch changes on the user,
  \<^verbatim>\<open>user.save()\<close>, \<^verbatim>\<open>states.delete\<close> and the reply.
\<close>

definition editor_commit ::
  "world \<Rightarrow> event \<Rightarrow> handler \<Rightarrow> user \<Rightarrow> bool + nat \<Rightarrow> (profile \<Rightarrow> profile) \<Rightarrow>
   (profile \<Rightarrow> user \<Rightarrow> user) \<Rightarrow> result" where
  "editor_commit w ev h user p f g =
     (case p of
        Inl _ \<Rightarrow> throws w h
      | Inr i \<Rightarrow>
          let prof = f (profiles user ! i);
              user' = g prof (user\<lparr>profiles := (profiles user)[i := prof]\<rparr>)
          in reply (states_delete (id_from (sender ev)) (w\<lparr>users := save user' (users w)\<rparr>))
               h ''Profile updated.'')"

text \<open>
  The last branch is \<^verbatim>\<open>prof[field] = text\<close>. Line 485 is the only place that stores a
  step with this prefix, and it stores one of the nine allowed names, so the field there
  is \<^verbatim>\<open>name\<close> or \<^verbatim>\<open>goal\<close>; for any other name the model changes no field of the schema.
\<close>

definition step_editing_profile ::
  "env \<Rightarrow> world \<Rightarrow> event \<Rightarrow> session \<Rightarrow> string \<Rightarrow> result" where
  "step_editing_profile e w ev state txt =
     (let h = StateFlow (step state);
          field = drop (length ''editing_profile_'') (step state)
      in case findOne (id_from (sender ev)) (users w) of
           None \<Rightarrow> throws w h
         | Some user \<Rightarrow>
             (case flow_profile state user of
                Inl True \<Rightarrow> throws w h
              | p \<Rightarrow>
                  if field \<in> set [''age'', ''weight'', ''height'', ''timeavailability''] then
                    (let num = Number_js txt in
                     if isNaN num then reply w h ''Send a number.''
                     else if field = ''age'' then
                       editor_commit w ev h user p (\<lambda>q. q\<lparr>age := Some num\<rparr>) (\<lambda>q u. u)
                     else if field = ''weight'' then
                       editor_commit w ev h user p (\<lambda>q. q\<lparr>weightKg := Some num\<rparr>)
                         (\<lambda>q u. u\<lparr>weightHistory :=
                                      weightHistory u @ [(id_profile q, num, now ev)]\<rparr>)
                     else if field = ''height'' then
                       editor_commit w ev h user p (\<lambda>q. q\<lparr>heightCm := Some num\<rparr>) (\<lambda>q u. u)
                     else
                       editor_commit w ev h user p (\<lambda>q. q\<lparr>timeAvailabilityMins := Some num\<rparr>)
                         (\<lambda>q u. u))
                  else if field = ''targetdate'' then
                    (case moment_strict e txt of
                       None \<Rightarrow> reply w h ''Send date as YYYY-MM-DD''
                     | Some d \<Rightarrow>
                         editor_commit w ev h user p (\<lambda>q. q\<lparr>goalTargetDate := Some d\<rparr>)
                           (\<lambda>q u. u))
                  else if field = ''equipment'' then
                    editor_commit w ev h user p
                      (\<lambda>q. q\<lparr>equipment :=
                               filter (\<lambda>s. s \<noteq> []) (map trim (split CHR '','' txt))\<rparr>)
                      (\<lambda>q u. u)
                  else if field = ''fitnesslevel'' then
                    editor_commit w ev h user p (\<lambda>q. q\<lparr>fitnessLevel := Some (toLowerCase txt)\<rparr>)
                      (\<lambda>q u. u)
                  else if field = ''name'' then
                    editor_commit w ev h user p (\<lambda>q. q\<lparr>name := txt\<rparr>) (\<lambda>q u. u)
                  else if field = ''goal'' then
                    editor_commit w ev h user p (\<lambda>q. q\<lparr>goal := Some txt\<rparr>) (\<lambda>q u. u)
                  else editor_commit w ev h user p (\<lambda>q. q) (\<lambda>q u. u)))"

subsection \<open>Switching and deleting profiles (lines 522 to 545)\<close>

definition step_switch_profile :: "world \<Rightarrow> event \<Rightarrow> session \<Rightarrow> string \<Rightarrow> result" where
  "step_switch_profile w ev state txt =
     (let h = StateFlow ''switch_profile''; idx = Number_js txt in
      if isNaN idx then reply w h ''Send profile number.''
      else (case data state of
              None \<Rightarrow> throws w h
            | Some d \<Rightarrow>
                let arr = (case d of Profiles ps \<Rightarrow> ps | _ \<Rightarrow> []) in
                if js_lt idx (Fin 1) \<or> js_lt (Fin (of_nat (length arr))) idx
                then reply w h ''Invalid number.''
                else (case idx of
                        Fin q \<Rightarrow>
                          if \<not> is_integer q then throws w h
                          else (case findOne (id_from (sender ev)) (users w) of
                                  None \<Rightarrow> throws w h
                                | Some user \<Rightarrow>
                                    let p = arr ! nat (\<lfloor>q\<rfloor> - 1);
                                        user' = user\<lparr>activeProfileId := Some (id_profile p)\<rparr>
                                    in reply (states_delete (id_from (sender ev))
                                                (w\<lparr>users := save user' (users w)\<rparr>))
                                         h (''Switched to profile '' @ name p))
                      | _ \<Rightarrow> throws w h)))"

text \<open>
  \<^verbatim>\<open>user.profiles.splice(idx-1, 1)\<close> removes the element at the integer part of
  \<^verbatim>\<open>idx-1\<close>.
\<close>

definition splice1 :: "nat \<Rightarrow> 'a list \<Rightarrow> 'a list" where
  "splice1 k xs = take k xs @ drop (Suc k) xs"

definition step_delete_profile :: "world \<Rightarrow> event \<Rightarrow> session \<Rightarrow> string \<Rightarrow> result" where
  "step_delete_profile w ev state txt =
     (let h = StateFlow ''delete_profile''; idx = Number_js txt in
      if isNaN idx \<or> js_lt idx (Fin 1) then reply w h ''Invalid number.''
      else (case findOne (id_from (sender ev)) (users w) of
              None \<Rightarrow> throws w h
            | Some user \<Rightarrow>
                if js_lt (Fin (of_nat (length (profiles user)))) idx
                then reply w h ''Invalid number.''
                else if length (profiles user) = 1
                then reply w h ''Cannot delete last profile.''
                else (case idx of
                        Fin q \<Rightarrow>
                          let k = nat \<lfloor>q - 1\<rfloor>;
                              removed = profiles user ! k;
                              rest = splice1 k (profiles user);
                              user' = user\<lparr>profiles := rest,
                                           activeProfileId :=
                                             (if activeProfileId user = Some (id_profile removed)
                                              then Some (id_profile (rest ! 0))
                                              else activeProfileId user)\<rparr>
                          in reply (states_delete (id_from (sender ev))
                                      (w\<lparr>users := save user' (users w)\<rparr>))
                               h ''Profile deleted.''
                      | _ \<Rightarrow> throws w h)))"

subsection \<open>Single-step flows (lines 548 to 615)\<close>

definition step_browse_exercises :: "world \<Rightarrow> event \<Rightarrow> session \<Rightarrow> string \<Rightarrow> result" where
  "step_browse_exercises w ev state txt =
     (let h = StateFlow ''browse_exercises''; idx = Number_js txt in
      case data state of
        None \<Rightarrow> throws w h
      | Some d \<Rightarrow>
          let list = (case d of ExList l \<Rightarrow> l | _ \<Rightarrow> []) in
          if isNaN idx \<or> js_lt idx (Fin 1) \<or> js_lt (Fin (of_nat (length list))) idx
          then reply w h ''Send exercise number to view details.''
          else (case idx of
                  Fin q \<Rightarrow>
                    if \<not> is_integer q then throws w h
                    else rendered (states_delete (id_from (sender ev)) w) h ''Exercise details''
                | _ \<Rightarrow> throws w h))"

definition step_log_meal :: "world \<Rightarrow> event \<Rightarrow> session \<Rightarrow> string \<Rightarrow> result" where
  "step_log_meal w ev state txt =
     (let h = StateFlow ''log_meal'';
          parts = split CHR '' '' txt;
          calories = Number_js (hd parts)
      in if isNaN calories
         then reply w h (''Start with calories, e.g., '' @ [CHR 0x22] @ ''600 oats + banana'' @ [CHR 0x22])
         else let desc = (if join '' '' (tl parts) = [] then ''meal'' else join '' '' (tl parts))
              in case findOne (id_from (sender ev)) (users w) of
                   None \<Rightarrow> throws w h
                 | Some user \<Rightarrow>
                     let user' = user\<lparr>meals := meals user
                                           @ [(activeProfileId user, calories, desc, now ev)]\<rparr>
                     in reply (states_delete (id_from (sender ev))
                                 (w\<lparr>users := save user' (users w)\<rparr>))
                          h ''Meal logged.'')"

text \<open>
  \<^verbatim>\<open>await User.findOne(...) || await User.create({ telegramId })\<close>: the user, and the
  collection with the new document when there was none.
\<close>

definition findOne_or_create :: "world \<Rightarrow> event \<Rightarrow> user \<times> user list" where
  "findOne_or_create w ev =
     (case findOne (id_from (sender ev)) (users w) of
        Some u \<Rightarrow> (u, users w)
      | None \<Rightarrow>
          (User_create (id_from (sender ev)) None None (now ev),
           users w @ [User_create (id_from (sender ev)) None None (now ev)]))"

definition step_set_daily_reminder :: "world \<Rightarrow> event \<Rightarrow> session \<Rightarrow> string \<Rightarrow> result" where
  "step_set_daily_reminder w ev state txt =
     (let h = StateFlow ''set_daily_reminder'' in
      if \<not> is_HHmm txt then reply w h ''Time format HH:mm''
      else let user' = (fst (findOne_or_create w ev))\<lparr>workoutDailyAt := Some txt\<rparr>
           in reply (states_delete (id_from (sender ev))
                       (w\<lparr>users := save user' (snd (findOne_or_create w ev))\<rparr>))
                h (''Daily reminder set at '' @ txt @ '' (server time).''))"

definition step_set_water_reminders :: "world \<Rightarrow> event \<Rightarrow> session \<Rightarrow> string \<Rightarrow> result" where
  "step_set_water_reminders w ev state txt =
     (let h = StateFlow ''set_water_reminders'' in
      if toLowerCase txt = ''off'' then
        (let w1 = (case findOne (id_from (sender ev)) (users w) of
                     None \<Rightarrow> w
                   | Some user \<Rightarrow>
                       w\<lparr>users := save (user\<lparr>waterReminderTimes := []\<rparr>) (users w)\<rparr>)
         in reply (states_delete (id_from (sender ev)) w1) h ''Water reminders disabled.'')
      else
        (let times = filter is_HHmm (map trim (split CHR '','' txt)) in
         if times = [] then reply w h ''Send times separated by comma in HH:mm format.''
         else let user' = (fst (findOne_or_create w ev))\<lparr>waterReminderTimes := times\<rparr>
              in reply (states_delete (id_from (sender ev))
                          (w\<lparr>users := save user' (snd (findOne_or_create w ev))\<rparr>))
                   h ''Water reminders set.''))"

text \<open>
  \<^verbatim>\<open>mention(ctx.from)\<close>: the function reads \<^verbatim>\<open>u.firstName\<close>, which the transport's user
  object does not have (its field is \<^verbatim>\<open>first_name\<close>), so without a username the result
  is \<^verbatim>\<open>user\<close>.
\<close>

definition mention :: "tg_user \<Rightarrow> string" where
  "mention u =
     (case tg_username u of
        None \<Rightarrow> ''user''
      | Some n \<Rightarrow> if n = [] then ''user'' else ''@'' @ n)"

text \<open>One message to every logged-in admin; a send that throws is ignored.\<close>

definition notify_admins :: "world \<Rightarrow> event \<Rightarrow> string \<Rightarrow> effect list" where
  "notify_admins w ev msg =
     map (\<lambda>adminId. SendMessage (Fin (of_int adminId)) msg
                      (send_error ev (Fin (of_int adminId)) msg = None))
       (adminSessions w)"

definition step_message_trainer :: "world \<Rightarrow> event \<Rightarrow> session \<Rightarrow> string \<Rightarrow> result" where
  "step_message_trainer w ev state txt =
     (let h = StateFlow ''message_trainer'' in
      case findOne (id_from (sender ev)) (users w) of
        None \<Rightarrow> throws w h
      | Some user \<Rightarrow>
          let r = \<lparr>id_relay = oid ev, fromId = id_from (sender ev),
                   profileId_relay = activeProfileId user, text_relay = txt,
                   type_relay = ''message'', createdAt_relay = now ev, read = False\<rparr>
          in \<lparr>after = states_delete (id_from (sender ev)) (w\<lparr>relays := relays w @ [r]\<rparr>),
              out = notify_admins w ev (''Message from '' @ mention (sender ev) @ ('':'' @ [CHR 0x0A]) @ txt)
                    @ [Reply ''Message sent to trainer/admin. They will reply via admin panel.''],
              by_handler = h, threw = False\<rparr>)"

subsection \<open>Broadcast (lines 618 to 629)\<close>

text \<open>
  The loop over all users: one send per user, \<^verbatim>\<open>sent++\<close> when it returns and
  \<^verbatim>\<open>failed++\<close> in the \<^verbatim>\<open>catch\<close>. The accumulator is (sent, failed, the sends so far).
\<close>

fun fan_out ::
  "(jsnum \<Rightarrow> string \<Rightarrow> string option) \<Rightarrow> string \<Rightarrow> user list \<Rightarrow> nat \<times> nat \<times> effect list \<Rightarrow>
   nat \<times> nat \<times> effect list" where
  "fan_out se msg [] acc = acc"
| "fan_out se msg (u # us) (sent, failed, eff) =
     (if se (Fin (of_int (telegramId u))) msg = None
      then fan_out se msg us
             (Suc sent, failed, eff @ [SendMessage (Fin (of_int (telegramId u))) msg True])
      else fan_out se msg us
             (sent, Suc failed, eff @ [SendMessage (Fin (of_int (telegramId u))) msg False]))"

definition admin_broadcast_first :: "world \<Rightarrow> event \<Rightarrow> string \<Rightarrow> result" where
  "admin_broadcast_first w ev txt =
     (case fan_out (send_error ev) (([CHR 0xF0, CHR 0x9F, CHR 0x93, CHR 0xA2] @ '' Message from Admin:'' @ [CHR 0x0A, CHR 0x0A]) @ txt) (users w) (0, 0, []) of
        (sent, failed, eff) \<Rightarrow>
          \<lparr>after = states_delete (id_from (sender ev)) w,
           out = eff @ [Reply (''Broadcast complete. Sent '' @ show_nat sent @ '', failed ''
                               @ show_nat failed @ ''.'')],
           by_handler = AdminBroadcast_first, threw = False\<rparr>)"

subsection \<open>The middleware\<close>

definition on_text_state :: "env \<Rightarrow> world \<Rightarrow> event \<Rightarrow> string \<Rightarrow> result option" where
  "on_text_state e w ev raw =
     (let txt = trim raw in
      case states w (id_from (sender ev)) of
        None \<Rightarrow> None
      | Some state \<Rightarrow>
          if step state = ''await_admin_pass'' then Some (step_await_admin_pass e w ev txt)
          else if step state = ''edit_profile_full'' then
            Some (step_edit_profile_full w ev state txt)
          else if step state = ''edit_profile_weight'' then
            Some (step_edit_profile_weight w ev state txt)
          else if step state = ''edit_profile_height'' then
            Some (step_edit_profile_height w ev state txt)
          else if step state = ''editing_profile_field'' then
            Some (step_editing_profile_field w ev state txt)
          else if prefix ''editing_profile_'' (step state) then
            Some (step_editing_profile e w ev state txt)
          else if step state = ''switch_profile'' then Some (step_switch_profile w ev state txt)
          else if step state = ''delete_profile'' then Some (step_delete_profile w ev state txt)
          else if step state = ''browse_exercises'' then
            Some (step_browse_exercises w ev state txt)
          else if step state = ''log_meal'' then Some (step_log_meal w ev state txt)
          else if step state = ''set_daily_reminder'' then
            Some (step_set_daily_reminder w ev state txt)
          else if step state = ''set_water_reminders'' then
            Some (step_set_water_reminders w ev state txt)
          else if step state = ''message_trainer'' then
            Some (step_message_trainer w ev state txt)
          else if adminSessions_has w (id_from (sender ev)) \<and> step state = ''admin_broadcast''
          then Some (admin_broadcast_first w ev txt)
          else None)"

section \<open>The handlers registered after the state dispatcher\<close>

subsection \<open>Inline buttons (line 637)\<close>

definition on_callback_query :: "world \<Rightarrow> event \<Rightarrow> string \<Rightarrow> result" where
  "on_callback_query w ev d =
     (if prefix ''done:'' d then
        (case findOne (id_from (sender ev)) (users w) of
           None \<Rightarrow> throws w Callback
         | Some user \<Rightarrow>
             let n = streak user + 1;
                 user' = user\<lparr>workoutsCompleted :=
                                workoutsCompleted user
                                @ [(activeProfileId user, split CHR '':'' d ! 1, now ev)],
                              streak := n,
                              badges := (if n = 7 \<and> ''7-day-streak'' \<notin> set (badges user)
                                         then badges user @ [''7-day-streak'']
                                         else badges user)\<rparr>
             in \<lparr>after = w\<lparr>users := save user' (users w)\<rparr>,
                 out = [AnswerCbQuery ''Logged done!'', Reply ''Workout logged. Good job!''],
                 by_handler = Callback, threw = False\<rparr>)
      else if prefix ''skip:'' d then
        (case findOne (id_from (sender ev)) (users w) of
           None \<Rightarrow> throws w Callback
         | Some user \<Rightarrow>
             \<lparr>after = w\<lparr>users := save (user\<lparr>streak := 0\<rparr>) (users w)\<rparr>,
              out = [AnswerCbQuery ''Skipped'', Reply ''Skipped. Streak reset.''],
              by_handler = Callback, threw = False\<rparr>)
      else if prefix ''replyto:'' d then
        (if \<not> adminSessions_has w (id_from (sender ev))
         then \<lparr>after = w, out = [AnswerCbQuery ''Unauthorized''], by_handler = Callback,
               threw = False\<rparr>
         else \<lparr>after = states_set (id_from (sender ev)) ''admin_reply''
                          (Some (ToId (Number_js (split CHR '':'' d ! 1)))) w,
               out = [AnswerCbQuery [], Reply ''Type reply to forward to user.''],
               by_handler = Callback, threw = False\<rparr>)
      else if prefix ''markread:'' d then
        \<lparr>after = w\<lparr>relays := map (\<lambda>r. if id_relay r = split CHR '':'' d ! 1
                                          then r\<lparr>read := True\<rparr> else r) (relays w)\<rparr>,
         out = [AnswerCbQuery ''Marked read''], by_handler = Callback, threw = False\<rparr>
      else \<lparr>after = w, out = [AnswerCbQuery []], by_handler = Callback, threw = False\<rparr>)"

subsection \<open>Admin reply forwarding (second text middleware, line 676)\<close>

text \<open>
  The reply is sent with the text as it came, untrimmed. A session of this step always
  carries \<^verbatim>\<open>toId\<close> (line 663 is the only place that stores it); a data object without
  it would pass \<^verbatim>\<open>undefined\<close> to the transport, for which \<open>NaN\<close> stands.
\<close>

definition on_text_admin_reply :: "env \<Rightarrow> world \<Rightarrow> event \<Rightarrow> string \<Rightarrow> result option" where
  "on_text_admin_reply e w ev raw =
     (case states w (id_from (sender ev)) of
        None \<Rightarrow> None
      | Some st \<Rightarrow>
          if step st = ''admin_reply'' \<and> adminSessions_has w (id_from (sender ev)) then
            Some (case data st of
                    None \<Rightarrow> throws w AdminReply
                  | Some d \<Rightarrow>
                      let toId = (case d of ToId n \<Rightarrow> n | _ \<Rightarrow> NaN);
                          msg = (''Trainer reply:'' @ [CHR 0x0A, CHR 0x0A]) @ raw
                      in (case send_error ev toId msg of
                            None \<Rightarrow>
                              \<lparr>after = states_delete (id_from (sender ev)) w,
                               out = [SendMessage toId msg True, Reply ''Reply forwarded.''],
                               by_handler = AdminReply, threw = False\<rparr>
                          | Some err \<Rightarrow>
                              \<lparr>after = states_delete (id_from (sender ev)) w,
                               out = [SendMessage toId msg False,
                                      Reply (''Failed to forward: '' @ err)],
                               by_handler = AdminReply, threw = False\<rparr>))
          else None)"

subsection \<open>Admin login, logout and menus (lines 694 to 796)\<close>

definition L_Logout_Admin :: string where "L_Logout_Admin = ([CHR 0xE2, CHR 0xAC, CHR 0x85, CHR 0xEF, CHR 0xB8, CHR 0x8F] @ '' Logout Admin'')"
definition L_User_Mgmt :: string where "L_User_Mgmt = ([CHR 0xF0, CHR 0x9F, CHR 0x91, CHR 0xA5] @ '' User Mgmt'')"
definition L_Promote_User :: string where "L_Promote_User = ''Promote User''"
definition L_Demote_User :: string where "L_Demote_User = ''Demote User''"
definition L_Remove_User :: string where "L_Remove_User = ''Remove User''"
definition L_Content_Mgmt :: string where "L_Content_Mgmt = ([CHR 0xE2, CHR 0x9C, CHR 0x8D, CHR 0xEF, CHR 0xB8, CHR 0x8F] @ '' Content Mgmt'')"
definition L_Create_Exercise :: string where "L_Create_Exercise = ''Create Exercise''"
definition L_Create_Workout :: string where "L_Create_Workout = ''Create Workout''"
definition L_Create_Challenge :: string where "L_Create_Challenge = ''Create Challenge''"
definition L_View_Content :: string where "L_View_Content = ''View Content''"
definition L_Analytics :: string where "L_Analytics = ([CHR 0xF0, CHR 0x9F, CHR 0x93, CHR 0x8A] @ '' Analytics'')"
definition L_Broadcast :: string where "L_Broadcast = ([CHR 0xF0, CHR 0x9F, CHR 0x93, CHR 0xA2] @ '' Broadcast'')"
definition L_Feedback :: string where "L_Feedback = ([CHR 0xF0, CHR 0x9F, CHR 0x90, CHR 0x9E] @ '' Feedback'')"
definition L_Request_Data_Deletion :: string where
  "L_Request_Data_Deletion = ''Request Data Deletion''"

definition command_admin :: "env \<Rightarrow> world \<Rightarrow> event \<Rightarrow> result" where
  "command_admin e w ev =
     (if ADMIN_PASS e = None
      then reply w (Command ''admin'') ''No admin password set on server.''
      else reply (states_set (id_from (sender ev)) ''await_admin_pass'' None w)
             (Command ''admin'') ''Enter admin password (it will not be stored).'')"

definition hears_Logout_Admin :: "world \<Rightarrow> event \<Rightarrow> result" where
  "hears_Logout_Admin w ev =
     (if adminSessions_has w (id_from (sender ev))
      then reply (adminSessions_delete (id_from (sender ev)) w) (Hears L_Logout_Admin)
             ''Logged out of admin.''
      else reply w (Hears L_Logout_Admin) ''You are not admin.'')"

definition hears_User_Mgmt :: "world \<Rightarrow> event \<Rightarrow> result" where
  "hears_User_Mgmt w ev =
     (if \<not> adminSessions_has w (id_from (sender ev))
      then reply w (Hears L_User_Mgmt) ''Admin only. Use /admin.''
      else rendered w (Hears L_User_Mgmt) ''Users'')"

text \<open>
  The admin menu entries that start a flow: refused without elevation, otherwise the
  session is set to the step (without data) and the prompt is sent.
\<close>

definition admin_entry :: "string \<Rightarrow> string \<Rightarrow> string \<Rightarrow> world \<Rightarrow> event \<Rightarrow> result" where
  "admin_entry label st prompt w ev =
     (if \<not> adminSessions_has w (id_from (sender ev)) then reply w (Hears label) ''Admin only.''
      else reply (states_set (id_from (sender ev)) st None w) (Hears label) prompt)"

definition hears_Promote_User :: "world \<Rightarrow> event \<Rightarrow> result" where
  "hears_Promote_User =
     admin_entry L_Promote_User ''promote_user''
       ''Send telegramId to promote to admin (user will be able to access admin panel).''"

definition hears_Demote_User :: "world \<Rightarrow> event \<Rightarrow> result" where
  "hears_Demote_User =
     admin_entry L_Demote_User ''demote_user'' ''Send telegramId to demote (remove admin role).''"

definition hears_Remove_User :: "world \<Rightarrow> event \<Rightarrow> result" where
  "hears_Remove_User =
     admin_entry L_Remove_User ''remove_user''
       ''Send telegramId to remove user from DB (this cannot be undone here).''"

definition hears_Content_Mgmt :: "world \<Rightarrow> event \<Rightarrow> result" where
  "hears_Content_Mgmt w ev =
     (if \<not> adminSessions_has w (id_from (sender ev))
      then reply w (Hears L_Content_Mgmt) ''Admin only.''
      else reply w (Hears L_Content_Mgmt)
             ''Content management: Create Workout / Create Exercise / Create Challenge / View Content'')"

definition hears_Create_Exercise :: "world \<Rightarrow> event \<Rightarrow> result" where
  "hears_Create_Exercise =
     admin_entry L_Create_Exercise ''create_exercise''
       (''Send exercise JSON or simple text '' @ [CHR 0x22] @ ''name | category | difficulty | muscles | equipment | tips | description'' @ [CHR 0x22])"

definition hears_Create_Workout :: "world \<Rightarrow> event \<Rightarrow> result" where
  "hears_Create_Workout =
     admin_entry L_Create_Workout ''create_workout''
       ''Send workout JSON or text. For JSON use the schema: {name, description, exercises:[{name,sets,reps}], difficulty, durationMins}''"

definition hears_Create_Challenge :: "world \<Rightarrow> event \<Rightarrow> result" where
  "hears_Create_Challenge =
     admin_entry L_Create_Challenge ''create_challenge''
       ''Send challenge JSON: {name,description,startDate(YYYY-MM-DD),endDate(YYYY-MM-DD)}''"

definition hears_View_Content :: "world \<Rightarrow> event \<Rightarrow> result" where
  "hears_View_Content w ev =
     (if \<not> adminSessions_has w (id_from (sender ev))
      then reply w (Hears L_View_Content) ''Admin only.''
      else reply w (Hears L_View_Content)
             (''Content counts: Exercises:'' @ show_nat (length (exercises w))
              @ '' Workouts:'' @ show_nat (length (workouts w))
              @ '' Challenges:'' @ show_nat (length (challenges w))))"

definition hears_Analytics :: "world \<Rightarrow> event \<Rightarrow> result" where
  "hears_Analytics w ev =
     (if \<not> adminSessions_has w (id_from (sender ev))
      then reply w (Hears L_Analytics) ''Admin only.''
      else rendered w (Hears L_Analytics) ''Analytics'')"

definition hears_Broadcast :: "world \<Rightarrow> event \<Rightarrow> result" where
  "hears_Broadcast =
     admin_entry L_Broadcast ''admin_broadcast''
       ''Send the broadcast message to all users (text).''"

text \<open>One rendered reply for each of the newest fifty feedback and bug items.\<close>

definition hears_Feedback :: "world \<Rightarrow> event \<Rightarrow> result" where
  "hears_Feedback w ev =
     (if \<not> adminSessions_has w (id_from (sender ev))
      then reply w (Hears L_Feedback) ''Admin only.''
      else let items = filter (\<lambda>r. type_relay r \<in> set [''feedback'', ''bug'']) (relays w) in
           if items = [] then reply w (Hears L_Feedback) ''No feedback/bugs reported.''
           else \<lparr>after = w, out = replicate (min 50 (length items)) (Rendered ''Feedback item''),
                 by_handler = Hears L_Feedback, threw = False\<rparr>)"

subsection \<open>Admin operations (third text middleware, line 834)\<close>

definition change_role :: "string \<Rightarrow> string \<Rightarrow> string \<Rightarrow> world \<Rightarrow> event \<Rightarrow> string \<Rightarrow> result" where
  "change_role st r done_msg w ev t =
     (case find (has_id (Number_js t)) (users w) of
        None \<Rightarrow> reply (states_delete (id_from (sender ev)) w) (AdminOp st) ''User not found''
      | Some u \<Rightarrow>
          rendered (states_delete (id_from (sender ev))
                      (w\<lparr>users := save (u\<lparr>role := r\<rparr>) (users w)\<rparr>))
            (AdminOp st) done_msg)"

definition remove_user :: "world \<Rightarrow> event \<Rightarrow> string \<Rightarrow> result" where
  "remove_user w ev t =
     rendered (states_delete (id_from (sender ev))
                 (w\<lparr>users := deleteOne (Number_js t) (users w)\<rparr>))
       (AdminOp ''remove_user'') ''Delete result''"

text \<open>\<^verbatim>\<open>!obj\<close> on a parsed JSON value.\<close>

definition falsy :: "json \<Rightarrow> bool" where
  "falsy j =
     (case j of
        JNull \<Rightarrow> True
      | JBool b \<Rightarrow> \<not> b
      | JNum n \<Rightarrow> n = NaN \<or> n = Fin 0
      | JStr s \<Rightarrow> s = []
      | _ \<Rightarrow> False)"

definition nth_or :: "string list \<Rightarrow> nat \<Rightarrow> string \<Rightarrow> string" where
  \<comment> \<open>\<^verbatim>\<open>parts[k] || d\<close>\<close>
  "nth_or parts k d = (if k < length parts \<and> parts ! k \<noteq> [] then parts ! k else d)"

definition nth_list :: "string list \<Rightarrow> nat \<Rightarrow> json" where
  \<comment> \<open>\<^verbatim>\<open>parts[k] ? parts[k].split(',').map(s=>s.trim()) : []\<close>\<close>
  "nth_list parts k =
     (if k < length parts \<and> parts ! k \<noteq> []
      then JArr (map (\<lambda>s. JStr (trim s)) (split CHR '','' (parts ! k)))
      else JArr [])"

definition exercise_of_text :: "env \<Rightarrow> string \<Rightarrow> json option" where
  "exercise_of_text e t =
     (case JSON_parse e t of
        Some obj \<Rightarrow> if falsy obj then None else Some obj
      | None \<Rightarrow>
          let parts = map trim (split CHR ''|'' t) in
          if length parts \<ge> 2
          then Some (JObj [(''name'', JStr (parts ! 0)), (''category'', JStr (parts ! 1)),
                           (''difficulty'', JStr (nth_or parts 2 ''medium'')),
                           (''muscleGroups'', nth_list parts 3),
                           (''equipmentNeeded'', nth_list parts 4),
                           (''tips'', JStr (nth_or parts 5 [])),
                           (''description'', JStr (nth_or parts 6 []))])
          else None)"

definition create_exercise :: "env \<Rightarrow> world \<Rightarrow> event \<Rightarrow> string \<Rightarrow> result" where
  "create_exercise e w ev t =
     (case exercise_of_text e t of
        None \<Rightarrow>
          reply w (AdminOp ''create_exercise'')
            (''Invalid format. Send JSON or '' @ [CHR 0x22] @ ''name | category | difficulty | muscles | equipment | tips | description'' @ [CHR 0x22])
      | Some obj \<Rightarrow>
          reply (states_delete (id_from (sender ev)) (w\<lparr>exercises := exercises w @ [obj]\<rparr>))
            (AdminOp ''create_exercise'') ''Exercise created.'')"

definition create_workout :: "env \<Rightarrow> world \<Rightarrow> event \<Rightarrow> string \<Rightarrow> result" where
  "create_workout e w ev t =
     (case JSON_parse e t of
        None \<Rightarrow> reply w (AdminOp ''create_workout'') ''Send valid JSON for workout''
      | Some obj \<Rightarrow>
          reply (states_delete (id_from (sender ev)) (w\<lparr>workouts := workouts w @ [obj]\<rparr>))
            (AdminOp ''create_workout'') ''Workout created.'')"

text \<open>
  For a challenge the two date fields of the parsed object are overwritten with
  \<^verbatim>\<open>new Date(...)\<close> of themselves, which throws when the object is \<^verbatim>\<open>null\<close>; the stored
  document is the object, its dates as the admin wrote them.
\<close>

definition create_challenge :: "env \<Rightarrow> world \<Rightarrow> event \<Rightarrow> string \<Rightarrow> result" where
  "create_challenge e w ev t =
     (case JSON_parse e t of
        None \<Rightarrow> reply w (AdminOp ''create_challenge'') ''Send valid JSON for challenge''
      | Some JNull \<Rightarrow> throws w (AdminOp ''create_challenge'')
      | Some obj \<Rightarrow>
          reply (states_delete (id_from (sender ev)) (w\<lparr>challenges := challenges w @ [obj]\<rparr>))
            (AdminOp ''create_challenge'') ''Challenge created.'')"

definition admin_broadcast_fallback :: "world \<Rightarrow> event \<Rightarrow> string \<Rightarrow> result" where
  "admin_broadcast_fallback w ev t =
     (case fan_out (send_error ev) (([CHR 0xF0, CHR 0x9F, CHR 0x93, CHR 0xA2] @ '' Admin Broadcast:'' @ [CHR 0x0A, CHR 0x0A]) @ t) (users w) (0, 0, []) of
        (sent, failed, eff) \<Rightarrow>
          \<lparr>after = states_delete (id_from (sender ev)) w,
           out = eff @ [Reply (''Broadcast sent to '' @ show_nat sent @ '' users, failed ''
                               @ show_nat failed @ ''.'')],
           by_handler = AdminBroadcast_fallback, threw = False\<rparr>)"

definition on_text_admin_ops :: "env \<Rightarrow> world \<Rightarrow> event \<Rightarrow> string \<Rightarrow> result option" where
  "on_text_admin_ops e w ev raw =
     (let t = trim raw in
      case states w (id_from (sender ev)) of
        None \<Rightarrow> None
      | Some st \<Rightarrow>
          if step st = ''promote_user'' \<and> adminSessions_has w (id_from (sender ev)) then
            Some (change_role ''promote_user'' ''admin'' ''Promoted to admin'' w ev t)
          else if step st = ''demote_user'' \<and> adminSessions_has w (id_from (sender ev)) then
            Some (change_role ''demote_user'' ''user'' ''Demoted'' w ev t)
          else if step st = ''remove_user'' \<and> adminSessions_has w (id_from (sender ev)) then
            Some (remove_user w ev t)
          else if step st = ''create_exercise'' \<and> adminSessions_has w (id_from (sender ev)) then
            Some (create_exercise e w ev t)
          else if step st = ''create_workout'' \<and> adminSessions_has w (id_from (sender ev)) then
            Some (create_workout e w ev t)
          else if step st = ''create_challenge'' \<and> adminSessions_has w (id_from (sender ev)) then
            Some (create_challenge e w ev t)
          else if step st = ''admin_broadcast'' \<and> adminSessions_has w (id_from (sender ev)) then
            Some (admin_broadcast_fallback w ev t)
          else None)"

subsection \<open>Privacy and bug reports (lines 917 to 944)\<close>

definition hears_Request_Data_Deletion :: "world \<Rightarrow> event \<Rightarrow> result" where
  "hears_Request_Data_Deletion w ev =
     (case findOne (id_from (sender ev)) (users w) of
        None \<Rightarrow> reply w (Hears L_Request_Data_Deletion) ''No account found.''
      | Some u \<Rightarrow>
          let r = \<lparr>id_relay = oid ev, fromId = id_from (sender ev), profileId_relay = None,
                   text_relay = ''User requested data deletion'', type_relay = ''privacy'',
                   createdAt_relay = now ev, read = False\<rparr>
          in reply (w\<lparr>users := save (u\<lparr>consent_dataCollection := False\<rparr>) (users w),
                      relays := relays w @ [r]\<rparr>)
               (Hears L_Request_Data_Deletion)
               ''Your deletion request has been submitted to admins. We will process it manually. (Full automated deletion will be implemented server-side.)'')"

definition command_report :: "env \<Rightarrow> world \<Rightarrow> event \<Rightarrow> result" where
  "command_report e w ev =
     reply (states_set (id_from (sender ev)) ''report_bug'' None w) (Command ''report'')
       ''Please describe the bug or feedback. Send message now.''"

definition on_text_report_bug :: "env \<Rightarrow> world \<Rightarrow> event \<Rightarrow> string \<Rightarrow> result option" where
  "on_text_report_bug e w ev raw =
     (case states w (id_from (sender ev)) of
        None \<Rightarrow> None
      | Some st \<Rightarrow>
          if step st = ''report_bug'' then
            Some (let r = \<lparr>id_relay = oid ev, fromId = id_from (sender ev),
                            profileId_relay = None, text_relay = raw, type_relay = ''bug'',
                            createdAt_relay = now ev, read = False\<rparr>
                  in \<lparr>after = states_delete (id_from (sender ev)) (w\<lparr>relays := relays w @ [r]\<rparr>),
                      out = notify_admins w ev
                              (([CHR 0xF0, CHR 0x9F, CHR 0x90, CHR 0x9E] @ '' Bug reported by '') @ mention (sender ev) @ ('':'' @ [CHR 0x0A]) @ raw)
                            @ [Reply (''Thanks '' @ [CHR 0xE2, CHR 0x80, CHR 0x94] @ '' bug report submitted.'')],
                      by_handler = ReportBug, threw = False\<rparr>)
          else None)"

subsection \<open>Fallback (line 947)\<close>

definition on_message :: "world \<Rightarrow> event \<Rightarrow> result" where
  "on_message w ev =
     reply w Fallback ''I did not understand that. Use the menu below or /help.''"

section \<open>The router\<close>

text \<open>
  Telegraf runs the registered middlewares in the order of registration. A
  \<^verbatim>\<open>bot.hears(label, h)\<close> runs \<^verbatim>\<open>h\<close> on a text message whose text is exactly the label,
  and \<^verbatim>\<open>bot.command(c, h)\<close> on one whose first entity is the command \<^verbatim>\<open>/c\<close>, addressed to
  nobody or to this bot; each passes every other message on. None of the handlers of
  this file calls \<^verbatim>\<open>next()\<close> once it has matched, so the first middleware that matches
  ends the turn.
\<close>

type_synonym middleware = "env \<Rightarrow> world \<Rightarrow> event \<Rightarrow> string \<Rightarrow> result option"

definition hears :: "string \<Rightarrow> (world \<Rightarrow> event \<Rightarrow> result) \<Rightarrow> middleware" where
  "hears trigger h e w ev raw = (if raw = trigger then Some (h w ev) else None)"

text \<open>
  \<^verbatim>\<open>bot.command(c, h)\<close> and \<^verbatim>\<open>bot.start(h)\<close>, which is \<^verbatim>\<open>bot.command('start', h)\<close>. The
  library looks at the first entity of the message: it must be a bot command at offset
  0. The text under it is cut at \<^verbatim>\<open>@\<close> into the command part and the addressee; an empty
  command part passes, and so does an addressee that is not the bot's own username,
  compared without regard to case. What follows the first character of the command part
  is the command, which must be the trigger.
\<close>

definition command_of :: "string \<Rightarrow> event \<Rightarrow> string \<Rightarrow> string option" where
  "command_of botname ev raw =
     (case bot_command ev of
        None \<Rightarrow> None
      | Some len \<Rightarrow>
          (let parts = split CHR ''@'' (take len raw);
               cmdPart = hd parts;
               to = (case tl parts of [] \<Rightarrow> [] | t # _ \<Rightarrow> t)
           in if cmdPart = [] then None
              else if to \<noteq> [] \<and> toLowerCase to \<noteq> toLowerCase botname then None
              else Some (tl cmdPart)))"

definition command :: "string \<Rightarrow> (env \<Rightarrow> world \<Rightarrow> event \<Rightarrow> result) \<Rightarrow> middleware" where
  "command c h e w ev raw =
     (if command_of (me e) ev raw = Some c then Some (h e w ev) else None)"

text \<open>The middlewares a text message passes, up to the state dispatcher.\<close>

definition early_middlewares :: "middleware list" where
  "early_middlewares =
     [command ''start'' (\<lambda>e. bot_start),
      hears L_Profile hears_Profile,
      hears L_Edit_Profile hears_Edit_Profile,
      hears L_Switch_Profile hears_Switch_Profile,
      hears L_Add_Profile hears_Add_Profile,
      hears L_Delete_Profile hears_Delete_Profile,
      hears L_Workouts hears_Workouts,
      hears L_Today hears_Today,
      hears L_My_Plan hears_My_Plan,
      hears L_Browse_Exercises hears_Browse_Exercises,
      hears L_Nutrition hears_Nutrition,
      hears L_Log_Meal hears_Log_Meal,
      hears L_View_Meals hears_View_Meals,
      hears L_Macro_Advice hears_Macro_Advice,
      hears L_Water_Tracker hears_Water_Tracker,
      hears L_Progress hears_Progress,
      hears L_Reminders hears_Reminders,
      hears L_Set_Daily_Workout hears_Set_Daily_Workout,
      hears L_Set_Water_Reminders hears_Set_Water_Reminders,
      hears L_Remove_Reminders hears_Remove_Reminders,
      hears L_Trainer hears_Trainer,
      hears L_Challenges hears_Challenges,
      hears L_Settings hears_Settings,
      hears L_Help hears_Help]"

text \<open>The middlewares after it, down to the fallback, which takes every message.\<close>

definition late_middlewares :: "middleware list" where
  "late_middlewares =
     [on_text_admin_reply,
      command ''admin'' command_admin,
      hears L_Logout_Admin hears_Logout_Admin,
      hears L_User_Mgmt hears_User_Mgmt,
      hears L_Promote_User hears_Promote_User,
      hears L_Demote_User hears_Demote_User,
      hears L_Remove_User hears_Remove_User,
      hears L_Content_Mgmt hears_Content_Mgmt,
      hears L_Create_Exercise hears_Create_Exercise,
      hears L_Create_Workout hears_Create_Workout,
      hears L_Create_Challenge hears_Create_Challenge,
      hears L_View_Content hears_View_Content,
      hears L_Analytics hears_Analytics,
      hears L_Broadcast hears_Broadcast,
      hears L_Feedback hears_Feedback,
      on_text_admin_ops,
      hears L_Request_Data_Deletion hears_Request_Data_Deletion,
      command ''report'' command_report,
      on_text_report_bug,
      (\<lambda>e w ev raw. Some (on_message w ev))]"

definition text_middlewares :: "middleware list" where
  "text_middlewares = early_middlewares @ [on_text_state] @ late_middlewares"

fun compose :: "middleware list \<Rightarrow> env \<Rightarrow> world \<Rightarrow> event \<Rightarrow> string \<Rightarrow> result" where
  "compose [] e w ev raw = \<lparr>after = w, out = [], by_handler = Unhandled, threw = False\<rparr>"
| "compose (m # ms) e w ev raw =
     (case m e w ev raw of Some r \<Rightarrow> r | None \<Rightarrow> compose ms e w ev raw)"

text \<open>
  One turn. A message without text reaches only the fallback; a button press reaches only
  the callback handler.
\<close>

definition handle_update :: "env \<Rightarrow> world \<Rightarrow> event \<Rightarrow> result" where
  "handle_update e w ev =
     (case upd ev of
        TextMessage raw \<Rightarrow> compose text_middlewares e w ev raw
      | OtherMessage \<Rightarrow> on_message w ev
      | CallbackQuery d \<Rightarrow> on_callback_query w ev d)"

text \<open>The triggers that are registered before the state dispatcher.\<close>

definition early_labels :: "string list" where
  "early_labels =
     [L_Profile, L_Edit_Profile, L_Switch_Profile, L_Add_Profile, L_Delete_Profile, L_Workouts,
      L_Today, L_My_Plan, L_Browse_Exercises, L_Nutrition, L_Log_Meal, L_View_Meals,
      L_Macro_Advice, L_Water_Tracker, L_Progress, L_Reminders, L_Set_Daily_Workout,
      L_Set_Water_Reminders, L_Remove_Reminders, L_Trainer, L_Challenges, L_Settings, L_Help]"

definition early_trigger :: "env \<Rightarrow> event \<Rightarrow> string \<Rightarrow> bool" where
  "early_trigger e ev raw =
     (command_of (me e) ev raw = Some ''start'' \<or> raw \<in> set early_labels)"

text \<open>The steps that have a branch in the state dispatcher, for every sender.\<close>

definition dispatcher_step :: "string \<Rightarrow> bool" where
  "dispatcher_step s =
     (s \<in> set [''await_admin_pass'', ''edit_profile_full'', ''edit_profile_weight'',
               ''edit_profile_height'', ''editing_profile_field'', ''switch_profile'',
               ''delete_profile'', ''browse_exercises'', ''log_meal'', ''set_daily_reminder'',
               ''set_water_reminders'', ''message_trainer'']
      \<or> prefix ''editing_profile_'' s)"

section \<open>Notions used to state the properties\<close>

text \<open>Whether the send to a user is delivered in this turn.\<close>

definition delivered :: "event \<Rightarrow> string \<Rightarrow> user \<Rightarrow> bool" where
  "delivered ev msg u = (send_error ev (Fin (of_int (telegramId u))) msg = None)"

definition sends_to :: "event \<Rightarrow> string \<Rightarrow> user list \<Rightarrow> effect list" where
  "sends_to ev msg us =
     map (\<lambda>u. SendMessage (Fin (of_int (telegramId u))) msg (delivered ev msg u)) us"

definition failures :: "event \<Rightarrow> string \<Rightarrow> user list \<Rightarrow> nat" where
  "failures ev msg us = length (filter (\<lambda>u. \<not> delivered ev msg u) us)"

text \<open>Whom a turn sent messages to, and whether each was delivered.\<close>

definition deliveries :: "effect list \<Rightarrow> (jsnum \<times> bool) list" where
  "deliveries xs =
     concat (map (\<lambda>x. case x of SendMessage chat t ok \<Rightarrow> [(chat, ok)] | _ \<Rightarrow> []) xs)"

text \<open>
  The triggers registered between the state dispatcher and the admin operations (line
  834), and between those and the bug-report handler (line 932).
\<close>

definition admin_labels :: "string list" where
  "admin_labels =
     [L_Logout_Admin, L_User_Mgmt, L_Promote_User, L_Demote_User, L_Remove_User,
      L_Content_Mgmt, L_Create_Exercise, L_Create_Workout, L_Create_Challenge, L_View_Content,
      L_Analytics, L_Broadcast, L_Feedback]"

definition admin_trigger :: "env \<Rightarrow> event \<Rightarrow> string \<Rightarrow> bool" where
  "admin_trigger e ev raw =
     (command_of (me e) ev raw = Some ''admin'' \<or> raw \<in> set admin_labels)"

definition report_trigger :: "env \<Rightarrow> event \<Rightarrow> string \<Rightarrow> bool" where
  "report_trigger e ev raw =
     (raw = L_Request_Data_Deletion \<or> command_of (me e) ev raw = Some ''report'')"

definition admin_op_step :: "string \<Rightarrow> bool" where
  "admin_op_step s =
     (s \<in> set [''promote_user'', ''demote_user'', ''remove_user'', ''create_exercise'',
               ''create_workout'', ''create_challenge''])"

text \<open>
  The steps that some text middleware has a branch for, given the sender: the steps of
  the state dispatcher and the bug report for everybody, the broadcast, the admin reply
  and the admin operations for an elevated sender only.
\<close>

definition has_handler :: "world \<Rightarrow> event \<Rightarrow> string \<Rightarrow> bool" where
  "has_handler w ev s =
     (dispatcher_step s \<or> s = ''report_bug''
      \<or> (id_from (sender ev) \<in> set (adminSessions w)
          \<and> (s = ''admin_broadcast'' \<or> s = ''admin_reply'' \<or> admin_op_step s)))"

text \<open>
  The privileged operations: the branches that broadcast, forward an admin's reply,
  change a role, remove a user or create content; and, seen from outside, the messages
  they send.
\<close>

definition privileged_handler :: "handler \<Rightarrow> bool" where
  "privileged_handler h =
     (case h of
        AdminBroadcast_first \<Rightarrow> True
      | AdminReply \<Rightarrow> True
      | AdminOp s \<Rightarrow> True
      | AdminBroadcast_fallback \<Rightarrow> True
      | _ \<Rightarrow> False)"

definition privileged_send :: "effect \<Rightarrow> bool" where
  "privileged_send x =
     (case x of
        SendMessage chat t ok \<Rightarrow>
          prefix ([CHR 0xF0, CHR 0x9F, CHR 0x93, CHR 0xA2] @ '' Message from Admin:'' @ [CHR 0x0A, CHR 0x0A]) t \<or> prefix ([CHR 0xF0, CHR 0x9F, CHR 0x93, CHR 0xA2] @ '' Admin Broadcast:'' @ [CHR 0x0A, CHR 0x0A]) t
          \<or> prefix (''Trainer reply:'' @ [CHR 0x0A, CHR 0x0A]) t
      | _ \<Rightarrow> False)"

definition user_key :: "user \<Rightarrow> int \<times> string" where
  "user_key u = (telegramId u, role u)"

text \<open>
  A turn without privileged effect: no privileged branch took it, the stored content is
  as before, every user that was stored is still stored with the same role (new users
  may have been added after them), and none of its messages is a broadcast or a trainer
  reply.
\<close>

definition unprivileged :: "world \<Rightarrow> result \<Rightarrow> bool" where
  "unprivileged w r =
     (\<not> privileged_handler (by_handler r)
      \<and> exercises (after r) = exercises w \<and> workouts (after r) = workouts w
      \<and> challenges (after r) = challenges w
      \<and> prefix (map user_key (users w)) (map user_key (users (after r)))
      \<and> list_all (\<lambda>x. \<not> privileged_send x) (out r))"

subsection \<open>A small world for the examples\<close>

definition env1 :: env where
  "env1 = \<lparr>env_ADMIN_PASS = Some ''s3cret'', me = ''FitBot'',
           JSON_parse = (\<lambda>s. if s = ''null'' then Some JNull else None),
           moment_strict = (\<lambda>s. None)\<rparr>"

definition profile1 :: profile where
  "profile1 = new_profile ''p-1'' ''Alice'' (Some (Fin 30)) 1000"

definition profile2 :: profile where
  "profile2 = new_profile ''p-2'' ''Al'' None 2000"

definition user_of :: "int \<Rightarrow> profile list \<Rightarrow> string option \<Rightarrow> user" where
  "user_of tid ps a = (User_create tid (Some ''U'') (Some []) 1000)\<lparr>profiles := ps, activeProfileId := a\<rparr>"

definition world_of :: "(int \<Rightarrow> session option) \<Rightarrow> int list \<Rightarrow> user list \<Rightarrow> world" where
  "world_of ss admins us =
     \<lparr>states = ss, adminSessions = admins, users = us, exercises = [], workouts = [],
      challenges = [], relays = []\<rparr>"

definition text_from :: "int \<Rightarrow> string \<Rightarrow> event" where
  "text_from tid t =
     \<lparr>sender = \<lparr>id_from = tid, first_name = Some ''Alice'', tg_username = None\<rparr>,
      upd = TextMessage t, bot_command = None, now = 5000, uuid = ''p-9'', oid = ''r-9'',
      send_error = (\<lambda>chat msg. if chat = Fin 8 then Some ''blocked'' else None)\<rparr>"

text \<open>The same message with its first \<open>n\<close> bytes marked as a bot command.\<close>

definition command_from :: "int \<Rightarrow> string \<Rightarrow> nat \<Rightarrow> event" where
  "command_from tid t n = (text_from tid t)\<lparr>bot_command := Some n\<rparr>"

definition in_step :: "int \<Rightarrow> string \<Rightarrow> sdata option \<Rightarrow> int \<Rightarrow> session option" where
  "in_step tid s d = Map.empty(tid \<mapsto> \<lparr>step = s, data = d\<rparr>)"

definition after_text :: "world \<Rightarrow> int \<Rightarrow> string \<Rightarrow> world" where
  "after_text w tid t = after (handle_update env1 w (text_from tid t))"

section \<open>Basic facts\<close>

lemma reply_sel [simp]:
  "after (reply w h t) = w" "out (reply w h t) = [Reply t]"
  "by_handler (reply w h t) = h" "threw (reply w h t) = False"
  by (simp_all add: reply_def)

lemma rendered_sel [simp]:
  "after (rendered w h t) = w" "out (rendered w h t) = [Rendered t]"
  "by_handler (rendered w h t) = h" "threw (rendered w h t) = False"
  by (simp_all add: rendered_def)

lemma throws_sel [simp]:
  "after (throws w h) = w" "out (throws w h) = []"
  "by_handler (throws w h) = h" "threw (throws w h) = True"
  by (simp_all add: throws_def)

lemma states_set_sel [simp]:
  "states (states_set k s d w) = (states w)(k \<mapsto> \<lparr>step = s, data = d\<rparr>)"
  "adminSessions (states_set k s d w) = adminSessions w"
  "users (states_set k s d w) = users w"
  "exercises (states_set k s d w) = exercises w"
  "workouts (states_set k s d w) = workouts w"
  "challenges (states_set k s d w) = challenges w"
  "relays (states_set k s d w) = relays w"
  by (simp_all add: states_set_def)

lemma states_delete_sel [simp]:
  "states (states_delete k w) = (states w)(k := None)"
  "adminSessions (states_delete k w) = adminSessions w"
  "users (states_delete k w) = users w"
  "exercises (states_delete k w) = exercises w"
  "workouts (states_delete k w) = workouts w"
  "challenges (states_delete k w) = challenges w"
  "relays (states_delete k w) = relays w"
  by (simp_all add: states_delete_def)

lemma world_of_sel [simp]:
  "states (world_of ss admins us) = ss" "adminSessions (world_of ss admins us) = admins"
  "users (world_of ss admins us) = us" "exercises (world_of ss admins us) = []"
  "workouts (world_of ss admins us) = []" "challenges (world_of ss admins us) = []"
  "relays (world_of ss admins us) = []"
  by (simp_all add: world_of_def)

lemma text_from_sel [simp]:
  "id_from (sender (text_from tid t)) = tid" "upd (text_from tid t) = TextMessage t"
  "now (text_from tid t) = 5000" "uuid (text_from tid t) = ''p-9''"
  "send_error (text_from tid t) = (\<lambda>chat msg. if chat = Fin 8 then Some ''blocked'' else None)"
  "bot_command (text_from tid t) = None" "first_name (sender (text_from tid t)) = Some ''Alice''"
  "tg_username (sender (text_from tid t)) = None"
  by (simp_all add: text_from_def)

lemma command_from_sel [simp]:
  "id_from (sender (command_from tid t n)) = tid" "upd (command_from tid t n) = TextMessage t"
  "now (command_from tid t n) = 5000" "uuid (command_from tid t n) = ''p-9''"
  "bot_command (command_from tid t n) = Some n"
  "first_name (sender (command_from tid t n)) = Some ''Alice''"
  "tg_username (sender (command_from tid t n)) = None"
  by (simp_all add: command_from_def text_from_def)

subsection \<open>The broadcast loop\<close>

lemma fan_out_acc:
  "fan_out se msg us (s, f, eff) =
     (s + length (filter (\<lambda>u. se (Fin (of_int (telegramId u))) msg = None) us),
      f + length (filter (\<lambda>u. se (Fin (of_int (telegramId u))) msg \<noteq> None) us),
      eff @ map (\<lambda>u. SendMessage (Fin (of_int (telegramId u))) msg
                       (se (Fin (of_int (telegramId u))) msg = None)) us)"
  by (induction us arbitrary: s f eff) simp_all

lemma fan_out_counts:
  "fan_out (send_error ev) msg us (0, 0, []) =
     (length us - failures ev msg us, failures ev msg us, sends_to ev msg us)"
proof -
  have "length (filter (\<lambda>u. delivered ev msg u) us) + failures ev msg us = length us"
    unfolding failures_def by (rule sum_length_filter_compl)
  then have "length (filter (\<lambda>u. delivered ev msg u) us) = length us - failures ev msg us"
    by arith
  then show ?thesis
    by (simp add: fan_out_acc failures_def sends_to_def delivered_def)
qed

subsection \<open>Routing\<close>

lemma compose_early:
  "\<not> early_trigger e ev raw \<Longrightarrow> compose (early_middlewares @ ms) e w ev raw = compose ms e w ev raw"
  by (simp add: early_trigger_def early_labels_def early_middlewares_def hears_def command_def)

lemma handle_text_state:
  assumes "upd ev = TextMessage raw" and "\<not> early_trigger e ev raw"
    and "on_text_state e w ev raw = Some r"
  shows "handle_update e w ev = r"
  using assms by (simp add: handle_update_def text_middlewares_def compose_early)

lemma on_text_state_broadcast:
  "states w (id_from (sender ev)) = Some st \<Longrightarrow> step st = ''admin_broadcast'' \<Longrightarrow>
   adminSessions_has w (id_from (sender ev)) \<Longrightarrow>
   on_text_state e w ev raw = Some (admin_broadcast_first w ev (trim raw))"
  by (simp add: on_text_state_def)

lemmas label_defs =
  L_Profile_def L_Edit_Profile_def L_Switch_Profile_def L_Add_Profile_def L_Delete_Profile_def
  L_Workouts_def L_Today_def L_My_Plan_def L_Browse_Exercises_def L_Nutrition_def
  L_Log_Meal_def L_View_Meals_def L_Macro_Advice_def L_Water_Tracker_def L_Progress_def
  L_Reminders_def L_Set_Daily_Workout_def L_Set_Water_Reminders_def L_Remove_Reminders_def
  L_Trainer_def L_Challenges_def L_Settings_def L_Help_def

lemmas late_label_defs =
  L_Logout_Admin_def L_User_Mgmt_def L_Promote_User_def L_Demote_User_def L_Remove_User_def
  L_Content_Mgmt_def L_Create_Exercise_def L_Create_Workout_def L_Create_Challenge_def
  L_View_Content_def L_Analytics_def L_Broadcast_def L_Feedback_def
  L_Request_Data_Deletion_def

lemmas trim_defs = trim_def trimStart_def trimEnd_def whiteSpace_def

lemmas number_defs =
  Number_js_def StringNumericLiteral_def StrUnsignedDecimalLiteral_def negate_def scale10_def
  ExponentPart_def NonDecimalIntegerLiteral_def is_digit_def digit_of_def

lemmas early_trigger_defs = early_trigger_def early_labels_def command_of_def

subsection \<open>The store\<close>

lemma findOne_Some:
  "findOne tid us = Some u \<Longrightarrow> telegramId u = tid \<and> u \<in> set us"
  by (induction us) (auto simp: findOne_def split: if_splits)

lemma findOne_save_id:
  "findOne tid us = Some u \<Longrightarrow> telegramId u' = tid \<Longrightarrow> findOne tid (save u' us) = Some u'"
  by (induction us) (auto simp: findOne_def split: if_splits)

lemma findOne_save:
  "findOne tid us = Some u \<Longrightarrow> telegramId u' = telegramId u \<Longrightarrow>
   findOne tid (save u' us) = Some u'"
  using findOne_Some [of tid us u] by (simp add: findOne_save_id)

lemma findOne_save_other:
  "tid \<noteq> telegramId u' \<Longrightarrow> findOne tid (save u' us) = findOne tid us"
  by (induction us) (auto simp: findOne_def)

lemma findOne_append_new:
  "findOne tid us = None \<Longrightarrow> findOne tid (us @ [u]) = (if telegramId u = tid then Some u else None)"
  by (induction us) (auto simp: findOne_def split: if_splits)

lemma save_append_new:
  "findOne (telegramId u') us = None \<Longrightarrow> telegramId u = telegramId u' \<Longrightarrow>
   save u' (us @ [u]) = us @ [u']"
  by (induction us) (auto simp: findOne_def split: if_splits)

lemma save_none:
  "findOne (telegramId u') us = None \<Longrightarrow> save u' us = us"
  by (induction us) (auto simp: findOne_def split: if_splits)

lemma index_of_Some:
  "index_of pid ps = Some i \<Longrightarrow> i < length ps \<and> Some (id_profile (ps ! i)) = pid"
  by (induction ps arbitrary: i) (auto split: if_splits)

lemma index_of_None:
  "index_of pid ps = None \<Longrightarrow> \<forall>p \<in> set ps. Some (id_profile p) \<noteq> pid"
  by (induction ps) (auto split: if_splits)

lemma find_or_first_Some:
  "find_or_first pid ps = Some i \<Longrightarrow> i < length ps"
  by (cases ps) (auto simp: find_or_first_def dest: index_of_Some split: option.splits if_splits)

lemma flow_profile_Inr:
  "flow_profile st u = Inr i \<Longrightarrow> i < length (profiles u)"
  by (auto simp: flow_profile_def dest: find_or_first_Some split: if_splits option.splits)

subsection \<open>The branch the state dispatcher takes\<close>

lemma on_text_state_await_admin_pass:
  "states w (id_from (sender ev)) = Some st \<Longrightarrow> step st = ''await_admin_pass'' \<Longrightarrow>
   on_text_state e w ev raw = Some (step_await_admin_pass e w ev (trim raw))"
  by (simp add: on_text_state_def)

lemma on_text_state_edit_profile_full:
  "states w (id_from (sender ev)) = Some st \<Longrightarrow> step st = ''edit_profile_full'' \<Longrightarrow>
   on_text_state e w ev raw = Some (step_edit_profile_full w ev st (trim raw))"
  by (simp add: on_text_state_def)

lemma on_text_state_edit_profile_weight:
  "states w (id_from (sender ev)) = Some st \<Longrightarrow> step st = ''edit_profile_weight'' \<Longrightarrow>
   on_text_state e w ev raw = Some (step_edit_profile_weight w ev st (trim raw))"
  by (simp add: on_text_state_def)

lemma on_text_state_edit_profile_height:
  "states w (id_from (sender ev)) = Some st \<Longrightarrow> step st = ''edit_profile_height'' \<Longrightarrow>
   on_text_state e w ev raw = Some (step_edit_profile_height w ev st (trim raw))"
  by (simp add: on_text_state_def)

lemma on_text_state_editing_profile_field:
  "states w (id_from (sender ev)) = Some st \<Longrightarrow> step st = ''editing_profile_field'' \<Longrightarrow>
   on_text_state e w ev raw = Some (step_editing_profile_field w ev st (trim raw))"
  by (simp add: on_text_state_def)

lemma on_text_state_editing_profile:
  "states w (id_from (sender ev)) = Some st \<Longrightarrow> prefix ''editing_profile_'' (step st) \<Longrightarrow>
   step st \<noteq> ''editing_profile_field'' \<Longrightarrow>
   on_text_state e w ev raw = Some (step_editing_profile e w ev st (trim raw))"
  by (auto simp: on_text_state_def Let_def)

lemma on_text_state_switch_profile:
  "states w (id_from (sender ev)) = Some st \<Longrightarrow> step st = ''switch_profile'' \<Longrightarrow>
   on_text_state e w ev raw = Some (step_switch_profile w ev st (trim raw))"
  by (simp add: on_text_state_def)

lemma on_text_state_delete_profile:
  "states w (id_from (sender ev)) = Some st \<Longrightarrow> step st = ''delete_profile'' \<Longrightarrow>
   on_text_state e w ev raw = Some (step_delete_profile w ev st (trim raw))"
  by (simp add: on_text_state_def)

lemma on_text_state_browse_exercises:
  "states w (id_from (sender ev)) = Some st \<Longrightarrow> step st = ''browse_exercises'' \<Longrightarrow>
   on_text_state e w ev raw = Some (step_browse_exercises w ev st (trim raw))"
  by (simp add: on_text_state_def)

lemma on_text_state_log_meal:
  "states w (id_from (sender ev)) = Some st \<Longrightarrow> step st = ''log_meal'' \<Longrightarrow>
   on_text_state e w ev raw = Some (step_log_meal w ev st (trim raw))"
  by (simp add: on_text_state_def)

lemma on_text_state_set_daily_reminder:
  "states w (id_from (sender ev)) = Some st \<Longrightarrow> step st = ''set_daily_reminder'' \<Longrightarrow>
   on_text_state e w ev raw = Some (step_set_daily_reminder w ev st (trim raw))"
  by (simp add: on_text_state_def)

lemma on_text_state_set_water_reminders:
  "states w (id_from (sender ev)) = Some st \<Longrightarrow> step st = ''set_water_reminders'' \<Longrightarrow>
   on_text_state e w ev raw = Some (step_set_water_reminders w ev st (trim raw))"
  by (simp add: on_text_state_def)

lemma on_text_state_message_trainer:
  "states w (id_from (sender ev)) = Some st \<Longrightarrow> step st = ''message_trainer'' \<Longrightarrow>
   on_text_state e w ev raw = Some (step_message_trainer w ev st (trim raw))"
  by (simp add: on_text_state_def)

lemmas on_text_state_steps =
  on_text_state_await_admin_pass on_text_state_edit_profile_full
  on_text_state_edit_profile_weight on_text_state_edit_profile_height
  on_text_state_editing_profile_field on_text_state_editing_profile
  on_text_state_switch_profile on_text_state_delete_profile on_text_state_browse_exercises
  on_text_state_log_meal on_text_state_set_daily_reminder on_text_state_set_water_reminders
  on_text_state_message_trainer

lemmas eval_defs =
  in_step_def early_trigger_defs label_defs trim_defs number_defs user_of_def User_create_def
  profile1_def profile2_def new_profile_def findOne_def flow_profile_def find_or_first_def
  data_profileId_def isNaN_def env1_def ADMIN_PASS_def

section \<open>Which handler takes the turn\<close>

lemmas early_handler_defs =
  bot_start_def registered_user_def default_profile_def hears_Profile_def hears_Edit_Profile_def
  hears_Switch_Profile_def hears_Add_Profile_def hears_Delete_Profile_def hears_Workouts_def
  hears_Today_def hears_My_Plan_def hears_Browse_Exercises_def hears_Nutrition_def
  hears_Log_Meal_def hears_View_Meals_def hears_Macro_Advice_def hears_Water_Tracker_def
  hears_Progress_def hears_Reminders_def hears_Set_Daily_Workout_def
  hears_Set_Water_Reminders_def hears_Remove_Reminders_def hears_Trainer_def
  hears_Challenges_def hears_Settings_def hears_Help_def

lemmas late_handler_defs =
  command_admin_def hears_Logout_Admin_def hears_User_Mgmt_def hears_Promote_User_def
  hears_Demote_User_def hears_Remove_User_def hears_Content_Mgmt_def hears_Create_Exercise_def
  hears_Create_Workout_def hears_Create_Challenge_def hears_View_Content_def
  hears_Analytics_def hears_Broadcast_def hears_Feedback_def admin_entry_def
  hears_Request_Data_Deletion_def command_report_def on_message_def

lemmas step_defs =
  step_await_admin_pass_def step_edit_profile_full_def step_edit_profile_weight_def
  step_edit_profile_height_def step_editing_profile_field_def step_editing_profile_def
  editor_commit_def step_switch_profile_def step_delete_profile_def step_browse_exercises_def
  step_log_meal_def step_set_daily_reminder_def step_set_water_reminders_def
  step_message_trainer_def admin_broadcast_first_def

lemmas admin_op_defs =
  change_role_def remove_user_def create_exercise_def create_workout_def create_challenge_def
  admin_broadcast_fallback_def

lemma early_by [simp]:
  "by_handler (bot_start w ev) = Start"
  "by_handler (hears_Profile w ev) = Hears L_Profile"
  "by_handler (hears_Edit_Profile w ev) = Hears L_Edit_Profile"
  "by_handler (hears_Switch_Profile w ev) = Hears L_Switch_Profile"
  "by_handler (hears_Add_Profile w ev) = Hears L_Add_Profile"
  "by_handler (hears_Delete_Profile w ev) = Hears L_Delete_Profile"
  "by_handler (hears_Workouts w ev) = Hears L_Workouts"
  "by_handler (hears_Today w ev) = Hears L_Today"
  "by_handler (hears_My_Plan w ev) = Hears L_My_Plan"
  "by_handler (hears_Browse_Exercises w ev) = Hears L_Browse_Exercises"
  "by_handler (hears_Nutrition w ev) = Hears L_Nutrition"
  "by_handler (hears_Log_Meal w ev) = Hears L_Log_Meal"
  "by_handler (hears_View_Meals w ev) = Hears L_View_Meals"
  "by_handler (hears_Macro_Advice w ev) = Hears L_Macro_Advice"
  "by_handler (hears_Water_Tracker w ev) = Hears L_Water_Tracker"
  "by_handler (hears_Progress w ev) = Hears L_Progress"
  "by_handler (hears_Reminders w ev) = Hears L_Reminders"
  "by_handler (hears_Set_Daily_Workout w ev) = Hears L_Set_Daily_Workout"
  "by_handler (hears_Set_Water_Reminders w ev) = Hears L_Set_Water_Reminders"
  "by_handler (hears_Remove_Reminders w ev) = Hears L_Remove_Reminders"
  "by_handler (hears_Trainer w ev) = Hears L_Trainer"
  "by_handler (hears_Challenges w ev) = Hears L_Challenges"
  "by_handler (hears_Settings w ev) = Hears L_Settings"
  "by_handler (hears_Help w ev) = Hears L_Help"
  by (simp_all add: early_handler_defs Let_def split: option.split)

lemma late_by [simp]:
  "by_handler (command_admin e w ev) = Command ''admin''"
  "by_handler (hears_Logout_Admin w ev) = Hears L_Logout_Admin"
  "by_handler (hears_User_Mgmt w ev) = Hears L_User_Mgmt"
  "by_handler (hears_Promote_User w ev) = Hears L_Promote_User"
  "by_handler (hears_Demote_User w ev) = Hears L_Demote_User"
  "by_handler (hears_Remove_User w ev) = Hears L_Remove_User"
  "by_handler (hears_Content_Mgmt w ev) = Hears L_Content_Mgmt"
  "by_handler (hears_Create_Exercise w ev) = Hears L_Create_Exercise"
  "by_handler (hears_Create_Workout w ev) = Hears L_Create_Workout"
  "by_handler (hears_Create_Challenge w ev) = Hears L_Create_Challenge"
  "by_handler (hears_View_Content w ev) = Hears L_View_Content"
  "by_handler (hears_Analytics w ev) = Hears L_Analytics"
  "by_handler (hears_Broadcast w ev) = Hears L_Broadcast"
  "by_handler (hears_Feedback w ev) = Hears L_Feedback"
  "by_handler (hears_Request_Data_Deletion w ev) = Hears L_Request_Data_Deletion"
  "by_handler (command_report e w ev) = Command ''report''"
  "by_handler (on_message w ev) = Fallback"
  "by_handler (on_callback_query w ev d) = Callback"
  by (simp_all add: late_handler_defs on_callback_query_def Let_def split: option.split)

lemma step_by [simp]:
  "by_handler (step_await_admin_pass e w ev txt) = StateFlow ''await_admin_pass''"
  "by_handler (step_edit_profile_full w ev st txt) = StateFlow ''edit_profile_full''"
  "by_handler (step_edit_profile_weight w ev st txt) = StateFlow ''edit_profile_weight''"
  "by_handler (step_edit_profile_height w ev st txt) = StateFlow ''edit_profile_height''"
  "by_handler (step_editing_profile_field w ev st txt) = StateFlow ''editing_profile_field''"
  "by_handler (editor_commit w ev h user p f g) = h"
  "by_handler (step_switch_profile w ev st txt) = StateFlow ''switch_profile''"
  "by_handler (step_delete_profile w ev st txt) = StateFlow ''delete_profile''"
  "by_handler (step_browse_exercises w ev st txt) = StateFlow ''browse_exercises''"
  "by_handler (step_log_meal w ev st txt) = StateFlow ''log_meal''"
  "by_handler (step_set_daily_reminder w ev st txt) = StateFlow ''set_daily_reminder''"
  "by_handler (step_set_water_reminders w ev st txt) = StateFlow ''set_water_reminders''"
  "by_handler (step_message_trainer w ev st txt) = StateFlow ''message_trainer''"
  "by_handler (admin_broadcast_first w ev txt) = AdminBroadcast_first"
  by (simp_all add: step_defs Let_def split: option.split sum.split jsnum.split prod.split)

lemma step_editing_profile_by [simp]:
  "by_handler (step_editing_profile e w ev st txt) = StateFlow (step st)"
  by (simp add: step_editing_profile_def Let_def split: option.split sum.split bool.split)

lemma admin_op_by [simp]:
  "by_handler (change_role s r m w ev t) = AdminOp s"
  "by_handler (remove_user w ev t) = AdminOp ''remove_user''"
  "by_handler (create_exercise e w ev t) = AdminOp ''create_exercise''"
  "by_handler (create_workout e w ev t) = AdminOp ''create_workout''"
  "by_handler (create_challenge e w ev t) = AdminOp ''create_challenge''"
  "by_handler (admin_broadcast_fallback w ev t) = AdminBroadcast_fallback"
  by (simp_all add: admin_op_defs split: option.split json.split prod.split)

lemma on_text_admin_reply_by:
  "on_text_admin_reply e w ev raw = Some r \<Longrightarrow> by_handler r = AdminReply"
  by (auto simp: on_text_admin_reply_def Let_def split: option.splits if_splits)

lemma on_text_report_bug_by:
  "on_text_report_bug e w ev raw = Some r \<Longrightarrow> by_handler r = ReportBug"
  by (auto simp: on_text_report_bug_def Let_def split: option.splits if_splits)

lemma on_text_state_by:
  "on_text_state e w ev raw = Some r \<Longrightarrow>
   (\<exists>s. by_handler r = StateFlow s) \<or> by_handler r = AdminBroadcast_first"
  by (auto simp: on_text_state_def Let_def split: option.splits if_splits)

lemma on_text_admin_ops_by:
  "on_text_admin_ops e w ev raw = Some r \<Longrightarrow>
   (\<exists>s. by_handler r = AdminOp s) \<or> by_handler r = AdminBroadcast_fallback"
  by (auto simp: on_text_admin_ops_def Let_def split: option.splits if_splits)

subsection \<open>Texts that match an early trigger\<close>

lemma split_acc_hd:
  "hd (split_acc sep cur s) = rev cur @ takeWhile (\<lambda>c. c \<noteq> sep) s"
  by (induction s arbitrary: cur) simp_all

lemma command_of_shape:
  assumes "command_of botname ev raw = Some c"
  shows "\<exists>x r. raw = x # c @ r"
proof -
  from assms obtain len where len: "bot_command ev = Some len"
    by (auto simp: command_of_def split: option.splits)
  let ?cmdPart = "takeWhile (\<lambda>c. c \<noteq> CHR ''@'') (take len raw)"
  have "hd (split CHR ''@'' (take len raw)) = ?cmdPart"
    by (simp add: split_def split_acc_hd)
  with assms len have "?cmdPart \<noteq> []" and "tl ?cmdPart = c"
    by (auto simp: command_of_def Let_def split: if_splits)
  then obtain x where x: "?cmdPart = x # c"
    by (cases ?cmdPart) auto
  have "raw = ?cmdPart @ dropWhile (\<lambda>c. c \<noteq> CHR ''@'') (take len raw) @ drop len raw"
    by (metis append_assoc append_take_drop_id takeWhile_dropWhile_id)
  with x show ?thesis
    by (metis append_Cons)
qed

lemma command_of_label:
  "raw \<in> set early_labels \<Longrightarrow> command_of botname ev raw \<noteq> Some ''start''"
  using command_of_shape [of botname ev raw "''start''"]
  by (auto simp: early_labels_def label_defs)

lemma hears_label:
  assumes "upd ev = TextMessage raw" and "raw \<in> set early_labels"
  shows "by_handler (handle_update e w ev) = Hears raw"
  using assms(2) command_of_label [OF assms(2), of "me e" ev]
  unfolding handle_update_def assms(1) text_middlewares_def early_middlewares_def
    early_labels_def
  by (auto simp: hears_def command_def label_defs)

lemma command_start:
  assumes "upd ev = TextMessage raw" and "command_of (me e) ev raw = Some ''start''"
  shows "handle_update e w ev = bot_start w ev"
  using assms
  by (simp add: handle_update_def text_middlewares_def early_middlewares_def command_def)

subsection \<open>Texts that reach the state dispatcher\<close>

lemma dispatcher_step_handled:
  assumes "states w (id_from (sender ev)) = Some st" and "dispatcher_step (step st)"
  shows "\<exists>r. on_text_state e w ev raw = Some r \<and> by_handler r = StateFlow (step st)"
  using assms
  by (auto simp: on_text_state_def dispatcher_step_def Let_def)

subsection \<open>Texts that pass the state dispatcher\<close>

lemma on_text_state_pass:
  assumes "states w (id_from (sender ev)) = Some st" and "\<not> dispatcher_step (step st)"
    and "step st \<noteq> ''admin_broadcast'' \<or> \<not> adminSessions_has w (id_from (sender ev))"
  shows "on_text_state e w ev raw = None"
  using assms
  by (auto simp: on_text_state_def dispatcher_step_def Let_def)

lemma handle_text_admin_reply:
  assumes "upd ev = TextMessage raw" and "\<not> early_trigger e ev raw"
    and "states w (id_from (sender ev)) = Some st" and "step st = ''admin_reply''"
    and "adminSessions_has w (id_from (sender ev))"
  shows "by_handler (handle_update e w ev) = AdminReply"
proof -
  have "on_text_state e w ev raw = None"
    using assms(3,4) by (simp add: on_text_state_pass dispatcher_step_def)
  moreover obtain r where "on_text_admin_reply e w ev raw = Some r"
    using assms(3-5) by (simp add: on_text_admin_reply_def)
  ultimately show ?thesis
    using assms(1,2) on_text_admin_reply_by [of e w ev raw r]
    by (simp add: handle_update_def text_middlewares_def compose_early late_middlewares_def)
qed

lemma handle_text_admin_op:
  assumes "upd ev = TextMessage raw" and "\<not> early_trigger e ev raw" and "\<not> admin_trigger e ev raw"
    and "states w (id_from (sender ev)) = Some st" and "admin_op_step (step st)"
    and "adminSessions_has w (id_from (sender ev))"
  shows "by_handler (handle_update e w ev) = AdminOp (step st)"
proof -
  have "on_text_state e w ev raw = None"
    using assms(4,5) by (auto simp: on_text_state_pass dispatcher_step_def admin_op_step_def)
  moreover have "on_text_admin_reply e w ev raw = None"
    using assms(4,5) by (auto simp: on_text_admin_reply_def admin_op_step_def)
  moreover obtain r where "on_text_admin_ops e w ev raw = Some r" "by_handler r = AdminOp (step st)"
    using assms(4-6) by (auto simp: on_text_admin_ops_def admin_op_step_def Let_def)
  ultimately show ?thesis
    using assms(1-3)
    by (simp add: handle_update_def text_middlewares_def compose_early late_middlewares_def
        admin_trigger_def admin_labels_def hears_def command_def)
qed

lemma handle_text_report_bug:
  assumes "upd ev = TextMessage raw" and "\<not> early_trigger e ev raw" and "\<not> admin_trigger e ev raw"
    and "\<not> report_trigger e ev raw"
    and "states w (id_from (sender ev)) = Some st" and "step st = ''report_bug''"
  shows "by_handler (handle_update e w ev) = ReportBug"
proof -
  have "on_text_state e w ev raw = None"
    using assms(5,6) by (auto simp: on_text_state_pass dispatcher_step_def)
  moreover have "on_text_admin_reply e w ev raw = None"
    using assms(5,6) by (auto simp: on_text_admin_reply_def)
  moreover have "on_text_admin_ops e w ev raw = None"
    using assms(5,6) by (auto simp: on_text_admin_ops_def Let_def)
  moreover obtain r where "on_text_report_bug e w ev raw = Some r"
    using assms(5,6) by (simp add: on_text_report_bug_def)
  ultimately show ?thesis
    using assms(1-4) on_text_report_bug_by [of e w ev raw r]
    by (simp add: handle_update_def text_middlewares_def compose_early late_middlewares_def
        admin_trigger_def admin_labels_def report_trigger_def hears_def command_def)
qed

subsection \<open>Texts that no flow takes\<close>

lemma on_text_admin_reply_pass:
  assumes "states w (id_from (sender ev)) = Some st"
    and "step st \<noteq> ''admin_reply'' \<or> \<not> adminSessions_has w (id_from (sender ev))"
  shows "on_text_admin_reply e w ev raw = None"
  using assms by (auto simp: on_text_admin_reply_def)

lemma on_text_admin_ops_pass:
  assumes "states w (id_from (sender ev)) = Some st"
    and "(\<not> admin_op_step (step st) \<and> step st \<noteq> ''admin_broadcast'')
         \<or> \<not> adminSessions_has w (id_from (sender ev))"
  shows "on_text_admin_ops e w ev raw = None"
  using assms by (auto simp: on_text_admin_ops_def admin_op_step_def Let_def)

lemma on_text_report_bug_pass:
  assumes "states w (id_from (sender ev)) = Some st" and "step st \<noteq> ''report_bug''"
  shows "on_text_report_bug e w ev raw = None"
  using assms by (auto simp: on_text_report_bug_def)

lemma handle_text_fallback:
  assumes "upd ev = TextMessage raw" and "\<not> early_trigger e ev raw"
    and "\<not> admin_trigger e ev raw" and "\<not> report_trigger e ev raw"
    and "states w (id_from (sender ev)) = Some st" and "\<not> has_handler w ev (step st)"
  shows "handle_update e w ev = on_message w ev"
proof -
  have "on_text_state e w ev raw = None"
    using assms(5,6) by (auto simp: on_text_state_pass has_handler_def adminSessions_has_def)
  moreover have "on_text_admin_reply e w ev raw = None"
    using assms(5,6)
    by (auto simp: on_text_admin_reply_pass has_handler_def adminSessions_has_def)
  moreover have "on_text_admin_ops e w ev raw = None"
    using assms(5,6)
    by (auto simp: on_text_admin_ops_pass has_handler_def adminSessions_has_def)
  moreover have "on_text_report_bug e w ev raw = None"
    using assms(5,6) by (auto simp: on_text_report_bug_pass has_handler_def)
  ultimately show ?thesis
    using assms(1-4)
    by (simp add: handle_update_def text_middlewares_def compose_early late_middlewares_def
        admin_trigger_def admin_labels_def report_trigger_def hears_def command_def)
qed

subsection \<open>Texts that match a later trigger\<close>

lemma handle_text_admin_trigger:
  assumes "upd ev = TextMessage raw" and "\<not> early_trigger e ev raw"
    and "admin_trigger e ev raw"
    and "on_text_state e w ev raw = None" and "on_text_admin_reply e w ev raw = None"
  shows "by_handler (handle_update e w ev) =
     (if command_of (me e) ev raw = Some ''admin'' then Command ''admin'' else Hears raw)"
  using assms
  by (auto simp: handle_update_def text_middlewares_def compose_early late_middlewares_def
      admin_trigger_def admin_labels_def hears_def command_def late_label_defs)

lemma handle_text_report_trigger:
  assumes "upd ev = TextMessage raw" and "\<not> early_trigger e ev raw"
    and "\<not> admin_trigger e ev raw" and "report_trigger e ev raw"
    and "on_text_state e w ev raw = None" and "on_text_admin_reply e w ev raw = None"
    and "on_text_admin_ops e w ev raw = None"
  shows "by_handler (handle_update e w ev) =
     (if raw = L_Request_Data_Deletion then Hears raw else Command ''report'')"
  using assms
  by (auto simp: handle_update_def text_middlewares_def compose_early late_middlewares_def
      admin_trigger_def admin_labels_def report_trigger_def hears_def command_def)

section \<open>What a turn leaves alone\<close>

lemma compose_cases:
  assumes "\<And>m r. m \<in> set ms \<Longrightarrow> m e w ev raw = Some r \<Longrightarrow> P r"
    and "P \<lparr>after = w, out = [], by_handler = Unhandled, threw = False\<rparr>"
  shows "P (compose ms e w ev raw)"
  using assms by (induction ms) (auto split: option.splits)

subsection \<open>The elevation set\<close>

lemma adminSessions_add_sel [simp]:
  "states (adminSessions_add k w) = states w"
  "set (adminSessions (adminSessions_add k w)) = insert k (set (adminSessions w))"
  "users (adminSessions_add k w) = users w"
  "exercises (adminSessions_add k w) = exercises w"
  "workouts (adminSessions_add k w) = workouts w"
  "challenges (adminSessions_add k w) = challenges w"
  by (auto simp: adminSessions_add_def)

lemma adminSessions_delete_sel [simp]:
  "states (adminSessions_delete k w) = states w"
  "set (adminSessions (adminSessions_delete k w)) = set (adminSessions w) - {k}"
  "users (adminSessions_delete k w) = users w"
  "exercises (adminSessions_delete k w) = exercises w"
  "workouts (adminSessions_delete k w) = workouts w"
  "challenges (adminSessions_delete k w) = challenges w"
  by (auto simp: adminSessions_delete_def)

lemma early_admins [simp]:
  "adminSessions (after (bot_start w ev)) = adminSessions w"
  "adminSessions (after (hears_Profile w ev)) = adminSessions w"
  "adminSessions (after (hears_Edit_Profile w ev)) = adminSessions w"
  "adminSessions (after (hears_Switch_Profile w ev)) = adminSessions w"
  "adminSessions (after (hears_Add_Profile w ev)) = adminSessions w"
  "adminSessions (after (hears_Delete_Profile w ev)) = adminSessions w"
  "adminSessions (after (hears_Workouts w ev)) = adminSessions w"
  "adminSessions (after (hears_Today w ev)) = adminSessions w"
  "adminSessions (after (hears_My_Plan w ev)) = adminSessions w"
  "adminSessions (after (hears_Browse_Exercises w ev)) = adminSessions w"
  "adminSessions (after (hears_Nutrition w ev)) = adminSessions w"
  "adminSessions (after (hears_Log_Meal w ev)) = adminSessions w"
  "adminSessions (after (hears_View_Meals w ev)) = adminSessions w"
  "adminSessions (after (hears_Macro_Advice w ev)) = adminSessions w"
  "adminSessions (after (hears_Water_Tracker w ev)) = adminSessions w"
  "adminSessions (after (hears_Progress w ev)) = adminSessions w"
  "adminSessions (after (hears_Reminders w ev)) = adminSessions w"
  "adminSessions (after (hears_Set_Daily_Workout w ev)) = adminSessions w"
  "adminSessions (after (hears_Set_Water_Reminders w ev)) = adminSessions w"
  "adminSessions (after (hears_Remove_Reminders w ev)) = adminSessions w"
  "adminSessions (after (hears_Trainer w ev)) = adminSessions w"
  "adminSessions (after (hears_Challenges w ev)) = adminSessions w"
  "adminSessions (after (hears_Settings w ev)) = adminSessions w"
  "adminSessions (after (hears_Help w ev)) = adminSessions w"
  by (simp_all add: early_handler_defs Let_def split: option.split)

lemma late_admins [simp]:
  "adminSessions (after (command_admin e w ev)) = adminSessions w"
  "adminSessions (after (hears_User_Mgmt w ev)) = adminSessions w"
  "adminSessions (after (hears_Promote_User w ev)) = adminSessions w"
  "adminSessions (after (hears_Demote_User w ev)) = adminSessions w"
  "adminSessions (after (hears_Remove_User w ev)) = adminSessions w"
  "adminSessions (after (hears_Content_Mgmt w ev)) = adminSessions w"
  "adminSessions (after (hears_Create_Exercise w ev)) = adminSessions w"
  "adminSessions (after (hears_Create_Workout w ev)) = adminSessions w"
  "adminSessions (after (hears_Create_Challenge w ev)) = adminSessions w"
  "adminSessions (after (hears_View_Content w ev)) = adminSessions w"
  "adminSessions (after (hears_Analytics w ev)) = adminSessions w"
  "adminSessions (after (hears_Broadcast w ev)) = adminSessions w"
  "adminSessions (after (hears_Feedback w ev)) = adminSessions w"
  "adminSessions (after (hears_Request_Data_Deletion w ev)) = adminSessions w"
  "adminSessions (after (command_report e w ev)) = adminSessions w"
  "adminSessions (after (on_message w ev)) = adminSessions w"
  "adminSessions (after (on_callback_query w ev d)) = adminSessions w"
  by (simp_all add: late_handler_defs on_callback_query_def Let_def split: option.split)

lemma logout_admins [simp]:
  "set (adminSessions (after (hears_Logout_Admin w ev))) =
     set (adminSessions w) - {id_from (sender ev)}"
  by (auto simp: hears_Logout_Admin_def adminSessions_has_def)

lemma step_admins [simp]:
  "adminSessions (after (step_edit_profile_full w ev st txt)) = adminSessions w"
  "adminSessions (after (step_edit_profile_weight w ev st txt)) = adminSessions w"
  "adminSessions (after (step_edit_profile_height w ev st txt)) = adminSessions w"
  "adminSessions (after (step_editing_profile_field w ev st txt)) = adminSessions w"
  "adminSessions (after (editor_commit w ev h user p f g)) = adminSessions w"
  "adminSessions (after (step_switch_profile w ev st txt)) = adminSessions w"
  "adminSessions (after (step_delete_profile w ev st txt)) = adminSessions w"
  "adminSessions (after (step_browse_exercises w ev st txt)) = adminSessions w"
  "adminSessions (after (step_log_meal w ev st txt)) = adminSessions w"
  "adminSessions (after (step_set_daily_reminder w ev st txt)) = adminSessions w"
  "adminSessions (after (step_set_water_reminders w ev st txt)) = adminSessions w"
  "adminSessions (after (step_message_trainer w ev st txt)) = adminSessions w"
  "adminSessions (after (admin_broadcast_first w ev txt)) = adminSessions w"
  by (simp_all add: step_defs Let_def split: option.split sum.split jsnum.split prod.split)

lemma step_editing_profile_admins [simp]:
  "adminSessions (after (step_editing_profile e w ev st txt)) = adminSessions w"
  by (simp add: step_editing_profile_def Let_def split: option.split sum.split bool.split)

lemma step_await_admin_pass_admins:
  "set (adminSessions (after (step_await_admin_pass e w ev txt))) =
     (if Some txt = ADMIN_PASS e then insert (id_from (sender ev)) (set (adminSessions w))
      else set (adminSessions w))"
  by (simp add: step_await_admin_pass_def Let_def)

lemma admin_op_admins [simp]:
  "adminSessions (after (change_role s r m w ev t)) = adminSessions w"
  "adminSessions (after (remove_user w ev t)) = adminSessions w"
  "adminSessions (after (create_exercise e w ev t)) = adminSessions w"
  "adminSessions (after (create_workout e w ev t)) = adminSessions w"
  "adminSessions (after (create_challenge e w ev t)) = adminSessions w"
  "adminSessions (after (admin_broadcast_fallback w ev t)) = adminSessions w"
  by (simp_all add: admin_op_defs split: option.split json.split prod.split)

lemma on_text_state_admins:
  "on_text_state e w ev raw = Some r \<Longrightarrow> set (adminSessions w) \<subseteq> set (adminSessions (after r))"
  by (auto simp: on_text_state_def Let_def step_await_admin_pass_admins
      split: option.splits if_splits)

lemma on_text_admin_reply_admins:
  "on_text_admin_reply e w ev raw = Some r \<Longrightarrow> adminSessions (after r) = adminSessions w"
  by (auto simp: on_text_admin_reply_def Let_def split: option.splits if_splits)

lemma on_text_admin_ops_admins:
  "on_text_admin_ops e w ev raw = Some r \<Longrightarrow> adminSessions (after r) = adminSessions w"
  by (auto simp: on_text_admin_ops_def Let_def split: option.splits if_splits)

lemma on_text_report_bug_admins:
  "on_text_report_bug e w ev raw = Some r \<Longrightarrow> adminSessions (after r) = adminSessions w"
  by (auto simp: on_text_report_bug_def Let_def split: option.splits if_splits)

lemma middleware_keeps_admins:
  assumes "m \<in> set text_middlewares" and "m e w ev raw = Some r"
    and "a \<in> set (adminSessions w)"
    and "\<not> (raw = L_Logout_Admin \<and> id_from (sender ev) = a)"
  shows "a \<in> set (adminSessions (after r))"
proof -
  from assms(1) consider
      (early) "m \<in> set early_middlewares"
    | (state) "m = on_text_state"
    | (late) "m \<in> set late_middlewares"
    by (auto simp: text_middlewares_def)
  then show ?thesis
  proof cases
    case early
    with assms(2) have "adminSessions (after r) = adminSessions w"
      by (auto simp: early_middlewares_def hears_def command_def split: if_splits)
    with assms(3) show ?thesis by simp
  next
    case state
    with assms(2,3) on_text_state_admins [of e w ev raw r] show ?thesis
      by auto
  next
    case late
    with assms(2) on_text_admin_reply_admins [of e w ev raw r]
      on_text_admin_ops_admins [of e w ev raw r] on_text_report_bug_admins [of e w ev raw r]
    have "adminSessions (after r) = adminSessions w
          \<or> (raw = L_Logout_Admin \<and> r = hears_Logout_Admin w ev)"
      by (auto simp: late_middlewares_def hears_def command_def split: if_splits)
    with assms(3,4) show ?thesis
      by auto
  qed
qed

lemma turn_keeps_admins:
  assumes "a \<in> set (adminSessions w)"
    and "\<not> (upd ev = TextMessage L_Logout_Admin \<and> id_from (sender ev) = a)"
  shows "a \<in> set (adminSessions (after (handle_update e w ev)))"
proof (cases "upd ev")
  case (TextMessage raw)
  with assms(2) have n: "\<not> (raw = L_Logout_Admin \<and> id_from (sender ev) = a)"
    by auto
  have "a \<in> set (adminSessions (after (compose text_middlewares e w ev raw)))"
    by (rule compose_cases [where P = "\<lambda>r. a \<in> set (adminSessions (after r))"])
       (use assms(1) n in \<open>auto intro: middleware_keeps_admins\<close>)
  with TextMessage show ?thesis
    by (simp add: handle_update_def)
next
  case OtherMessage
  with assms(1) show ?thesis
    by (simp add: handle_update_def)
next
  case (CallbackQuery d)
  with assms(1) show ?thesis
    by (simp add: handle_update_def)
qed

subsection \<open>Turns without privileged effect\<close>

lemma save_keys_id:
  "findOne tid us = Some u \<Longrightarrow> telegramId u' = tid \<Longrightarrow> role u' = role u \<Longrightarrow>
   map user_key (save u' us) = map user_key us"
  by (induction us) (auto simp: findOne_def user_key_def split: if_splits)

lemma save_keys:
  "findOne tid us = Some u \<Longrightarrow> user_key u' = user_key u \<Longrightarrow>
   map user_key (save u' us) = map user_key us"
  using findOne_Some [of tid us u] by (simp add: save_keys_id user_key_def)

lemma findOne_or_create_keys:
  assumes "user_key u' = user_key (fst (findOne_or_create w ev))"
  shows "prefix (map user_key (users w)) (map user_key (save u' (snd (findOne_or_create w ev))))"
proof (cases "findOne (id_from (sender ev)) (users w)")
  case None
  let ?new = "User_create (id_from (sender ev)) None None (now ev)"
  from assms None have t: "telegramId u' = id_from (sender ev)"
    by (simp add: findOne_or_create_def user_key_def User_create_def)
  with None have "save u' (users w @ [?new]) = users w @ [u']"
    by (intro save_append_new) (simp_all add: User_create_def)
  with None show ?thesis
    by (simp add: findOne_or_create_def)
next
  case (Some u)
  with assms have "map user_key (save u' (users w)) = map user_key (users w)"
    by (intro save_keys [of "id_from (sender ev)" _ u]) (simp_all add: findOne_or_create_def)
  with Some show ?thesis
    by (simp add: findOne_or_create_def)
qed

lemma unprivileged_simple [simp]:
  "unprivileged w (reply w' h t) =
     (\<not> privileged_handler h \<and> exercises w' = exercises w \<and> workouts w' = workouts w
      \<and> challenges w' = challenges w \<and> prefix (map user_key (users w)) (map user_key (users w')))"
  "unprivileged w (rendered w' h t) =
     (\<not> privileged_handler h \<and> exercises w' = exercises w \<and> workouts w' = workouts w
      \<and> challenges w' = challenges w \<and> prefix (map user_key (users w)) (map user_key (users w')))"
  "unprivileged w (throws w' h) =
     (\<not> privileged_handler h \<and> exercises w' = exercises w \<and> workouts w' = workouts w
      \<and> challenges w' = challenges w \<and> prefix (map user_key (users w)) (map user_key (users w')))"
  by (auto simp: unprivileged_def privileged_send_def)

lemma privileged_handler_simps [simp]:
  "\<not> privileged_handler Start" "\<not> privileged_handler (Hears l)" "\<not> privileged_handler (Command c)"
  "\<not> privileged_handler (StateFlow s)" "\<not> privileged_handler ReportBug"
  "\<not> privileged_handler Fallback" "\<not> privileged_handler Callback"
  "\<not> privileged_handler Unhandled"
  by (simp_all add: privileged_handler_def)

lemma privileged_send_simps [simp]:
  "\<not> privileged_send (Reply t)" "\<not> privileged_send (Rendered t)"
  "\<not> privileged_send ReplyPhoto" "\<not> privileged_send (AnswerCbQuery t)"
  by (simp_all add: privileged_send_def)

lemma notify_admins_unprivileged:
  "\<not> prefix ([CHR 0xF0, CHR 0x9F, CHR 0x93, CHR 0xA2] @ '' Message from Admin:'' @ [CHR 0x0A, CHR 0x0A]) msg \<Longrightarrow> \<not> prefix ([CHR 0xF0, CHR 0x9F, CHR 0x93, CHR 0xA2] @ '' Admin Broadcast:'' @ [CHR 0x0A, CHR 0x0A]) msg \<Longrightarrow>
   \<not> prefix (''Trainer reply:'' @ [CHR 0x0A, CHR 0x0A]) msg \<Longrightarrow>
   list_all (\<lambda>x. \<not> privileged_send x) (notify_admins w ev msg)"
  by (simp add: notify_admins_def list_all_iff privileged_send_def)

lemma early_unprivileged [simp]:
  "unprivileged w (bot_start w ev)"
  "unprivileged w (hears_Profile w ev)"
  "unprivileged w (hears_Edit_Profile w ev)"
  "unprivileged w (hears_Switch_Profile w ev)"
  "unprivileged w (hears_Add_Profile w ev)"
  "unprivileged w (hears_Delete_Profile w ev)"
  "unprivileged w (hears_Workouts w ev)"
  "unprivileged w (hears_Today w ev)"
  "unprivileged w (hears_My_Plan w ev)"
  "unprivileged w (hears_Browse_Exercises w ev)"
  "unprivileged w (hears_Nutrition w ev)"
  "unprivileged w (hears_Log_Meal w ev)"
  "unprivileged w (hears_View_Meals w ev)"
  "unprivileged w (hears_Macro_Advice w ev)"
  "unprivileged w (hears_Water_Tracker w ev)"
  "unprivileged w (hears_Progress w ev)"
  "unprivileged w (hears_Reminders w ev)"
  "unprivileged w (hears_Set_Daily_Workout w ev)"
  "unprivileged w (hears_Set_Water_Reminders w ev)"
  "unprivileged w (hears_Remove_Reminders w ev)"
  "unprivileged w (hears_Trainer w ev)"
  "unprivileged w (hears_Challenges w ev)"
  "unprivileged w (hears_Settings w ev)"
  "unprivileged w (hears_Help w ev)"
  by (simp_all add: early_handler_defs Let_def save_keys user_key_def unprivileged_def
      privileged_send_def split: option.split)

lemma late_unprivileged [simp]:
  "unprivileged w (command_admin e w ev)"
  "unprivileged w (hears_Logout_Admin w ev)"
  "unprivileged w (hears_User_Mgmt w ev)"
  "unprivileged w (hears_Promote_User w ev)"
  "unprivileged w (hears_Demote_User w ev)"
  "unprivileged w (hears_Remove_User w ev)"
  "unprivileged w (hears_Content_Mgmt w ev)"
  "unprivileged w (hears_Create_Exercise w ev)"
  "unprivileged w (hears_Create_Workout w ev)"
  "unprivileged w (hears_Create_Challenge w ev)"
  "unprivileged w (hears_View_Content w ev)"
  "unprivileged w (hears_Analytics w ev)"
  "unprivileged w (hears_Broadcast w ev)"
  "unprivileged w (hears_Feedback w ev)"
  "unprivileged w (hears_Request_Data_Deletion w ev)"
  "unprivileged w (command_report e w ev)"
  "unprivileged w (on_message w ev)"
  "unprivileged w (on_callback_query w ev d)"
  by (simp_all add: late_handler_defs on_callback_query_def Let_def save_keys user_key_def
      unprivileged_def privileged_send_def list_all_iff split: option.split)

lemma step_unprivileged [simp]:
  "unprivileged w (step_await_admin_pass e w ev txt)"
  "unprivileged w (step_edit_profile_full w ev st txt)"
  "unprivileged w (step_edit_profile_weight w ev st txt)"
  "unprivileged w (step_edit_profile_height w ev st txt)"
  "unprivileged w (step_editing_profile_field w ev st txt)"
  "unprivileged w (step_switch_profile w ev st txt)"
  "unprivileged w (step_delete_profile w ev st txt)"
  "unprivileged w (step_browse_exercises w ev st txt)"
  "unprivileged w (step_log_meal w ev st txt)"
  "unprivileged w (step_set_daily_reminder w ev st txt)"
  "unprivileged w (step_set_water_reminders w ev st txt)"
  by (simp_all add: step_defs Let_def save_keys findOne_or_create_keys user_key_def
      unprivileged_def privileged_send_def
      split: option.split sum.split jsnum.split prod.split)

lemma editor_commit_unprivileged:
  assumes "findOne (id_from (sender ev)) (users w) = Some user"
    and "\<And>q u. user_key (g q u) = user_key u" and "\<not> privileged_handler h"
  shows "unprivileged w (editor_commit w ev h user p f g)"
  using assms
  by (simp add: editor_commit_def Let_def save_keys user_key_def split: sum.split)

lemma step_editing_profile_unprivileged [simp]:
  "unprivileged w (step_editing_profile e w ev st txt)"
  by (simp add: step_editing_profile_def Let_def editor_commit_unprivileged user_key_def
      split: option.split sum.split bool.split)

lemma step_message_trainer_unprivileged [simp]:
  "unprivileged w (step_message_trainer w ev st txt)"
  by (simp add: step_message_trainer_def Let_def unprivileged_def
      notify_admins_unprivileged split: option.split)

lemma on_text_state_unprivileged:
  "id_from (sender ev) \<notin> set (adminSessions w) \<Longrightarrow> on_text_state e w ev raw = Some r \<Longrightarrow>
   unprivileged w r"
  by (auto simp: on_text_state_def Let_def adminSessions_has_def split: option.splits if_splits)

lemma on_text_admin_reply_unelevated:
  "id_from (sender ev) \<notin> set (adminSessions w) \<Longrightarrow> on_text_admin_reply e w ev raw = None"
  by (simp add: on_text_admin_reply_def adminSessions_has_def split: option.split)

lemma on_text_admin_ops_unelevated:
  "id_from (sender ev) \<notin> set (adminSessions w) \<Longrightarrow> on_text_admin_ops e w ev raw = None"
  by (simp add: on_text_admin_ops_def adminSessions_has_def Let_def split: option.split)

lemma on_text_report_bug_unprivileged:
  "on_text_report_bug e w ev raw = Some r \<Longrightarrow> unprivileged w r"
  by (auto simp: on_text_report_bug_def Let_def unprivileged_def
      notify_admins_unprivileged split: option.splits if_splits)

lemma middleware_unprivileged:
  assumes "m \<in> set text_middlewares" and "m e w ev raw = Some r"
    and "id_from (sender ev) \<notin> set (adminSessions w)"
  shows "unprivileged w r"
proof -
  from assms(1) consider
      (early) "m \<in> set early_middlewares"
    | (state) "m = on_text_state"
    | (late) "m \<in> set late_middlewares"
    by (auto simp: text_middlewares_def)
  then show ?thesis
  proof cases
    case early
    with assms(2) show ?thesis
      by (auto simp: early_middlewares_def hears_def command_def split: if_splits)
  next
    case state
    with assms(2,3) show ?thesis
      by (simp add: on_text_state_unprivileged)
  next
    case late
    with assms(2) on_text_admin_reply_unelevated [OF assms(3), of e raw]
      on_text_admin_ops_unelevated [OF assms(3), of e raw]
      on_text_report_bug_unprivileged [of e w ev raw r]
    show ?thesis
      by (auto simp: late_middlewares_def hears_def command_def split: if_splits)
  qed
qed

section \<open>Numbers are not triggers\<close>

lemma strip1_Some:
  "strip1 ws s = Some r \<Longrightarrow> \<exists>w \<in> set ws. prefix w s \<and> r = drop (length w) s"
  by (induction ws) (auto split: if_splits)


lemma strip_all_mem:
  assumes "\<forall>w \<in> set ws. c \<notin> set w"
  shows "c \<in> set s \<Longrightarrow> c \<in> set (strip_all n ws s)"
proof (induction n arbitrary: s)
  case 0
  then show ?case by simp
next
  case (Suc n)
  show ?case
  proof (cases "strip1 ws s")
    case None
    with Suc.prems show ?thesis by simp
  next
    case (Some r)
    then obtain w where w: "w \<in> set ws" "prefix w s" "r = drop (length w) s"
      using strip1_Some by blast
    from w(2,3) have "s = w @ r"
      by (auto simp: prefix_def)
    with Suc.prems w(1) assms have "c \<in> set r"
      by auto
    with Some Suc.IH [of r] show ?thesis
      by simp
  qed
qed

lemma trim_mem_s: "CHR ''s'' \<in> set t \<Longrightarrow> CHR ''s'' \<in> set (trim t)"
proof -
  assume a: "CHR ''s'' \<in> set t"
  have ws: "\<forall>w \<in> set whiteSpace. CHR ''s'' \<notin> set w"
    by (simp add: whiteSpace_def)
  then have ws': "\<forall>w \<in> set (map rev whiteSpace). CHR ''s'' \<notin> set w"
    by simp
  from a have "CHR ''s'' \<in> set (trimStart t)"
    unfolding trimStart_def by (rule strip_all_mem [OF ws])
  then have "CHR ''s'' \<in> set (rev (trimStart t))"
    by simp
  then have "CHR ''s'' \<in> set (strip_all (length (trimStart t)) (map rev whiteSpace)
      (rev (trimStart t)))"
    by (rule strip_all_mem [OF ws'])
  then show ?thesis
    by (simp add: trim_def trimEnd_def)
qed

lemma digit_of_s: "digit_of radix (CHR ''s'') = None"
  by (simp add: digit_of_def)

lemma digits_value_no_s:
  "digits_value radix acc ds = Some n \<Longrightarrow> CHR ''s'' \<notin> set ds"
  by (induction ds arbitrary: acc) (auto simp: digit_of_s split: option.splits)

lemma ExponentPart_no_s:
  assumes "ExponentPart t = Some x"
  shows "CHR ''s'' \<notin> set t"
proof (cases t)
  case Nil
  then show ?thesis by simp
next
  case (Cons c r)
  let ?ds = "case r of d # u \<Rightarrow> if d = CHR ''+'' \<or> d = CHR ''-'' then u else r | [] \<Rightarrow> r"
  from assms Cons have c: "c = CHR ''e'' \<or> c = CHR ''E''"
    by (auto simp: ExponentPart_def split: if_splits)
  from assms Cons obtain n where "digits_value 10 0 ?ds = Some n"
    by (auto simp: ExponentPart_def Let_def split: if_splits option.splits)
  then have "CHR ''s'' \<notin> set ?ds"
    by (rule digits_value_no_s)
  then have "CHR ''s'' \<notin> set r"
    by (cases r) (auto split: if_splits)
  with c Cons show ?thesis
    by auto
qed

lemma is_digit_s: "\<not> is_digit (CHR ''s'')"
  by (simp add: is_digit_def digit_of_def)

lemma dropWhile_digit_no_s:
  "CHR ''s'' \<notin> set (dropWhile is_digit t) \<Longrightarrow> CHR ''s'' \<notin> set t"
  using is_digit_s by (induction t) (auto split: if_splits)

lemma StrUnsignedDecimalLiteral_no_s:
  assumes "StrUnsignedDecimalLiteral t \<noteq> NaN"
  shows "CHR ''s'' \<notin> set t"
proof (cases "t = ''Infinity''")
  case True
  then show ?thesis by simp
next
  case False
  let ?r1 = "dropWhile is_digit t"
  let ?r2 = "case ?r1 of c # u \<Rightarrow> if c = CHR ''.'' then dropWhile is_digit u else ?r1 | [] \<Rightarrow> []"
  from assms False obtain x where x: "ExponentPart ?r2 = Some x"
    by (auto simp: StrUnsignedDecimalLiteral_def Let_def split: if_splits option.splits)
  then have r2: "CHR ''s'' \<notin> set ?r2"
    by (rule ExponentPart_no_s)
  have "CHR ''s'' \<notin> set ?r1"
  proof (cases ?r1)
    case Nil
    show ?thesis
      unfolding Nil by simp
  next
    case (Cons c u)
    show ?thesis
    proof (cases "c = CHR ''.''")
      case True
      with r2 Cons have "CHR ''s'' \<notin> set (dropWhile is_digit u)"
        by simp
      then have "CHR ''s'' \<notin> set u"
        by (rule dropWhile_digit_no_s)
      with Cons True show ?thesis
        by simp
    next
      case False
      with r2 Cons show ?thesis by simp
    qed
  qed
  then show ?thesis
    by (rule dropWhile_digit_no_s)
qed

lemma NonDecimalIntegerLiteral_no_s:
  "NonDecimalIntegerLiteral t = Some n \<Longrightarrow> CHR ''s'' \<notin> set t"
  by (auto simp: NonDecimalIntegerLiteral_def dest: digits_value_no_s
      split: list.splits if_splits)

lemma negate_NaN: "negate x = NaN \<longleftrightarrow> x = NaN"
  by (cases x) (simp_all add: negate_def)

lemma StringNumericLiteral_no_s:
  assumes "StringNumericLiteral t \<noteq> NaN"
  shows "CHR ''s'' \<notin> set t"
proof (cases t)
  case Nil
  then show ?thesis by simp
next
  case (Cons c r)
  consider "c = CHR ''+''" | "c = CHR ''-''" | "c \<noteq> CHR ''+''" "c \<noteq> CHR ''-''"
    by blast
  then show ?thesis
  proof cases
    case 1
    with assms Cons have "StrUnsignedDecimalLiteral r \<noteq> NaN"
      by (simp add: StringNumericLiteral_def)
    with 1 Cons show ?thesis
      by (simp add: StrUnsignedDecimalLiteral_no_s)
  next
    case 2
    with assms Cons have "StrUnsignedDecimalLiteral r \<noteq> NaN"
      by (simp add: StringNumericLiteral_def negate_NaN)
    with 2 Cons show ?thesis
      by (simp add: StrUnsignedDecimalLiteral_no_s)
  next
    case 3
    show ?thesis
    proof (cases "NonDecimalIntegerLiteral t")
      case None
      with assms Cons 3 have "StrUnsignedDecimalLiteral t \<noteq> NaN"
        by (simp add: StringNumericLiteral_def)
      then show ?thesis
        by (rule StrUnsignedDecimalLiteral_no_s)
    next
      case (Some n)
      then show ?thesis
        by (rule NonDecimalIntegerLiteral_no_s)
    qed
  qed
qed

text \<open>A text that is taken as the command \<^verbatim>\<open>start\<close> has the letter s, which no number has.\<close>

lemma command_not_numeric:
  assumes "command_of botname ev raw = Some ''start''"
  shows "Number_js (trim raw) = NaN"
proof -
  from command_of_shape [OF assms] have "CHR ''s'' \<in> set raw"
    by auto
  then have "CHR ''s'' \<in> set (trim (trim raw))"
    by (intro trim_mem_s)
  then show ?thesis
    using StringNumericLiteral_no_s [of "trim (trim raw)"]
    by (auto simp: Number_js_def)
qed

lemma label_trim:
  "trim L_Profile = L_Profile"
  "trim L_Edit_Profile = L_Edit_Profile"
  "trim L_Switch_Profile = L_Switch_Profile"
  "trim L_Add_Profile = L_Add_Profile"
  "trim L_Delete_Profile = L_Delete_Profile"
  "trim L_Workouts = L_Workouts"
  "trim L_Today = L_Today"
  "trim L_My_Plan = L_My_Plan"
  "trim L_Browse_Exercises = L_Browse_Exercises"
  "trim L_Nutrition = L_Nutrition"
  "trim L_Log_Meal = L_Log_Meal"
  "trim L_View_Meals = L_View_Meals"
  "trim L_Macro_Advice = L_Macro_Advice"
  "trim L_Water_Tracker = L_Water_Tracker"
  "trim L_Progress = L_Progress"
  "trim L_Reminders = L_Reminders"
  "trim L_Set_Daily_Workout = L_Set_Daily_Workout"
  "trim L_Set_Water_Reminders = L_Set_Water_Reminders"
  "trim L_Remove_Reminders = L_Remove_Reminders"
  "trim L_Trainer = L_Trainer"
  "trim L_Challenges = L_Challenges"
  "trim L_Settings = L_Settings"
  "trim L_Help = L_Help"
  by (simp_all add: label_defs trim_defs)

lemma label_number:
  "StringNumericLiteral L_Profile = NaN"
  "StringNumericLiteral L_Edit_Profile = NaN"
  "StringNumericLiteral L_Switch_Profile = NaN"
  "StringNumericLiteral L_Add_Profile = NaN"
  "StringNumericLiteral L_Delete_Profile = NaN"
  "StringNumericLiteral L_Workouts = NaN"
  "StringNumericLiteral L_Today = NaN"
  "StringNumericLiteral L_My_Plan = NaN"
  "StringNumericLiteral L_Browse_Exercises = NaN"
  "StringNumericLiteral L_Nutrition = NaN"
  "StringNumericLiteral L_Log_Meal = NaN"
  "StringNumericLiteral L_View_Meals = NaN"
  "StringNumericLiteral L_Macro_Advice = NaN"
  "StringNumericLiteral L_Water_Tracker = NaN"
  "StringNumericLiteral L_Progress = NaN"
  "StringNumericLiteral L_Reminders = NaN"
  "StringNumericLiteral L_Set_Daily_Workout = NaN"
  "StringNumericLiteral L_Set_Water_Reminders = NaN"
  "StringNumericLiteral L_Remove_Reminders = NaN"
  "StringNumericLiteral L_Trainer = NaN"
  "StringNumericLiteral L_Challenges = NaN"
  "StringNumericLiteral L_Settings = NaN"
  "StringNumericLiteral L_Help = NaN"
  by (simp_all add: label_defs number_defs)

lemma label_not_numeric:
  "raw \<in> set early_labels \<Longrightarrow> Number_js (trim raw) = NaN"
  unfolding early_labels_def Number_js_def
  by (auto simp: label_trim label_number)

lemma numeric_not_trigger:
  "Number_js (trim raw) \<noteq> NaN \<Longrightarrow> \<not> early_trigger e ev raw"
  using command_not_numeric [of "me e" ev raw] label_not_numeric [of raw]
  by (auto simp: early_trigger_def)

section \<open>Flows and menus\<close>

text \<open>
  Claim C1 says that a text from a user with an active session always goes to the
  handler of the active flow and never to a menu handler, also when the text is a menu
  label. The menu handlers of lines 235 to 426 are registered before the state
  dispatcher and do not call \<^verbatim>\<open>next()\<close>, so they win. User 7 is at the first onboarding
  step and sends the label of the profile menu: the profile menu answers, the age step
  does not run, and the session is still at the age step.
\<close>

theorem menu_label_wins_over_flow:
  "states (world_of (in_step 7 ''edit_profile_full'' (Some (ProfileId ''p-1''))) []
             [user_of 7 [profile1] (Some ''p-1'')]) 7
     = Some \<lparr>step = ''edit_profile_full'', data = Some (ProfileId ''p-1'')\<rparr>
   \<and> by_handler (handle_update env1
        (world_of (in_step 7 ''edit_profile_full'' (Some (ProfileId ''p-1''))) []
           [user_of 7 [profile1] (Some ''p-1'')])
        (text_from 7 L_Profile)) = Hears L_Profile
   \<and> by_handler (handle_update env1
        (world_of (in_step 7 ''edit_profile_full'' (Some (ProfileId ''p-1''))) []
           [user_of 7 [profile1] (Some ''p-1'')])
        (text_from 7 L_Profile)) \<noteq> StateFlow ''edit_profile_full''
   \<and> states (after (handle_update env1
        (world_of (in_step 7 ''edit_profile_full'' (Some (ProfileId ''p-1''))) []
           [user_of 7 [profile1] (Some ''p-1'')])
        (text_from 7 L_Profile))) 7
     = Some \<lparr>step = ''edit_profile_full'', data = Some (ProfileId ''p-1'')\<rparr>"
  by (simp add: handle_update_def text_middlewares_def early_middlewares_def hears_def
      command_def command_of_def label_defs hears_Profile_def findOne_def user_of_def
      User_create_def in_step_def)

text \<open>
  Claim C1, amended. A text from a user with an active session goes to the handler of
  the active flow when the flow has a handler for this sender and the text matches no
  command or menu trigger registered before that handler's middleware. The flows with
  a handler are the steps of the state dispatcher (line 429) and the bug report, and
  for an elevated sender also the broadcast, the admin reply and the six admin
  operations. The earlier triggers are the command \<^verbatim>\<open>/start\<close> addressed to this bot and the
  23 labels of the main menus for every flow; for the admin operations also \<^verbatim>\<open>/admin\<close>
  and the 13 admin labels; for the bug report also the data-deletion label and
  \<^verbatim>\<open>/report\<close>. A text that matches an earlier trigger is taken by the handler of the
  first trigger it matches, whatever the session. A session whose step has no handler
  for the sender, which is the step \<^verbatim>\<open>set_water_times\<close> that the water tracker stores
  (line 365) and no middleware tests, or a privileged step of a sender who is not
  elevated, is dispatched to no flow: the text goes to the first trigger it matches and,
  when it matches none, to the fallback, which leaves the session as it is.
\<close>

theorem flow_wins_unless_earlier_trigger:
  assumes "upd ev = TextMessage raw" and "states w (id_from (sender ev)) = Some st"
  shows "(dispatcher_step (step st) \<and> \<not> early_trigger e ev raw \<longrightarrow>
            by_handler (handle_update e w ev) = StateFlow (step st))
     \<and> (step st = ''admin_broadcast'' \<and> id_from (sender ev) \<in> set (adminSessions w)
          \<and> \<not> early_trigger e ev raw \<longrightarrow>
            by_handler (handle_update e w ev) = AdminBroadcast_first)
     \<and> (step st = ''admin_reply'' \<and> id_from (sender ev) \<in> set (adminSessions w)
          \<and> \<not> early_trigger e ev raw \<longrightarrow>
            by_handler (handle_update e w ev) = AdminReply)
     \<and> (admin_op_step (step st) \<and> id_from (sender ev) \<in> set (adminSessions w)
          \<and> \<not> early_trigger e ev raw \<and> \<not> admin_trigger e ev raw \<longrightarrow>
            by_handler (handle_update e w ev) = AdminOp (step st))
     \<and> (step st = ''report_bug'' \<and> \<not> early_trigger e ev raw \<and> \<not> admin_trigger e ev raw
          \<and> \<not> report_trigger e ev raw \<longrightarrow>
            by_handler (handle_update e w ev) = ReportBug)
     \<and> (command_of (me e) ev raw = Some ''start'' \<longrightarrow>
            by_handler (handle_update e w ev) = Start)
     \<and> (raw \<in> set early_labels \<longrightarrow> by_handler (handle_update e w ev) = Hears raw)
     \<and> (admin_trigger e ev raw \<and> \<not> early_trigger e ev raw \<and> \<not> dispatcher_step (step st)
          \<and> \<not> (id_from (sender ev) \<in> set (adminSessions w)
                 \<and> (step st = ''admin_broadcast'' \<or> step st = ''admin_reply'')) \<longrightarrow>
            by_handler (handle_update e w ev) =
              (if command_of (me e) ev raw = Some ''admin'' then Command ''admin''
               else Hears raw))
     \<and> (report_trigger e ev raw \<and> \<not> early_trigger e ev raw \<and> \<not> admin_trigger e ev raw
          \<and> \<not> dispatcher_step (step st)
          \<and> \<not> (id_from (sender ev) \<in> set (adminSessions w)
                 \<and> (step st = ''admin_broadcast'' \<or> step st = ''admin_reply''
                      \<or> admin_op_step (step st))) \<longrightarrow>
            by_handler (handle_update e w ev) =
              (if raw = L_Request_Data_Deletion then Hears raw else Command ''report''))
     \<and> (\<not> has_handler w ev (step st) \<and> \<not> early_trigger e ev raw
          \<and> \<not> admin_trigger e ev raw \<and> \<not> report_trigger e ev raw \<longrightarrow>
            by_handler (handle_update e w ev) = Fallback
            \<and> after (handle_update e w ev) = w)"
proof (intro conjI impI)
  assume a: "dispatcher_step (step st) \<and> \<not> early_trigger e ev raw"
  with assms(2) obtain r where "on_text_state e w ev raw = Some r"
    and "by_handler r = StateFlow (step st)"
    using dispatcher_step_handled [of w ev st e raw] by auto
  with assms(1) a show "by_handler (handle_update e w ev) = StateFlow (step st)"
    by (simp add: handle_text_state)
next
  assume a: "step st = ''admin_broadcast'' \<and> id_from (sender ev) \<in> set (adminSessions w)
          \<and> \<not> early_trigger e ev raw"
  with assms(2) have "on_text_state e w ev raw = Some (admin_broadcast_first w ev (trim raw))"
    by (simp add: on_text_state_broadcast adminSessions_has_def)
  with assms(1) a show "by_handler (handle_update e w ev) = AdminBroadcast_first"
    by (simp add: handle_text_state)
next
  assume "step st = ''admin_reply'' \<and> id_from (sender ev) \<in> set (adminSessions w)
          \<and> \<not> early_trigger e ev raw"
  with assms show "by_handler (handle_update e w ev) = AdminReply"
    by (simp add: handle_text_admin_reply adminSessions_has_def)
next
  assume "admin_op_step (step st) \<and> id_from (sender ev) \<in> set (adminSessions w)
          \<and> \<not> early_trigger e ev raw \<and> \<not> admin_trigger e ev raw"
  with assms show "by_handler (handle_update e w ev) = AdminOp (step st)"
    by (simp add: handle_text_admin_op adminSessions_has_def)
next
  assume "step st = ''report_bug'' \<and> \<not> early_trigger e ev raw \<and> \<not> admin_trigger e ev raw
          \<and> \<not> report_trigger e ev raw"
  with assms show "by_handler (handle_update e w ev) = ReportBug"
    by (simp add: handle_text_report_bug)
next
  assume "command_of (me e) ev raw = Some ''start''"
  with assms(1) show "by_handler (handle_update e w ev) = Start"
    by (simp add: command_start)
next
  assume "raw \<in> set early_labels"
  with assms(1) show "by_handler (handle_update e w ev) = Hears raw"
    by (rule hears_label)
next
  assume a: "admin_trigger e ev raw \<and> \<not> early_trigger e ev raw \<and> \<not> dispatcher_step (step st)
          \<and> \<not> (id_from (sender ev) \<in> set (adminSessions w)
                 \<and> (step st = ''admin_broadcast'' \<or> step st = ''admin_reply''))"
  then have t: "admin_trigger e ev raw" and ne: "\<not> early_trigger e ev raw"
    by simp_all
  from a assms(2) have s1: "on_text_state e w ev raw = None"
    by (auto simp: on_text_state_pass adminSessions_has_def)
  from a assms(2) have s2: "on_text_admin_reply e w ev raw = None"
    by (auto simp: on_text_admin_reply_pass adminSessions_has_def)
  show "by_handler (handle_update e w ev) =
              (if command_of (me e) ev raw = Some ''admin'' then Command ''admin''
               else Hears raw)"
    by (rule handle_text_admin_trigger [OF assms(1) ne t s1 s2])
next
  assume a: "report_trigger e ev raw \<and> \<not> early_trigger e ev raw \<and> \<not> admin_trigger e ev raw
          \<and> \<not> dispatcher_step (step st)
          \<and> \<not> (id_from (sender ev) \<in> set (adminSessions w)
                 \<and> (step st = ''admin_broadcast'' \<or> step st = ''admin_reply''
                      \<or> admin_op_step (step st)))"
  then have t: "report_trigger e ev raw" and ne: "\<not> early_trigger e ev raw"
    and na: "\<not> admin_trigger e ev raw"
    by simp_all
  from a assms(2) have s1: "on_text_state e w ev raw = None"
    by (auto simp: on_text_state_pass adminSessions_has_def)
  from a assms(2) have s2: "on_text_admin_reply e w ev raw = None"
    by (auto simp: on_text_admin_reply_pass adminSessions_has_def)
  from a assms(2) have s3: "on_text_admin_ops e w ev raw = None"
    by (auto simp: on_text_admin_ops_pass adminSessions_has_def)
  show "by_handler (handle_update e w ev) =
              (if raw = L_Request_Data_Deletion then Hears raw else Command ''report'')"
    by (rule handle_text_report_trigger [OF assms(1) ne na t s1 s2 s3])
next
  assume a: "\<not> has_handler w ev (step st) \<and> \<not> early_trigger e ev raw
          \<and> \<not> admin_trigger e ev raw \<and> \<not> report_trigger e ev raw"
  with assms have r: "handle_update e w ev = on_message w ev"
    by (simp add: handle_text_fallback)
  show "by_handler (handle_update e w ev) = Fallback"
    unfolding r by simp
  show "after (handle_update e w ev) = w"
    unfolding r by (simp add: on_message_def)
qed

text \<open>
  Five instances. At the age step the text 29 goes to the age step and the profile
  label goes to the profile menu. The command \<^verbatim>\<open>/start@otherbot\<close>, which is addressed to
  another bot, goes to the age step as well, and \<^verbatim>\<open>/start@fitbot\<close>, addressed to this
  bot, goes to the start handler. In step \<^verbatim>\<open>set_water_times\<close> the text \<^verbatim>\<open>10:00\<close> goes
  to the fallback and the session stays.
\<close>

theorem flow_wins_unless_earlier_trigger_witness:
  "by_handler (handle_update env1
        (world_of (in_step 7 ''edit_profile_full'' (Some (ProfileId ''p-1''))) []
           [user_of 7 [profile1] (Some ''p-1'')])
        (text_from 7 ''29'')) = StateFlow ''edit_profile_full''
   \<and> by_handler (handle_update env1
        (world_of (in_step 7 ''edit_profile_full'' (Some (ProfileId ''p-1''))) []
           [user_of 7 [profile1] (Some ''p-1'')])
        (text_from 7 L_Profile)) = Hears L_Profile
   \<and> by_handler (handle_update env1
        (world_of (in_step 7 ''edit_profile_full'' (Some (ProfileId ''p-1''))) []
           [user_of 7 [profile1] (Some ''p-1'')])
        (command_from 7 ''/start@otherbot'' 15)) = StateFlow ''edit_profile_full''
   \<and> by_handler (handle_update env1
        (world_of (in_step 7 ''edit_profile_full'' (Some (ProfileId ''p-1''))) []
           [user_of 7 [profile1] (Some ''p-1'')])
        (command_from 7 ''/start@fitbot'' 13)) = Start
   \<and> by_handler (handle_update env1
        (world_of (in_step 7 ''set_water_times'' (Some NoFields)) []
           [user_of 7 [profile1] (Some ''p-1'')])
        (text_from 7 ''10:00'')) = Fallback
   \<and> after (handle_update env1
        (world_of (in_step 7 ''set_water_times'' (Some NoFields)) []
           [user_of 7 [profile1] (Some ''p-1'')])
        (text_from 7 ''10:00'')) =
       (world_of (in_step 7 ''set_water_times'' (Some NoFields)) []
           [user_of 7 [profile1] (Some ''p-1'')])"
  using flow_wins_unless_earlier_trigger [of "text_from 7 ''29''" "''29''"
      "world_of (in_step 7 ''edit_profile_full'' (Some (ProfileId ''p-1''))) []
           [user_of 7 [profile1] (Some ''p-1'')]"
      "\<lparr>step = ''edit_profile_full'', data = Some (ProfileId ''p-1'')\<rparr>" env1,
      THEN conjunct1]
    flow_wins_unless_earlier_trigger [of "text_from 7 L_Profile" L_Profile
      "world_of (in_step 7 ''edit_profile_full'' (Some (ProfileId ''p-1''))) []
           [user_of 7 [profile1] (Some ''p-1'')]"
      "\<lparr>step = ''edit_profile_full'', data = Some (ProfileId ''p-1'')\<rparr>" env1,
      THEN conjunct2, THEN conjunct2, THEN conjunct2, THEN conjunct2, THEN conjunct2, THEN conjunct2, THEN conjunct1]
    flow_wins_unless_earlier_trigger [of "command_from 7 ''/start@otherbot'' 15"
      "''/start@otherbot''"
      "world_of (in_step 7 ''edit_profile_full'' (Some (ProfileId ''p-1''))) []
           [user_of 7 [profile1] (Some ''p-1'')]"
      "\<lparr>step = ''edit_profile_full'', data = Some (ProfileId ''p-1'')\<rparr>" env1,
      THEN conjunct1]
    flow_wins_unless_earlier_trigger [of "command_from 7 ''/start@fitbot'' 13"
      "''/start@fitbot''"
      "world_of (in_step 7 ''edit_profile_full'' (Some (ProfileId ''p-1''))) []
           [user_of 7 [profile1] (Some ''p-1'')]"
      "\<lparr>step = ''edit_profile_full'', data = Some (ProfileId ''p-1'')\<rparr>" env1,
      THEN conjunct2, THEN conjunct2, THEN conjunct2, THEN conjunct2, THEN conjunct2, THEN conjunct1]
    flow_wins_unless_earlier_trigger [of "text_from 7 ''10:00''" "''10:00''"
      "world_of (in_step 7 ''set_water_times'' (Some NoFields)) []
           [user_of 7 [profile1] (Some ''p-1'')]"
      "\<lparr>step = ''set_water_times'', data = Some NoFields\<rparr>" env1,
      THEN conjunct2, THEN conjunct2, THEN conjunct2, THEN conjunct2, THEN conjunct2, THEN conjunct2, THEN conjunct2, THEN conjunct2, THEN conjunct2, rule_format]
  by (simp_all add: in_step_def dispatcher_step_def early_trigger_def command_of_def
      early_labels_def label_defs admin_trigger_def admin_labels_def late_label_defs
      report_trigger_def has_handler_def admin_op_step_def env1_def split_def
      toLowerCase_def lower_char_def Let_def)

section \<open>Weight: the value and its history\<close>

lemma onboarding_weight_sets:
  assumes "isNaN v = False" and "\<not> threw (step_edit_profile_weight w ev st txt)"
    and "Number_js txt = v"
  shows "\<exists>user i. findOne (id_from (sender ev)) (users w) = Some user
      \<and> flow_profile st user = Inr i"
  using assms
  by (auto simp: step_edit_profile_weight_def Let_def split: option.splits sum.splits)

lemma editor_weight_sets:
  assumes "isNaN v = False" and "step st = ''editing_profile_weight''"
    and "\<not> threw (step_editing_profile e w ev st txt)" and "Number_js txt = v"
  shows "\<exists>user i. findOne (id_from (sender ev)) (users w) = Some user
      \<and> flow_profile st user = Inr i"
  using assms
  by (auto simp: step_editing_profile_def editor_commit_def Let_def
      split: option.splits sum.splits bool.splits)

lemma onboarding_weight_writes:
  assumes "isNaN v = False" and "Number_js txt = v"
    and "findOne (id_from (sender ev)) (users w) = Some user" and "flow_profile st user = Inr i"
  shows "step_edit_profile_weight w ev st txt =
     reply (states_set (id_from (sender ev)) ''edit_profile_height''
              (Some (ProfileId (id_profile (profiles user ! i))))
              (w\<lparr>users := save
                   (user\<lparr>profiles := (profiles user)[i := (profiles user ! i)\<lparr>weightKg := Some v\<rparr>],
                          weightHistory :=
                            weightHistory user @ [(id_profile (profiles user ! i), v, now ev)]\<rparr>)
                   (users w)\<rparr>))
       (StateFlow ''edit_profile_weight'') ''Send height in cm (number).''"
  using assms by (simp add: step_edit_profile_weight_def Let_def)

lemma editor_weight_writes:
  assumes "isNaN v = False" and "Number_js txt = v" and "step st = ''editing_profile_weight''"
    and "findOne (id_from (sender ev)) (users w) = Some user" and "flow_profile st user = Inr i"
  shows "step_editing_profile e w ev st txt =
     reply (states_delete (id_from (sender ev))
              (w\<lparr>users := save
                   (user\<lparr>profiles := (profiles user)[i := (profiles user ! i)\<lparr>weightKg := Some v\<rparr>],
                          weightHistory :=
                            weightHistory user @ [(id_profile (profiles user ! i), v, now ev)]\<rparr>)
                   (users w)\<rparr>))
       (StateFlow ''editing_profile_weight'') ''Profile updated.''"
  using assms by (simp add: step_editing_profile_def editor_commit_def Let_def)

text \<open>
  Claim C2. A turn sets a profile's weight when the session is at the weight step of the
  onboarding chain or at the weight branch of the field editor, the text is a number,
  the sender's document is stored and the flow finds a profile in it. Every such turn,
  on either path, does not throw, stores the number as that profile's \<^verbatim>\<open>weightKg\<close> and
  appends exactly one entry (profile id, number, time of the turn) to the user's weight
  history, in the same write: the stored users after the turn are those before it with
  the sender's document changed in these two places and in no other. A numeric text at
  these steps that does not throw is such a turn.
\<close>

theorem weight_update_writes_value_and_history:
  assumes "upd ev = TextMessage raw" and "states w (id_from (sender ev)) = Some st"
    and "step st = ''edit_profile_weight'' \<or> step st = ''editing_profile_weight''"
    and "Number_js (trim raw) = v" and "v \<noteq> NaN"
  shows "(\<forall>user i. findOne (id_from (sender ev)) (users w) = Some user
              \<and> flow_profile st user = Inr i \<longrightarrow>
            \<not> threw (handle_update e w ev)
            \<and> by_handler (handle_update e w ev) = StateFlow (step st)
            \<and> i < length (profiles user)
            \<and> users (after (handle_update e w ev)) =
                save (user\<lparr>profiles :=
                             (profiles user)[i := (profiles user ! i)\<lparr>weightKg := Some v\<rparr>],
                           weightHistory :=
                             weightHistory user @ [(id_profile (profiles user ! i), v, now ev)]\<rparr>)
                     (users w)
            \<and> findOne (id_from (sender ev)) (users (after (handle_update e w ev))) =
                Some (user\<lparr>profiles :=
                             (profiles user)[i := (profiles user ! i)\<lparr>weightKg := Some v\<rparr>],
                           weightHistory :=
                             weightHistory user @ [(id_profile (profiles user ! i), v, now ev)]\<rparr>))
     \<and> (\<not> threw (handle_update e w ev) \<longrightarrow>
           (\<exists>user i. findOne (id_from (sender ev)) (users w) = Some user
              \<and> flow_profile st user = Inr i))"
proof -
  have nan: "isNaN v = False"
    using assms(5) by (simp add: isNaN_def)
  have ne: "\<not> early_trigger e ev raw"
    using assms(4,5) by (simp add: numeric_not_trigger)
  from assms(3) show ?thesis
  proof
    assume s: "step st = ''edit_profile_weight''"
    with assms(2) have "on_text_state e w ev raw = Some (step_edit_profile_weight w ev st (trim raw))"
      by (simp add: on_text_state_edit_profile_weight)
    with assms(1) ne have r: "handle_update e w ev = step_edit_profile_weight w ev st (trim raw)"
      by (simp add: handle_text_state)
    show ?thesis
    proof (intro conjI allI impI)
      fix user i
      assume u: "findOne (id_from (sender ev)) (users w) = Some user \<and> flow_profile st user = Inr i"
      then have w: "step_edit_profile_weight w ev st (trim raw) =
          reply (states_set (id_from (sender ev)) ''edit_profile_height''
              (Some (ProfileId (id_profile (profiles user ! i))))
              (w\<lparr>users := save
                   (user\<lparr>profiles := (profiles user)[i := (profiles user ! i)\<lparr>weightKg := Some v\<rparr>],
                          weightHistory :=
                            weightHistory user @ [(id_profile (profiles user ! i), v, now ev)]\<rparr>)
                   (users w)\<rparr>))
            (StateFlow ''edit_profile_weight'') ''Send height in cm (number).''"
        using onboarding_weight_writes [OF nan assms(4)] by simp
      show "\<not> threw (handle_update e w ev)"
        unfolding r w by simp
      show "by_handler (handle_update e w ev) = StateFlow (step st)"
        unfolding r w s by simp
      show "i < length (profiles user)"
        using u flow_profile_Inr [of st user i] by simp
      show "users (after (handle_update e w ev)) =
                save (user\<lparr>profiles :=
                             (profiles user)[i := (profiles user ! i)\<lparr>weightKg := Some v\<rparr>],
                           weightHistory :=
                             weightHistory user @ [(id_profile (profiles user ! i), v, now ev)]\<rparr>)
                     (users w)"
        unfolding r w by simp
      show "findOne (id_from (sender ev)) (users (after (handle_update e w ev))) =
                Some (user\<lparr>profiles :=
                             (profiles user)[i := (profiles user ! i)\<lparr>weightKg := Some v\<rparr>],
                           weightHistory :=
                             weightHistory user @ [(id_profile (profiles user ! i), v, now ev)]\<rparr>)"
        unfolding r w using u by (simp add: findOne_save)
    next
      assume "\<not> threw (handle_update e w ev)"
      then show "\<exists>user i. findOne (id_from (sender ev)) (users w) = Some user
              \<and> flow_profile st user = Inr i"
        unfolding r using onboarding_weight_sets [OF nan _ assms(4)] by simp
    qed
  next
    assume s: "step st = ''editing_profile_weight''"
    with assms(2) have "on_text_state e w ev raw = Some (step_editing_profile e w ev st (trim raw))"
      by (simp add: on_text_state_editing_profile)
    with assms(1) ne have r: "handle_update e w ev = step_editing_profile e w ev st (trim raw)"
      by (simp add: handle_text_state)
    show ?thesis
    proof (intro conjI allI impI)
      fix user i
      assume u: "findOne (id_from (sender ev)) (users w) = Some user \<and> flow_profile st user = Inr i"
      then have w: "step_editing_profile e w ev st (trim raw) =
          reply (states_delete (id_from (sender ev))
              (w\<lparr>users := save
                   (user\<lparr>profiles := (profiles user)[i := (profiles user ! i)\<lparr>weightKg := Some v\<rparr>],
                          weightHistory :=
                            weightHistory user @ [(id_profile (profiles user ! i), v, now ev)]\<rparr>)
                   (users w)\<rparr>))
            (StateFlow ''editing_profile_weight'') ''Profile updated.''"
        using editor_weight_writes [OF nan assms(4) s] by simp
      show "\<not> threw (handle_update e w ev)"
        unfolding r w by simp
      show "by_handler (handle_update e w ev) = StateFlow (step st)"
        unfolding r w s by simp
      show "i < length (profiles user)"
        using u flow_profile_Inr [of st user i] by simp
      show "users (after (handle_update e w ev)) =
                save (user\<lparr>profiles :=
                             (profiles user)[i := (profiles user ! i)\<lparr>weightKg := Some v\<rparr>],
                           weightHistory :=
                             weightHistory user @ [(id_profile (profiles user ! i), v, now ev)]\<rparr>)
                     (users w)"
        unfolding r w by simp
      show "findOne (id_from (sender ev)) (users (after (handle_update e w ev))) =
                Some (user\<lparr>profiles :=
                             (profiles user)[i := (profiles user ! i)\<lparr>weightKg := Some v\<rparr>],
                           weightHistory :=
                             weightHistory user @ [(id_profile (profiles user ! i), v, now ev)]\<rparr>)"
        unfolding r w using u by (simp add: findOne_save)
    next
      assume "\<not> threw (handle_update e w ev)"
      then show "\<exists>user i. findOne (id_from (sender ev)) (users w) = Some user
              \<and> flow_profile st user = Inr i"
        unfolding r using editor_weight_sets [OF nan s _ assms(4)] by simp
    qed
  qed
qed

text \<open>
  Two instances: user 7, whose profile has no weight and whose history is empty, sends
  82 at the weight step of the onboarding chain, and sends 82 at the weight branch of
  the editor. Either turn stores the weight 82 and the one history entry.
\<close>

theorem weight_update_writes_value_and_history_witness:
  "\<not> threw (handle_update env1
     (world_of (in_step 7 ''edit_profile_weight'' (Some (ProfileId ''p-1''))) []
        [user_of 7 [profile1] (Some ''p-1'')])
     (text_from 7 ''82''))
   \<and> users (after (handle_update env1
     (world_of (in_step 7 ''edit_profile_weight'' (Some (ProfileId ''p-1''))) []
        [user_of 7 [profile1] (Some ''p-1'')])
     (text_from 7 ''82''))) =
     [(user_of 7 [profile1\<lparr>weightKg := Some (Fin 82)\<rparr>] (Some ''p-1''))
        \<lparr>weightHistory := [(''p-1'', Fin 82, 5000)]\<rparr>]
   \<and> \<not> threw (handle_update env1
     (world_of (in_step 7 ''editing_profile_weight'' (Some (ProfileId ''p-1''))) []
        [user_of 7 [profile1] (Some ''p-1'')])
     (text_from 7 ''82''))
   \<and> users (after (handle_update env1
     (world_of (in_step 7 ''editing_profile_weight'' (Some (ProfileId ''p-1''))) []
        [user_of 7 [profile1] (Some ''p-1'')])
     (text_from 7 ''82''))) =
     [(user_of 7 [profile1\<lparr>weightKg := Some (Fin 82)\<rparr>] (Some ''p-1''))
        \<lparr>weightHistory := [(''p-1'', Fin 82, 5000)]\<rparr>]
   \<and> weightKg profile1 = None"
  using weight_update_writes_value_and_history [of "text_from 7 ''82''" "''82''"
      "world_of (in_step 7 ''edit_profile_weight'' (Some (ProfileId ''p-1''))) []
        [user_of 7 [profile1] (Some ''p-1'')]"
      "\<lparr>step = ''edit_profile_weight'', data = Some (ProfileId ''p-1'')\<rparr>" "Fin 82" env1,
      THEN conjunct1, rule_format, of "user_of 7 [profile1] (Some ''p-1'')" 0]
    weight_update_writes_value_and_history [of "text_from 7 ''82''" "''82''"
      "world_of (in_step 7 ''editing_profile_weight'' (Some (ProfileId ''p-1''))) []
        [user_of 7 [profile1] (Some ''p-1'')]"
      "\<lparr>step = ''editing_profile_weight'', data = Some (ProfileId ''p-1'')\<rparr>" "Fin 82" env1,
      THEN conjunct1, rule_format, of "user_of 7 [profile1] (Some ''p-1'')" 0]
  by (simp add: in_step_def trim_defs number_defs user_of_def User_create_def findOne_def
      flow_profile_def find_or_first_def data_profileId_def profile1_def new_profile_def)

section \<open>The onboarding chain\<close>

lemma single_profile_flow:
  "profiles u = [p] \<Longrightarrow> data st \<noteq> None \<Longrightarrow> flow_profile st u = Inr 0"
  by (auto simp: flow_profile_def find_or_first_def split: option.splits)

lemma chain_age:
  assumes "upd ev = TextMessage raw" and "Number_js (trim raw) = v" and "v \<noteq> NaN"
    and "states w (id_from (sender ev)) = Some st" and "step st = ''edit_profile_full''"
    and "data st \<noteq> None"
    and "findOne (id_from (sender ev)) (users w) = Some u" and "profiles u = [p]"
  shows "handle_update e w ev =
     reply (states_set (id_from (sender ev)) ''edit_profile_weight'' (Some (ProfileId (id_profile p)))
              (w\<lparr>users := save (u\<lparr>profiles := [p\<lparr>age := Some v\<rparr>]\<rparr>) (users w)\<rparr>))
       (StateFlow ''edit_profile_full'') ''Send weight in kg (number).''"
proof -
  have "\<not> early_trigger e ev raw"
    using assms(2,3) by (simp add: numeric_not_trigger)
  moreover have "on_text_state e w ev raw = Some (step_edit_profile_full w ev st (trim raw))"
    using assms(4,5) by (rule on_text_state_edit_profile_full)
  ultimately have "handle_update e w ev = step_edit_profile_full w ev st (trim raw)"
    using assms(1) by (simp add: handle_text_state)
  also have "\<dots> = reply (states_set (id_from (sender ev)) ''edit_profile_weight''
                       (Some (ProfileId (id_profile p)))
              (w\<lparr>users := save (u\<lparr>profiles := [p\<lparr>age := Some v\<rparr>]\<rparr>) (users w)\<rparr>))
       (StateFlow ''edit_profile_full'') ''Send weight in kg (number).''"
    using assms(2,3,6-8) single_profile_flow [of u p st]
    by (simp add: step_edit_profile_full_def isNaN_def)
  finally show ?thesis .
qed

lemma chain_weight:
  assumes "upd ev = TextMessage raw" and "Number_js (trim raw) = v" and "v \<noteq> NaN"
    and "states w (id_from (sender ev)) = Some st" and "step st = ''edit_profile_weight''"
    and "data st \<noteq> None"
    and "findOne (id_from (sender ev)) (users w) = Some u" and "profiles u = [p]"
  shows "handle_update e w ev =
     reply (states_set (id_from (sender ev)) ''edit_profile_height'' (Some (ProfileId (id_profile p)))
              (w\<lparr>users := save (u\<lparr>profiles := [p\<lparr>weightKg := Some v\<rparr>],
                                   weightHistory := weightHistory u @ [(id_profile p, v, now ev)]\<rparr>)
                               (users w)\<rparr>))
       (StateFlow ''edit_profile_weight'') ''Send height in cm (number).''"
proof -
  have "\<not> early_trigger e ev raw"
    using assms(2,3) by (simp add: numeric_not_trigger)
  moreover have "on_text_state e w ev raw = Some (step_edit_profile_weight w ev st (trim raw))"
    using assms(4,5) by (rule on_text_state_edit_profile_weight)
  ultimately have "handle_update e w ev = step_edit_profile_weight w ev st (trim raw)"
    using assms(1) by (simp add: handle_text_state)
  also have "\<dots> = reply (states_set (id_from (sender ev)) ''edit_profile_height''
                       (Some (ProfileId (id_profile p)))
              (w\<lparr>users := save (u\<lparr>profiles := [p\<lparr>weightKg := Some v\<rparr>],
                                   weightHistory := weightHistory u @ [(id_profile p, v, now ev)]\<rparr>)
                               (users w)\<rparr>))
       (StateFlow ''edit_profile_weight'') ''Send height in cm (number).''"
    using assms(2,3,6-8) single_profile_flow [of u p st]
    by (simp add: step_edit_profile_weight_def isNaN_def)
  finally show ?thesis .
qed

lemma chain_height:
  assumes "upd ev = TextMessage raw" and "Number_js (trim raw) = v" and "v \<noteq> NaN"
    and "states w (id_from (sender ev)) = Some st" and "step st = ''edit_profile_height''"
    and "data st \<noteq> None"
    and "findOne (id_from (sender ev)) (users w) = Some u" and "profiles u = [p]"
  shows "handle_update e w ev =
     reply (states_delete (id_from (sender ev))
              (w\<lparr>users := save (u\<lparr>profiles := [p\<lparr>heightCm := Some v\<rparr>]\<rparr>) (users w)\<rparr>))
       (StateFlow ''edit_profile_height'') ''Profile updated. Use the menu.''"
proof -
  have "\<not> early_trigger e ev raw"
    using assms(2,3) by (simp add: numeric_not_trigger)
  moreover have "on_text_state e w ev raw = Some (step_edit_profile_height w ev st (trim raw))"
    using assms(4,5) by (rule on_text_state_edit_profile_height)
  ultimately have "handle_update e w ev = step_edit_profile_height w ev st (trim raw)"
    using assms(1) by (simp add: handle_text_state)
  also have "\<dots> = reply (states_delete (id_from (sender ev))
              (w\<lparr>users := save (u\<lparr>profiles := [p\<lparr>heightCm := Some v\<rparr>]\<rparr>) (users w)\<rparr>))
       (StateFlow ''edit_profile_height'') ''Profile updated. Use the menu.''"
    using assms(2,3,6-8) single_profile_flow [of u p st]
    by (simp add: step_edit_profile_height_def isNaN_def)
  finally show ?thesis .
qed

text \<open>
  Claim C3. A sender without a user document sends the command \<^verbatim>\<open>/start\<close>, addressed
  to this bot. The turn is taken by the start handler, which appends to the store a user
  document with one profile, named after the sender or \<^verbatim>\<open>You\<close>, with fitness level
  \<^verbatim>\<open>beginner\<close>, goal \<^verbatim>\<open>general fitness\<close>, 30 minutes of time and no age, weight or height,
  makes this profile the active one, and sets the session to the first onboarding step.
  Three turns with numbers then move the session one step each, age, weight, height,
  and the third clears it; none of them throws, and afterwards the profile holds the
  three numbers and the weight history its one entry.
\<close>

theorem onboarding_chain_three_steps:
  assumes "findOne (id_from (sender ev0)) (users w0) = None"
    and "upd ev0 = TextMessage raw0" and "command_of (me e) ev0 raw0 = Some ''start''"
    and "upd ev1 = TextMessage raw1" and "Number_js (trim raw1) = v1" and "v1 \<noteq> NaN"
    and "upd ev2 = TextMessage raw2" and "Number_js (trim raw2) = v2" and "v2 \<noteq> NaN"
    and "upd ev3 = TextMessage raw3" and "Number_js (trim raw3) = v3" and "v3 \<noteq> NaN"
    and "id_from (sender ev1) = id_from (sender ev0)"
    and "id_from (sender ev2) = id_from (sender ev0)"
    and "id_from (sender ev3) = id_from (sender ev0)"
    and "w1 = after (handle_update e w0 ev0)" and "w2 = after (handle_update e w1 ev1)"
    and "w3 = after (handle_update e w2 ev2)" and "w4 = after (handle_update e w3 ev3)"
  shows "by_handler (handle_update e w0 ev0) = Start
     \<and> \<not> threw (handle_update e w0 ev0)
     \<and> users w1 = users w0 @
          [\<lparr>telegramId = id_from (sender ev0),
            firstName = Some (or_str (first_name (sender ev0)) []),
            username = Some (or_str (tg_username (sender ev0)) []),
            registeredAt = now ev0,
            profiles =
              [\<lparr>id_profile = uuid ev0, name = or_str (first_name (sender ev0)) ''You'',
                age = None, weightKg = None, heightCm = None,
                fitnessLevel = Some ''beginner'', goal = Some ''general fitness'',
                goalTargetDate = None, equipment = [],
                timeAvailabilityMins = Some (Fin 30), createdAt = now ev0\<rparr>],
            activeProfileId = Some (uuid ev0), consent_dataCollection = True,
            workoutDailyAt = None, waterReminderTimes = [], streak = 0, badges = [],
            weightHistory = [], workoutsCompleted = [], meals = [],
            role = ''user''\<rparr>]
     \<and> states w1 (id_from (sender ev0)) =
         Some \<lparr>step = ''edit_profile_full'', data = Some (ProfileId (uuid ev0))\<rparr>
     \<and> by_handler (handle_update e w1 ev1) = StateFlow ''edit_profile_full''
     \<and> \<not> threw (handle_update e w1 ev1)
     \<and> states w2 (id_from (sender ev0)) =
         Some \<lparr>step = ''edit_profile_weight'', data = Some (ProfileId (uuid ev0))\<rparr>
     \<and> by_handler (handle_update e w2 ev2) = StateFlow ''edit_profile_weight''
     \<and> \<not> threw (handle_update e w2 ev2)
     \<and> states w3 (id_from (sender ev0)) =
         Some \<lparr>step = ''edit_profile_height'', data = Some (ProfileId (uuid ev0))\<rparr>
     \<and> by_handler (handle_update e w3 ev3) = StateFlow ''edit_profile_height''
     \<and> \<not> threw (handle_update e w3 ev3)
     \<and> states w4 (id_from (sender ev0)) = None
     \<and> findOne (id_from (sender ev0)) (users w4) =
         Some \<lparr>telegramId = id_from (sender ev0),
            firstName = Some (or_str (first_name (sender ev0)) []),
            username = Some (or_str (tg_username (sender ev0)) []),
            registeredAt = now ev0,
            profiles =
              [\<lparr>id_profile = uuid ev0, name = or_str (first_name (sender ev0)) ''You'',
                age = Some v1, weightKg = Some v2, heightCm = Some v3,
                fitnessLevel = Some ''beginner'', goal = Some ''general fitness'',
                goalTargetDate = None, equipment = [],
                timeAvailabilityMins = Some (Fin 30), createdAt = now ev0\<rparr>],
            activeProfileId = Some (uuid ev0), consent_dataCollection = True,
            workoutDailyAt = None, waterReminderTimes = [], streak = 0, badges = [],
            weightHistory = [(uuid ev0, v2, now ev2)], workoutsCompleted = [], meals = [],
            role = ''user''\<rparr>"
proof -
  let ?uid = "id_from (sender ev0)"
  let ?p0 = "default_profile ev0"
  let ?u0 = "registered_user ev0"
  let ?p1 = "?p0\<lparr>age := Some v1\<rparr>"
  let ?u1 = "?u0\<lparr>profiles := [?p1]\<rparr>"
  let ?p2 = "?p1\<lparr>weightKg := Some v2\<rparr>"
  let ?u2 = "?u1\<lparr>profiles := [?p2], weightHistory := weightHistory ?u1 @ [(id_profile ?p1, v2, now ev2)]\<rparr>"
  let ?p3 = "?p2\<lparr>heightCm := Some v3\<rparr>"
  let ?u3 = "?u2\<lparr>profiles := [?p3]\<rparr>"
  have pid: "id_profile ?p0 = uuid ev0"
    by (simp add: default_profile_def new_profile_def)
  have tid: "telegramId ?u0 = ?uid"
    by (simp add: registered_user_def User_create_def)
  have hist: "weightHistory ?u0 = []" and prof: "profiles ?u0 = [?p0]"
    by (simp_all add: registered_user_def User_create_def)
  have first: "?u0 =
          \<lparr>telegramId = id_from (sender ev0),
            firstName = Some (or_str (first_name (sender ev0)) []),
            username = Some (or_str (tg_username (sender ev0)) []),
            registeredAt = now ev0,
            profiles =
              [\<lparr>id_profile = uuid ev0, name = or_str (first_name (sender ev0)) ''You'',
                age = None, weightKg = None, heightCm = None,
                fitnessLevel = Some ''beginner'', goal = Some ''general fitness'',
                goalTargetDate = None, equipment = [],
                timeAvailabilityMins = Some (Fin 30), createdAt = now ev0\<rparr>],
            activeProfileId = Some (uuid ev0), consent_dataCollection = True,
            workoutDailyAt = None, waterReminderTimes = [], streak = 0, badges = [],
            weightHistory = [], workoutsCompleted = [], meals = [],
            role = ''user''\<rparr>"
    by (simp add: registered_user_def User_create_def default_profile_def new_profile_def)
  \<comment> \<open>the turn /start\<close>
  have r0: "handle_update e w0 ev0 = bot_start w0 ev0"
    using assms(2,3) by (rule command_start)
  have s0: "by_handler (handle_update e w0 ev0) = Start"
    unfolding r0 by simp
  have t0: "\<not> threw (handle_update e w0 ev0)"
    unfolding r0 using assms(1) by (simp add: bot_start_def Let_def)
  have us1: "users w1 = users w0 @ [?u0]"
    unfolding assms(16) r0 using assms(1) by (simp add: bot_start_def Let_def)
  have u1: "findOne ?uid (users w1) = Some ?u0"
    unfolding assms(16) r0 using assms(1) tid
    by (simp add: bot_start_def Let_def findOne_append_new)
  have st1: "states w1 ?uid = Some \<lparr>step = ''edit_profile_full'', data = Some (ProfileId (uuid ev0))\<rparr>"
    unfolding assms(16) r0 using assms(1) pid
    by (simp add: bot_start_def Let_def)
  \<comment> \<open>the age\<close>
  have r1: "handle_update e w1 ev1 =
     reply (states_set ?uid ''edit_profile_weight'' (Some (ProfileId (id_profile ?p0)))
              (w1\<lparr>users := save ?u1 (users w1)\<rparr>))
       (StateFlow ''edit_profile_full'') ''Send weight in kg (number).''"
    using chain_age [of ev1 raw1 v1 w1 _ ?u0 ?p0 e] assms(4-6,13) u1 st1 prof
    by simp
  have u2: "findOne ?uid (users w2) = Some ?u1"
    unfolding assms(17) r1 using u1 by (simp add: findOne_save)
  have st2: "states w2 ?uid = Some \<lparr>step = ''edit_profile_weight'', data = Some (ProfileId (uuid ev0))\<rparr>"
    unfolding assms(17) r1 using pid by simp
  \<comment> \<open>the weight\<close>
  have r2: "handle_update e w2 ev2 =
     reply (states_set ?uid ''edit_profile_height'' (Some (ProfileId (id_profile ?p1)))
              (w2\<lparr>users := save ?u2 (users w2)\<rparr>))
       (StateFlow ''edit_profile_weight'') ''Send height in cm (number).''"
    using chain_weight [of ev2 raw2 v2 w2 _ ?u1 ?p1 e] assms(7-9,14) u2 st2
    by simp
  have u3: "findOne ?uid (users w3) = Some ?u2"
    unfolding assms(18) r2 using u2 by (simp add: findOne_save)
  have st3: "states w3 ?uid = Some \<lparr>step = ''edit_profile_height'', data = Some (ProfileId (uuid ev0))\<rparr>"
    unfolding assms(18) r2 using pid by simp
  \<comment> \<open>the height\<close>
  have r3: "handle_update e w3 ev3 =
     reply (states_delete ?uid (w3\<lparr>users := save ?u3 (users w3)\<rparr>))
       (StateFlow ''edit_profile_height'') ''Profile updated. Use the menu.''"
    using chain_height [of ev3 raw3 v3 w3 _ ?u2 ?p2 e] assms(10-12,15) u3 st3
    by simp
  have u4: "findOne ?uid (users w4) = Some ?u3"
    unfolding assms(19) r3 using u3 by (simp add: findOne_save)
  have st4: "states w4 ?uid = None"
    unfolding assms(19) r3 by simp
  have final: "?u3 =
          \<lparr>telegramId = id_from (sender ev0),
            firstName = Some (or_str (first_name (sender ev0)) []),
            username = Some (or_str (tg_username (sender ev0)) []),
            registeredAt = now ev0,
            profiles =
              [\<lparr>id_profile = uuid ev0, name = or_str (first_name (sender ev0)) ''You'',
                age = Some v1, weightKg = Some v2, heightCm = Some v3,
                fitnessLevel = Some ''beginner'', goal = Some ''general fitness'',
                goalTargetDate = None, equipment = [],
                timeAvailabilityMins = Some (Fin 30), createdAt = now ev0\<rparr>],
            activeProfileId = Some (uuid ev0), consent_dataCollection = True,
            workoutDailyAt = None, waterReminderTimes = [], streak = 0, badges = [],
            weightHistory = [(uuid ev0, v2, now ev2)], workoutsCompleted = [], meals = [],
            role = ''user''\<rparr>"
    by (simp add: registered_user_def User_create_def default_profile_def new_profile_def)
  note us1 [unfolded first] and u4 [unfolded final]
  with s0 t0 st1 st2 st3 st4 show ?thesis
    unfolding r1 r2 r3 by simp
qed

text \<open>
  An instance: user 7, unknown to the store, sends \<^verbatim>\<open>/start\<close>, 29, 82 and 180. The
  first turn stores the user with the default profile; after the fourth the session is
  cleared and the stored profile holds the three numbers.
\<close>

theorem onboarding_chain_three_steps_witness:
  "users (after (handle_update env1 (world_of Map.empty [] []) (command_from 7 ''/start'' 6))) =
          [\<lparr>telegramId = 7, firstName = Some ''Alice'', username = Some [],
            registeredAt = 5000,
            profiles =
              [\<lparr>id_profile = ''p-9'', name = ''Alice'',
                age = None, weightKg = None, heightCm = None,
                fitnessLevel = Some ''beginner'', goal = Some ''general fitness'',
                goalTargetDate = None, equipment = [],
                timeAvailabilityMins = Some (Fin 30), createdAt = 5000\<rparr>],
            activeProfileId = Some ''p-9'', consent_dataCollection = True,
            workoutDailyAt = None, waterReminderTimes = [], streak = 0, badges = [],
            weightHistory = [], workoutsCompleted = [], meals = [],
            role = ''user''\<rparr>]
   \<and> states (after_text (after_text (after_text
            (after (handle_update env1 (world_of Map.empty [] []) (command_from 7 ''/start'' 6)))
             7 ''29'') 7 ''82'') 7 ''180'') 7 = None
   \<and> findOne 7 (users (after_text (after_text (after_text
            (after (handle_update env1 (world_of Map.empty [] []) (command_from 7 ''/start'' 6)))
             7 ''29'') 7 ''82'') 7 ''180'')) =
         Some \<lparr>telegramId = 7, firstName = Some ''Alice'', username = Some [],
            registeredAt = 5000,
            profiles =
              [\<lparr>id_profile = ''p-9'', name = ''Alice'',
                age = Some (Fin 29), weightKg = Some (Fin 82), heightCm = Some (Fin 180),
                fitnessLevel = Some ''beginner'', goal = Some ''general fitness'',
                goalTargetDate = None, equipment = [],
                timeAvailabilityMins = Some (Fin 30), createdAt = 5000\<rparr>],
            activeProfileId = Some ''p-9'', consent_dataCollection = True,
            workoutDailyAt = None, waterReminderTimes = [], streak = 0, badges = [],
            weightHistory = [(''p-9'', Fin 82, 5000)], workoutsCompleted = [], meals = [],
            role = ''user''\<rparr>"
  using onboarding_chain_three_steps [of "command_from 7 ''/start'' 6" "world_of Map.empty [] []"
      "''/start''" env1 "text_from 7 ''29''" "''29''" "Fin 29" "text_from 7 ''82''" "''82''" "Fin 82"
      "text_from 7 ''180''" "''180''" "Fin 180"
      "after (handle_update env1 (world_of Map.empty [] []) (command_from 7 ''/start'' 6))"
      "after_text
         (after (handle_update env1 (world_of Map.empty [] []) (command_from 7 ''/start'' 6)))
         7 ''29''"
      "after_text (after_text
         (after (handle_update env1 (world_of Map.empty [] []) (command_from 7 ''/start'' 6)))
         7 ''29'') 7 ''82''"
      "after_text (after_text (after_text
         (after (handle_update env1 (world_of Map.empty [] []) (command_from 7 ''/start'' 6)))
         7 ''29'') 7 ''82'') 7 ''180''"]
  by (simp add: after_text_def findOne_def command_of_def split_def trim_defs
      number_defs or_str_def env1_def Let_def)

section \<open>Numeric validation\<close>





section \<open>The admin password\<close>

text \<open>
  Claim C5 says that in step \<^verbatim>\<open>await_admin_pass\<close> the next text is consumed as a
  password attempt whatever its content. A text that is a trigger registered before the
  state dispatcher is not: user 7, asked for the password, sends the label of the
  profile menu; the profile menu answers, nobody is elevated or refused, and the session
  still waits for the password.
\<close>

theorem menu_label_is_no_password_attempt:
  "by_handler (handle_update env1
        (world_of (in_step 7 ''await_admin_pass'' None) [] [user_of 7 [profile1] (Some ''p-1'')])
        (text_from 7 L_Profile)) = Hears L_Profile
   \<and> states (after (handle_update env1
        (world_of (in_step 7 ''await_admin_pass'' None) [] [user_of 7 [profile1] (Some ''p-1'')])
        (text_from 7 L_Profile))) 7 = Some \<lparr>step = ''await_admin_pass'', data = None\<rparr>
   \<and> adminSessions (after (handle_update env1
        (world_of (in_step 7 ''await_admin_pass'' None) [] [user_of 7 [profile1] (Some ''p-1'')])
        (text_from 7 L_Profile))) = []
   \<and> out (handle_update env1
        (world_of (in_step 7 ''await_admin_pass'' None) [] [user_of 7 [profile1] (Some ''p-1'')])
        (text_from 7 L_Profile)) \<noteq> [Reply ''Wrong password'']
   \<and> out (handle_update env1
        (world_of (in_step 7 ''await_admin_pass'' None) [] [user_of 7 [profile1] (Some ''p-1'')])
        (text_from 7 L_Profile)) \<noteq> [Reply ''Admin access granted'']"
  by (simp add: handle_update_def text_middlewares_def early_middlewares_def hears_def
      command_def command_of_def label_defs hears_Profile_def findOne_def user_of_def
      User_create_def in_step_def)

text \<open>
  Claim C5, amended. In step \<^verbatim>\<open>await_admin_pass\<close> the next text is consumed as a
  password attempt unless it is the command \<^verbatim>\<open>/start\<close> addressed to this bot or one of
  the 23 labels registered before the state dispatcher; a command addressed to another
  bot, such as \<^verbatim>\<open>/start@otherbot\<close>, is consumed. A consumed attempt clears the session;
  when the trimmed text is the shared secret the sender is added to the elevation set,
  and otherwise the elevation set stays as it was and the answer is \<^verbatim>\<open>Wrong password\<close>.
  Once a user is in the elevation set, every turn of any sender keeps the user there,
  except the user's own turn with the text of the logout label.
\<close>

theorem password_attempt_and_elevation:
  "(upd ev = TextMessage raw \<and> states w (id_from (sender ev)) = Some st
      \<and> step st = ''await_admin_pass'' \<and> \<not> early_trigger e ev raw \<longrightarrow>
        by_handler (handle_update e w ev) = StateFlow ''await_admin_pass''
        \<and> states (after (handle_update e w ev)) (id_from (sender ev)) = None
        \<and> (Some (trim raw) = ADMIN_PASS e \<longrightarrow>
              set (adminSessions (after (handle_update e w ev))) =
                insert (id_from (sender ev)) (set (adminSessions w))
              \<and> out (handle_update e w ev) = [Reply ''Admin access granted''])
        \<and> (Some (trim raw) \<noteq> ADMIN_PASS e \<longrightarrow>
              adminSessions (after (handle_update e w ev)) = adminSessions w
              \<and> out (handle_update e w ev) = [Reply ''Wrong password'']))
   \<and> (a \<in> set (adminSessions w')
        \<and> \<not> (upd ev' = TextMessage L_Logout_Admin \<and> id_from (sender ev') = a) \<longrightarrow>
          a \<in> set (adminSessions (after (handle_update e w' ev'))))"
proof (intro conjI impI)
  assume a: "upd ev = TextMessage raw \<and> states w (id_from (sender ev)) = Some st
      \<and> step st = ''await_admin_pass'' \<and> \<not> early_trigger e ev raw"
  then have "on_text_state e w ev raw = Some (step_await_admin_pass e w ev (trim raw))"
    by (simp add: on_text_state_await_admin_pass)
  with a have r: "handle_update e w ev = step_await_admin_pass e w ev (trim raw)"
    by (simp add: handle_text_state)
  show "by_handler (handle_update e w ev) = StateFlow ''await_admin_pass''"
    unfolding r by simp
  show "states (after (handle_update e w ev)) (id_from (sender ev)) = None"
    unfolding r by (simp add: step_await_admin_pass_def Let_def)
  {
    assume "Some (trim raw) = ADMIN_PASS e"
    then show "set (adminSessions (after (handle_update e w ev))) =
                insert (id_from (sender ev)) (set (adminSessions w))"
      and "out (handle_update e w ev) = [Reply ''Admin access granted'']"
      unfolding r by (simp_all add: step_await_admin_pass_def Let_def)
  }
  {
    assume "Some (trim raw) \<noteq> ADMIN_PASS e"
    then show "adminSessions (after (handle_update e w ev)) = adminSessions w"
      and "out (handle_update e w ev) = [Reply ''Wrong password'']"
      unfolding r by (simp_all add: step_await_admin_pass_def Let_def)
  }
next
  assume "a \<in> set (adminSessions w')
        \<and> \<not> (upd ev' = TextMessage L_Logout_Admin \<and> id_from (sender ev') = a)"
  then show "a \<in> set (adminSessions (after (handle_update e w' ev')))"
    by (simp add: turn_keeps_admins)
qed

text \<open>
  Three instances: user 7 sends the secret and is elevated; user 7 sends
  \<^verbatim>\<open>/start@otherbot\<close>, which is consumed as a wrong password; and an elevated user 7 stays
  elevated when user 8 sends the logout label.
\<close>

theorem password_attempt_and_elevation_witness:
  "set (adminSessions (after (handle_update env1
        (world_of (in_step 7 ''await_admin_pass'' None) [] [user_of 7 [profile1] (Some ''p-1'')])
        (text_from 7 ''s3cret'')))) = {7}
   \<and> states (after (handle_update env1
        (world_of (in_step 7 ''await_admin_pass'' None) [] [user_of 7 [profile1] (Some ''p-1'')])
        (text_from 7 ''s3cret''))) 7 = None
   \<and> out (handle_update env1
        (world_of (in_step 7 ''await_admin_pass'' None) [] [user_of 7 [profile1] (Some ''p-1'')])
        (command_from 7 ''/start@otherbot'' 15)) = [Reply ''Wrong password'']
   \<and> states (after (handle_update env1
        (world_of (in_step 7 ''await_admin_pass'' None) [] [user_of 7 [profile1] (Some ''p-1'')])
        (command_from 7 ''/start@otherbot'' 15))) 7 = None
   \<and> adminSessions (after (handle_update env1
        (world_of (in_step 7 ''await_admin_pass'' None) [] [user_of 7 [profile1] (Some ''p-1'')])
        (command_from 7 ''/start@otherbot'' 15))) = []
   \<and> 7 \<in> set (adminSessions (after (handle_update env1
        (world_of Map.empty [7] [user_of 7 [profile1] (Some ''p-1'')])
        (text_from 8 L_Logout_Admin))))"
  using password_attempt_and_elevation [of "text_from 7 ''s3cret''" "''s3cret''"
      "world_of (in_step 7 ''await_admin_pass'' None) [] [user_of 7 [profile1] (Some ''p-1'')]"
      "\<lparr>step = ''await_admin_pass'', data = None\<rparr>" env1 7
      "world_of Map.empty [7] [user_of 7 [profile1] (Some ''p-1'')]" "text_from 8 L_Logout_Admin"]
    password_attempt_and_elevation [of "command_from 7 ''/start@otherbot'' 15"
      "''/start@otherbot''"
      "world_of (in_step 7 ''await_admin_pass'' None) [] [user_of 7 [profile1] (Some ''p-1'')]"
      "\<lparr>step = ''await_admin_pass'', data = None\<rparr>" env1 7
      "world_of Map.empty [7] [user_of 7 [profile1] (Some ''p-1'')]" "text_from 8 L_Logout_Admin"]
  by (simp add: in_step_def early_trigger_defs label_defs trim_defs env1_def ADMIN_PASS_def
      split_def toLowerCase_def lower_char_def Let_def)

section \<open>Privileged operations need elevation on every turn\<close>

text \<open>
  Claim C6. A turn whose sender is not in the elevation set at that turn never has a
  privileged effect, whatever the sender's session step: it is not taken by the
  broadcast branches, the admin reply branch or an admin operation, it creates no
  exercise, workout or challenge, every stored user is still stored with the same role,
  and none of the messages it sends is a broadcast or a trainer reply. So a user who was
  logged out of elevation while the session stayed at a privileged step triggers
  nothing privileged.
\<close>

theorem no_privileged_effect_without_elevation:
  assumes "id_from (sender ev) \<notin> set (adminSessions w)"
  shows "unprivileged w (handle_update e w ev)"
proof (cases "upd ev")
  case (TextMessage raw)
  have "unprivileged w (compose text_middlewares e w ev raw)"
  proof (rule compose_cases [where P = "unprivileged w"])
    fix m r
    assume "m \<in> set text_middlewares" and "m e w ev raw = Some r"
    then show "unprivileged w r"
      using assms by (rule middleware_unprivileged)
  next
    show "unprivileged w \<lparr>after = w, out = [], by_handler = Unhandled, threw = False\<rparr>"
      by (simp add: unprivileged_def)
  qed
  with TextMessage show ?thesis
    by (simp add: handle_update_def)
next
  case OtherMessage
  then show ?thesis
    by (simp add: handle_update_def)
next
  case (CallbackQuery d)
  then show ?thesis
    by (simp add: handle_update_def)
qed

text \<open>
  An instance: the session of user 7 is still at the broadcast step, but user 7 is no
  longer elevated and sends a text. The fallback answers and nothing is broadcast.
\<close>

theorem no_privileged_effect_without_elevation_witness:
  "unprivileged
     (world_of (in_step 7 ''admin_broadcast'' None) []
        [user_of 7 [profile1] (Some ''p-1''), user_of 8 [] None])
     (handle_update env1
        (world_of (in_step 7 ''admin_broadcast'' None) []
           [user_of 7 [profile1] (Some ''p-1''), user_of 8 [] None])
        (text_from 7 ''hello''))
   \<and> out (handle_update env1
        (world_of (in_step 7 ''admin_broadcast'' None) []
           [user_of 7 [profile1] (Some ''p-1''), user_of 8 [] None])
        (text_from 7 ''hello'')) =
       [Reply ''I did not understand that. Use the menu below or /help.'']"
  using no_privileged_effect_without_elevation [of "text_from 7 ''hello''"
      "world_of (in_step 7 ''admin_broadcast'' None) []
           [user_of 7 [profile1] (Some ''p-1''), user_of 8 [] None]" env1]
  by (simp add: handle_update_def text_middlewares_def early_middlewares_def
      late_middlewares_def hears_def command_def command_of_def label_defs late_label_defs
      on_text_state_def on_text_admin_reply_def on_text_admin_ops_def on_text_report_bug_def
      on_message_def adminSessions_has_def in_step_def trim_defs)

section \<open>Deleting a profile\<close>








section \<open>Broadcast: isolate and count\<close>

text \<open>
  Claim C8. A broadcast over the N stored users of which K sends fail does not throw:
  every user gets exactly one send, in order, whether or not earlier sends failed, and
  the report to the admin states sent = N - K and failed = K. This holds for the turn of
  an elevated admin in step \<^verbatim>\<open>admin_broadcast\<close> (the branch at line 618), and for the
  branch at line 901 taken by itself.
\<close>

theorem broadcast_isolates_and_counts:
  "(upd ev = TextMessage raw \<and> states w (id_from (sender ev)) = Some st
      \<and> step st = ''admin_broadcast'' \<and> id_from (sender ev) \<in> set (adminSessions w)
      \<and> \<not> early_trigger e ev raw \<and> msg = ([CHR 0xF0, CHR 0x9F, CHR 0x93, CHR 0xA2] @ '' Message from Admin:'' @ [CHR 0x0A, CHR 0x0A]) @ trim raw
    \<longrightarrow> \<not> threw (handle_update e w ev)
        \<and> out (handle_update e w ev) =
            sends_to ev msg (users w)
            @ [Reply (''Broadcast complete. Sent ''
                      @ show_nat (length (users w) - failures ev msg (users w))
                      @ '', failed '' @ show_nat (failures ev msg (users w)) @ ''.'')])
   \<and> (msg' = ([CHR 0xF0, CHR 0x9F, CHR 0x93, CHR 0xA2] @ '' Admin Broadcast:'' @ [CHR 0x0A, CHR 0x0A]) @ t
    \<longrightarrow> \<not> threw (admin_broadcast_fallback w ev t)
        \<and> out (admin_broadcast_fallback w ev t) =
            sends_to ev msg' (users w)
            @ [Reply (''Broadcast sent to ''
                      @ show_nat (length (users w) - failures ev msg' (users w))
                      @ '' users, failed '' @ show_nat (failures ev msg' (users w)) @ ''.'')])"
proof (intro conjI impI)
  assume a: "upd ev = TextMessage raw \<and> states w (id_from (sender ev)) = Some st
      \<and> step st = ''admin_broadcast'' \<and> id_from (sender ev) \<in> set (adminSessions w)
      \<and> \<not> early_trigger e ev raw \<and> msg = ([CHR 0xF0, CHR 0x9F, CHR 0x93, CHR 0xA2] @ '' Message from Admin:'' @ [CHR 0x0A, CHR 0x0A]) @ trim raw"
  then have "on_text_state e w ev raw = Some (admin_broadcast_first w ev (trim raw))"
    by (simp add: on_text_state_broadcast adminSessions_has_def)
  with a have r: "handle_update e w ev = admin_broadcast_first w ev (trim raw)"
    by (simp add: handle_text_state)
  show "\<not> threw (handle_update e w ev)"
    unfolding r by (simp add: admin_broadcast_first_def fan_out_counts)
  show "out (handle_update e w ev) =
            sends_to ev msg (users w)
            @ [Reply (''Broadcast complete. Sent ''
                      @ show_nat (length (users w) - failures ev msg (users w))
                      @ '', failed '' @ show_nat (failures ev msg (users w)) @ ''.'')]"
    unfolding r using a by (simp add: admin_broadcast_first_def fan_out_counts)
next
  assume "msg' = ([CHR 0xF0, CHR 0x9F, CHR 0x93, CHR 0xA2] @ '' Admin Broadcast:'' @ [CHR 0x0A, CHR 0x0A]) @ t"
  then show "\<not> threw (admin_broadcast_fallback w ev t)"
    by (simp add: admin_broadcast_fallback_def fan_out_counts)
next
  assume "msg' = ([CHR 0xF0, CHR 0x9F, CHR 0x93, CHR 0xA2] @ '' Admin Broadcast:'' @ [CHR 0x0A, CHR 0x0A]) @ t"
  then show "out (admin_broadcast_fallback w ev t) =
            sends_to ev msg' (users w)
            @ [Reply (''Broadcast sent to ''
                      @ show_nat (length (users w) - failures ev msg' (users w))
                      @ '' users, failed '' @ show_nat (failures ev msg' (users w)) @ ''.'')]"
    by (simp add: admin_broadcast_fallback_def fan_out_counts)
qed

text \<open>
  An instance: three users, the send to user 8 fails. The admin (user 7) is told of two
  sent and one failed, and user 9 still got the message.
\<close>

theorem broadcast_isolates_and_counts_witness:
  "\<not> threw (handle_update env1
       (world_of (in_step 7 ''admin_broadcast'' None) [7]
          [user_of 7 [profile1] (Some ''p-1''), user_of 8 [] None, user_of 9 [] None])
       (text_from 7 ''hello''))
   \<and> out (handle_update env1
       (world_of (in_step 7 ''admin_broadcast'' None) [7]
          [user_of 7 [profile1] (Some ''p-1''), user_of 8 [] None, user_of 9 [] None])
       (text_from 7 ''hello'')) =
     [SendMessage (Fin 7) ([CHR 0xF0, CHR 0x9F, CHR 0x93, CHR 0xA2] @ '' Message from Admin:'' @ [CHR 0x0A, CHR 0x0A] @ ''hello'') True,
      SendMessage (Fin 8) ([CHR 0xF0, CHR 0x9F, CHR 0x93, CHR 0xA2] @ '' Message from Admin:'' @ [CHR 0x0A, CHR 0x0A] @ ''hello'') False,
      SendMessage (Fin 9) ([CHR 0xF0, CHR 0x9F, CHR 0x93, CHR 0xA2] @ '' Message from Admin:'' @ [CHR 0x0A, CHR 0x0A] @ ''hello'') True,
      Reply ''Broadcast complete. Sent 2, failed 1.'']
   \<and> out (admin_broadcast_fallback
       (world_of (in_step 7 ''admin_broadcast'' None) [7]
          [user_of 7 [profile1] (Some ''p-1''), user_of 8 [] None, user_of 9 [] None])
       (text_from 7 ''hello'') ''hello'') =
     [SendMessage (Fin 7) ([CHR 0xF0, CHR 0x9F, CHR 0x93, CHR 0xA2] @ '' Admin Broadcast:'' @ [CHR 0x0A, CHR 0x0A] @ ''hello'') True,
      SendMessage (Fin 8) ([CHR 0xF0, CHR 0x9F, CHR 0x93, CHR 0xA2] @ '' Admin Broadcast:'' @ [CHR 0x0A, CHR 0x0A] @ ''hello'') False,
      SendMessage (Fin 9) ([CHR 0xF0, CHR 0x9F, CHR 0x93, CHR 0xA2] @ '' Admin Broadcast:'' @ [CHR 0x0A, CHR 0x0A] @ ''hello'') True,
      Reply ''Broadcast sent to 2 users, failed 1.'']"
  using broadcast_isolates_and_counts [of "text_from 7 ''hello''" "''hello''"
      "world_of (in_step 7 ''admin_broadcast'' None) [7]
          [user_of 7 [profile1] (Some ''p-1''), user_of 8 [] None, user_of 9 [] None]"
      "\<lparr>step = ''admin_broadcast'', data = None\<rparr>" env1
      "([CHR 0xF0, CHR 0x9F, CHR 0x93, CHR 0xA2] @ '' Message from Admin:'' @ [CHR 0x0A, CHR 0x0A] @ ''hello'')" "([CHR 0xF0, CHR 0x9F, CHR 0x93, CHR 0xA2] @ '' Admin Broadcast:'' @ [CHR 0x0A, CHR 0x0A] @ ''hello'')" "''hello''"]
  by (simp add: in_step_def early_trigger_defs label_defs trim_defs sends_to_def failures_def
      delivered_def user_of_def User_create_def show_nat.simps)

section \<open>The fitness level\<close>

text \<open>
  Claim C9 says that every stored fitness level is one of \<^verbatim>\<open>beginner\<close>,
  \<^verbatim>\<open>intermediate\<close>, \<^verbatim>\<open>advanced\<close>, the values the schema names in its comment. The
  editor's branch stores the lower-cased text without comparing it with them: user 7,
  asked for a new fitness level, sends \<^verbatim>\<open>Expert\<close>, and the profile is saved with the
  level \<^verbatim>\<open>expert\<close>.
\<close>

theorem fitness_level_editor_stores_any_text:
  "findOne 7 (users (after (handle_update env1
      (world_of (in_step 7 ''editing_profile_fitnesslevel'' (Some (ProfileId ''p-1''))) []
         [user_of 7 [profile1] (Some ''p-1'')])
      (text_from 7 ''Expert'')))) =
     Some (user_of 7 [profile1\<lparr>fitnessLevel := Some ''expert''\<rparr>] (Some ''p-1''))
   \<and> fitnessLevel profile1 = Some ''beginner''
   \<and> ''expert'' \<notin> set [''beginner'', ''intermediate'', ''advanced'']"
  by (simp add: eval_defs handle_update_def text_middlewares_def compose_early on_text_state_def
      step_editing_profile_def editor_commit_def toLowerCase_def lower_char_def Let_def)

section \<open>The two broadcast branches\<close>

lemma compose_append:
  "compose (xs @ ys) e w ev raw =
     (if \<forall>m \<in> set xs. m e w ev raw = None then compose ys e w ev raw
      else compose xs e w ev raw)"
  by (induction xs) (auto split: option.splits)

lemma early_not_fallback_branch:
  "by_handler (compose early_middlewares e w ev raw) \<noteq> AdminBroadcast_fallback"
  by (rule compose_cases [where P = "\<lambda>r. by_handler r \<noteq> AdminBroadcast_fallback"])
     (auto simp: early_middlewares_def hears_def command_def split: if_splits)

lemma admin_ops_fallback_branch:
  assumes "on_text_admin_ops e w ev raw = Some r" and "by_handler r = AdminBroadcast_fallback"
  shows "\<exists>st. states w (id_from (sender ev)) = Some st \<and> step st = ''admin_broadcast''
           \<and> adminSessions_has w (id_from (sender ev))"
  using assms
  by (auto simp: on_text_admin_ops_def Let_def split: option.splits if_splits)

lemma late_not_fallback_branch:
  assumes "on_text_state e w ev raw = None"
  shows "by_handler (compose late_middlewares e w ev raw) \<noteq> AdminBroadcast_fallback"
proof (rule compose_cases [where P = "\<lambda>r. by_handler r \<noteq> AdminBroadcast_fallback"])
  fix m r
  assume m: "m \<in> set late_middlewares" and r: "m e w ev raw = Some r"
  show "by_handler r \<noteq> AdminBroadcast_fallback"
  proof (cases "m = on_text_admin_ops")
    case True
    show ?thesis
    proof
      assume "by_handler r = AdminBroadcast_fallback"
      with r True obtain st where "states w (id_from (sender ev)) = Some st"
        and "step st = ''admin_broadcast''" and "adminSessions_has w (id_from (sender ev))"
        using admin_ops_fallback_branch [of e w ev raw r] by auto
      then have "on_text_state e w ev raw = Some (admin_broadcast_first w ev (trim raw))"
        by (rule on_text_state_broadcast)
      with assms show False by simp
    qed
  next
    case False
    with m r on_text_admin_reply_by [of e w ev raw r] on_text_report_bug_by [of e w ev raw r]
    show ?thesis
      by (auto simp: late_middlewares_def hears_def command_def split: if_splits)
  qed
next
  show "by_handler \<lparr>after = w, out = [], by_handler = Unhandled, threw = False\<rparr>
          \<noteq> AdminBroadcast_fallback"
    by simp
qed

lemma deliveries_sends_to:
  "deliveries (sends_to ev msg us @ [Reply t]) =
     map (\<lambda>u. (Fin (of_int (telegramId u)), delivered ev msg u)) us"
  by (induction us) (simp_all add: deliveries_def sends_to_def)

lemma recipients_sends_to:
  "map fst (deliveries (sends_to ev msg us @ [Reply t])) =
     map (\<lambda>u. Fin (of_int (telegramId u))) us"
  by (simp add: deliveries_sends_to comp_def)

text \<open>
  Claim C10 says that for every text turn of an elevated admin whose session step is
  \<^verbatim>\<open>admin_broadcast\<close> the first text middleware handles the turn. The menu handlers are
  registered before it: admin 7, elevated and about to broadcast, sends the label of the
  profile menu. The profile menu answers, no broadcast branch runs, nothing is sent to
  any user, and the session still waits for the broadcast text.
\<close>

theorem menu_label_is_not_broadcast:
  "states (world_of (in_step 7 ''admin_broadcast'' None) [7]
        [user_of 7 [profile1] (Some ''p-1''), user_of 8 [] None, user_of 9 [] None]) 7 = Some \<lparr>step = ''admin_broadcast'', data = None\<rparr>
   \<and> 7 \<in> set (adminSessions (world_of (in_step 7 ''admin_broadcast'' None) [7]
        [user_of 7 [profile1] (Some ''p-1''), user_of 8 [] None, user_of 9 [] None]))
   \<and> by_handler (handle_update env1
        (world_of (in_step 7 ''admin_broadcast'' None) [7]
        [user_of 7 [profile1] (Some ''p-1''), user_of 8 [] None, user_of 9 [] None])
        (text_from 7 L_Profile)) = Hears L_Profile
   \<and> by_handler (handle_update env1
        (world_of (in_step 7 ''admin_broadcast'' None) [7]
        [user_of 7 [profile1] (Some ''p-1''), user_of 8 [] None, user_of 9 [] None])
        (text_from 7 L_Profile)) \<noteq> AdminBroadcast_first
   \<and> deliveries (out (handle_update env1
        (world_of (in_step 7 ''admin_broadcast'' None) [7]
        [user_of 7 [profile1] (Some ''p-1''), user_of 8 [] None, user_of 9 [] None])
        (text_from 7 L_Profile))) = []
   \<and> states (after (handle_update env1
        (world_of (in_step 7 ''admin_broadcast'' None) [7]
        [user_of 7 [profile1] (Some ''p-1''), user_of 8 [] None, user_of 9 [] None])
        (text_from 7 L_Profile))) 7 = Some \<lparr>step = ''admin_broadcast'', data = None\<rparr>"
  by (simp add: handle_update_def text_middlewares_def early_middlewares_def hears_def
      command_def command_of_def label_defs hears_Profile_def findOne_def user_of_def
      User_create_def in_step_def deliveries_def)

text \<open>
  Claim C10, amended. (1) A text turn of an elevated admin in step \<^verbatim>\<open>admin_broadcast\<close>
  is handled by the broadcast branch of the first text middleware, which returns without
  calling \<^verbatim>\<open>next()\<close>, unless the text is the command \<^verbatim>\<open>/start\<close> addressed to this bot or
  one of the 23 labels registered before that middleware; such a text is taken by the
  start handler or the menu handler and reaches neither broadcast branch. (2) No turn at
  all is taken by the broadcast branch of the third text middleware: it is unreachable.
  (3) Taken by themselves on the same state, turn and text, the two branches leave the
  same state, do not throw, send one message to each stored user, to the same
  recipients in the same order, and each reports sent = N - K and failed = K for the K
  sends of its own that failed. The outcomes of the sends, and with them the two
  counts, are identical whenever the transport treats the two wordings alike for every
  recipient. The branches differ in the prefix of the message and the wording of the
  report.
\<close>

theorem broadcast_fallback_unreachable_and_equivalent:
  "(upd ev = TextMessage raw \<and> states w (id_from (sender ev)) = Some st
      \<and> step st = ''admin_broadcast'' \<and> id_from (sender ev) \<in> set (adminSessions w) \<longrightarrow>
        (\<not> early_trigger e ev raw \<longrightarrow>
           handle_update e w ev = admin_broadcast_first w ev (trim raw)
           \<and> by_handler (handle_update e w ev) = AdminBroadcast_first)
        \<and> (early_trigger e ev raw \<longrightarrow>
             by_handler (handle_update e w ev) =
               (if command_of (me e) ev raw = Some ''start'' then Start else Hears raw)))
   \<and> by_handler (handle_update e w' ev') \<noteq> AdminBroadcast_fallback
   \<and> after (admin_broadcast_first w ev t) = after (admin_broadcast_fallback w ev t)
   \<and> \<not> threw (admin_broadcast_first w ev t) \<and> \<not> threw (admin_broadcast_fallback w ev t)
   \<and> map fst (deliveries (out (admin_broadcast_first w ev t)))
        = map (\<lambda>u. Fin (of_int (telegramId u))) (users w)
   \<and> map fst (deliveries (out (admin_broadcast_fallback w ev t)))
        = map (\<lambda>u. Fin (of_int (telegramId u))) (users w)
   \<and> last (out (admin_broadcast_first w ev t)) =
        Reply (''Broadcast complete. Sent ''
               @ show_nat (length (users w)
                           - failures ev (([CHR 0xF0, CHR 0x9F, CHR 0x93, CHR 0xA2] @ '' Message from Admin:'' @ [CHR 0x0A, CHR 0x0A]) @ t) (users w))
               @ '', failed ''
               @ show_nat (failures ev (([CHR 0xF0, CHR 0x9F, CHR 0x93, CHR 0xA2] @ '' Message from Admin:'' @ [CHR 0x0A, CHR 0x0A]) @ t) (users w)) @ ''.'')
   \<and> last (out (admin_broadcast_fallback w ev t)) =
        Reply (''Broadcast sent to ''
               @ show_nat (length (users w)
                           - failures ev (([CHR 0xF0, CHR 0x9F, CHR 0x93, CHR 0xA2] @ '' Admin Broadcast:'' @ [CHR 0x0A, CHR 0x0A]) @ t) (users w))
               @ '' users, failed ''
               @ show_nat (failures ev (([CHR 0xF0, CHR 0x9F, CHR 0x93, CHR 0xA2] @ '' Admin Broadcast:'' @ [CHR 0x0A, CHR 0x0A]) @ t) (users w)) @ ''.'')
   \<and> ((\<forall>u \<in> set (users w). delivered ev (([CHR 0xF0, CHR 0x9F, CHR 0x93, CHR 0xA2] @ '' Message from Admin:'' @ [CHR 0x0A, CHR 0x0A]) @ t) u
                              = delivered ev (([CHR 0xF0, CHR 0x9F, CHR 0x93, CHR 0xA2] @ '' Admin Broadcast:'' @ [CHR 0x0A, CHR 0x0A]) @ t) u) \<longrightarrow>
        deliveries (out (admin_broadcast_first w ev t))
          = deliveries (out (admin_broadcast_fallback w ev t))
        \<and> failures ev (([CHR 0xF0, CHR 0x9F, CHR 0x93, CHR 0xA2] @ '' Message from Admin:'' @ [CHR 0x0A, CHR 0x0A]) @ t) (users w)
            = failures ev (([CHR 0xF0, CHR 0x9F, CHR 0x93, CHR 0xA2] @ '' Admin Broadcast:'' @ [CHR 0x0A, CHR 0x0A]) @ t) (users w))"
proof (intro conjI impI)
  assume a: "upd ev = TextMessage raw \<and> states w (id_from (sender ev)) = Some st
      \<and> step st = ''admin_broadcast'' \<and> id_from (sender ev) \<in> set (adminSessions w)"
    and ne: "\<not> early_trigger e ev raw"
  from a have "on_text_state e w ev raw = Some (admin_broadcast_first w ev (trim raw))"
    by (simp add: on_text_state_broadcast adminSessions_has_def)
  with a ne show r: "handle_update e w ev = admin_broadcast_first w ev (trim raw)"
    by (simp add: handle_text_state)
  show "by_handler (handle_update e w ev) = AdminBroadcast_first"
    unfolding r by simp
next
  assume a: "upd ev = TextMessage raw \<and> states w (id_from (sender ev)) = Some st
      \<and> step st = ''admin_broadcast'' \<and> id_from (sender ev) \<in> set (adminSessions w)"
    and t: "early_trigger e ev raw"
  show "by_handler (handle_update e w ev) =
               (if command_of (me e) ev raw = Some ''start'' then Start else Hears raw)"
  proof (cases "command_of (me e) ev raw = Some ''start''")
    case True
    with a show ?thesis
      by (simp add: command_start)
  next
    case False
    with t have "raw \<in> set early_labels"
      by (simp add: early_trigger_def)
    with a False show ?thesis
      by (simp add: hears_label)
  qed
next
  show "by_handler (handle_update e w' ev') \<noteq> AdminBroadcast_fallback"
  proof (cases "upd ev'")
    case (TextMessage raw')
    have split: "compose text_middlewares e w' ev' raw' =
              (if \<forall>m \<in> set early_middlewares. m e w' ev' raw' = None
               then compose ([on_text_state] @ late_middlewares) e w' ev' raw'
               else compose early_middlewares e w' ev' raw')"
      unfolding text_middlewares_def by (rule compose_append)
    have "by_handler (compose text_middlewares e w' ev' raw') \<noteq> AdminBroadcast_fallback"
    proof (cases "\<forall>m \<in> set early_middlewares. m e w' ev' raw' = None")
      case False
      from split have "compose text_middlewares e w' ev' raw' = compose early_middlewares e w' ev' raw'"
        unfolding if_not_P [OF False] .
      then show ?thesis
        by (simp only: early_not_fallback_branch not_False_eq_True)
    next
      case True
      from split have rest: "compose text_middlewares e w' ev' raw' =
          compose ([on_text_state] @ late_middlewares) e w' ev' raw'"
        unfolding if_P [OF True] .
      show ?thesis
      proof (cases "on_text_state e w' ev' raw'")
        case None
        then have "compose text_middlewares e w' ev' raw' = compose late_middlewares e w' ev' raw'"
          unfolding rest by simp
        with None show ?thesis
          by (simp only: late_not_fallback_branch not_False_eq_True)
      next
        case (Some r)
        then have "compose text_middlewares e w' ev' raw' = r"
          unfolding rest by simp
        with on_text_state_by [OF Some] show ?thesis
          by auto
      qed
    qed
    with TextMessage show ?thesis
      by (simp add: handle_update_def)
  next
    case OtherMessage
    then show ?thesis
      by (simp add: handle_update_def)
  next
    case (CallbackQuery d)
    then show ?thesis
      by (simp add: handle_update_def)
  qed
next
  show "after (admin_broadcast_first w ev t) = after (admin_broadcast_fallback w ev t)"
    by (simp add: admin_broadcast_first_def admin_broadcast_fallback_def fan_out_counts)
next
  show "\<not> threw (admin_broadcast_first w ev t)"
    by (simp add: admin_broadcast_first_def fan_out_counts)
next
  show "\<not> threw (admin_broadcast_fallback w ev t)"
    by (simp add: admin_broadcast_fallback_def fan_out_counts)
next
  show "map fst (deliveries (out (admin_broadcast_first w ev t)))
        = map (\<lambda>u. Fin (of_int (telegramId u))) (users w)"
    by (simp add: admin_broadcast_first_def fan_out_counts recipients_sends_to)
next
  show "map fst (deliveries (out (admin_broadcast_fallback w ev t)))
        = map (\<lambda>u. Fin (of_int (telegramId u))) (users w)"
    by (simp add: admin_broadcast_fallback_def fan_out_counts recipients_sends_to)
next
  show "last (out (admin_broadcast_first w ev t)) =
        Reply (''Broadcast complete. Sent ''
               @ show_nat (length (users w)
                           - failures ev (([CHR 0xF0, CHR 0x9F, CHR 0x93, CHR 0xA2] @ '' Message from Admin:'' @ [CHR 0x0A, CHR 0x0A]) @ t) (users w))
               @ '', failed ''
               @ show_nat (failures ev (([CHR 0xF0, CHR 0x9F, CHR 0x93, CHR 0xA2] @ '' Message from Admin:'' @ [CHR 0x0A, CHR 0x0A]) @ t) (users w)) @ ''.'')"
    by (simp add: admin_broadcast_first_def fan_out_counts)
next
  show "last (out (admin_broadcast_fallback w ev t)) =
        Reply (''Broadcast sent to ''
               @ show_nat (length (users w)
                           - failures ev (([CHR 0xF0, CHR 0x9F, CHR 0x93, CHR 0xA2] @ '' Admin Broadcast:'' @ [CHR 0x0A, CHR 0x0A]) @ t) (users w))
               @ '' users, failed ''
               @ show_nat (failures ev (([CHR 0xF0, CHR 0x9F, CHR 0x93, CHR 0xA2] @ '' Admin Broadcast:'' @ [CHR 0x0A, CHR 0x0A]) @ t) (users w)) @ ''.'')"
    by (simp add: admin_broadcast_fallback_def fan_out_counts)
next
  let ?m1 = "([CHR 0xF0, CHR 0x9F, CHR 0x93, CHR 0xA2] @ '' Message from Admin:'' @ [CHR 0x0A, CHR 0x0A]) @ t" and ?m2 = "([CHR 0xF0, CHR 0x9F, CHR 0x93, CHR 0xA2] @ '' Admin Broadcast:'' @ [CHR 0x0A, CHR 0x0A]) @ t"
  assume same: "\<forall>u \<in> set (users w). delivered ev ?m1 u = delivered ev ?m2 u"
  then have "filter (\<lambda>u. \<not> delivered ev ?m1 u) (users w)
             = filter (\<lambda>u. \<not> delivered ev ?m2 u) (users w)"
    by (intro filter_cong) auto
  then show "failures ev ?m1 (users w) = failures ev ?m2 (users w)"
    unfolding failures_def by (rule arg_cong)
  have d: "deliveries (out (admin_broadcast_first w ev t))
            = map (\<lambda>u. (Fin (of_int (telegramId u)), delivered ev ?m1 u)) (users w)"
    by (simp add: admin_broadcast_first_def fan_out_counts deliveries_sends_to)
  have "deliveries (out (admin_broadcast_fallback w ev t))
            = map (\<lambda>u. (Fin (of_int (telegramId u)), delivered ev ?m2 u)) (users w)"
    by (simp add: admin_broadcast_fallback_def fan_out_counts deliveries_sends_to)
  with d same show "deliveries (out (admin_broadcast_first w ev t))
            = deliveries (out (admin_broadcast_fallback w ev t))"
    by simp
qed

text \<open>
  An instance: three users, and a transport that refuses user 8 whatever the text. The
  admin's turn with the text \<^verbatim>\<open>hello\<close> is the broadcast of the first middleware, and
  both branches reach the same recipients with the same outcomes.
\<close>

theorem broadcast_fallback_unreachable_and_equivalent_witness:
  "by_handler (handle_update env1
     (world_of (in_step 7 ''admin_broadcast'' None) [7]
        [user_of 7 [profile1] (Some ''p-1''), user_of 8 [] None, user_of 9 [] None])
     (text_from 7 ''hello'')) = AdminBroadcast_first
   \<and> map fst (deliveries (out (admin_broadcast_first
     (world_of (in_step 7 ''admin_broadcast'' None) [7]
        [user_of 7 [profile1] (Some ''p-1''), user_of 8 [] None, user_of 9 [] None])
     (text_from 7 ''hello'') ''hello''))) = [Fin 7, Fin 8, Fin 9]
   \<and> map fst (deliveries (out (admin_broadcast_fallback
     (world_of (in_step 7 ''admin_broadcast'' None) [7]
        [user_of 7 [profile1] (Some ''p-1''), user_of 8 [] None, user_of 9 [] None])
     (text_from 7 ''hello'') ''hello''))) = [Fin 7, Fin 8, Fin 9]
   \<and> deliveries (out (admin_broadcast_first
     (world_of (in_step 7 ''admin_broadcast'' None) [7]
        [user_of 7 [profile1] (Some ''p-1''), user_of 8 [] None, user_of 9 [] None])
     (text_from 7 ''hello'') ''hello'')) =
     deliveries (out (admin_broadcast_fallback
     (world_of (in_step 7 ''admin_broadcast'' None) [7]
        [user_of 7 [profile1] (Some ''p-1''), user_of 8 [] None, user_of 9 [] None])
     (text_from 7 ''hello'') ''hello''))"
  using broadcast_fallback_unreachable_and_equivalent [of "text_from 7 ''hello''" "''hello''"
      "world_of (in_step 7 ''admin_broadcast'' None) [7]
        [user_of 7 [profile1] (Some ''p-1''), user_of 8 [] None, user_of 9 [] None]"
      "\<lparr>step = ''admin_broadcast'', data = None\<rparr>" env1
      "world_of Map.empty [] []" "text_from 7 ''hello''" "''hello''"]
  by (simp add: in_step_def early_trigger_defs label_defs trim_defs delivered_def
      user_of_def User_create_def)

end
